theory Spec2Isabelle
  imports Complex_Main
begin

section \<open>JavaScript values and strings\<close>

subsection \<open>Numbers\<close>

text \<open>
  A JavaScript number is \<open>NaN\<close>, one of the two infinities, or a finite value.  The
  finite values are binary fractions; the model admits every rational in their place and
  does not tell \<open>-0\<close> from \<open>0\<close> (no operation of the code does).
\<close>

datatype number = NaN | Infinity | MinusInfinity | Finite rat

text \<open>
  The comparisons \<open>a <= b\<close> and \<open>a < b\<close>; both are false as soon as an operand is
  \<open>NaN\<close>.  \<open>a >= b\<close> is \<open>lessEq b a\<close> and \<open>a > b\<close> is \<open>less b a\<close>.
\<close>

fun lessEq :: "number \<Rightarrow> number \<Rightarrow> bool" where
  "lessEq NaN b = False"
| "lessEq a NaN = False"
| "lessEq MinusInfinity b = True"
| "lessEq a Infinity = True"
| "lessEq (Finite x) (Finite y) = (x \<le> y)"
| "lessEq Infinity b = False"
| "lessEq a MinusInfinity = False"

definition less :: "number \<Rightarrow> number \<Rightarrow> bool" where
  "less a b = (lessEq a b \<and> a \<noteq> b)"

text \<open>\<open>!n\<close> for a number: true for \<open>0\<close> and for \<open>NaN\<close>.\<close>

definition falsyNumber :: "number \<Rightarrow> bool" where
  "falsyNumber n = (n = NaN \<or> n = Finite 0)"

subsection \<open>Values\<close>

text \<open>
  A decoded response body is a JSON value (its numbers are finite); a property that is
  missing reads as \<open>undefined\<close>, so the value type carries both.  An object lists its
  own properties in order (a decoded JSON object has pairwise distinct keys).  Strings
  are lists of code units.
\<close>

datatype jsvalue =
    JUndefined
  | JNull
  | JBool bool
  | JNum rat
  | JStr string
  | JArr "jsvalue list"
  | JObj "(string \<times> jsvalue) list"

text \<open>An own property of an object: \<open>undefined\<close> when the key is missing.\<close>

definition lookupProp :: "(string \<times> jsvalue) list \<Rightarrow> string \<Rightarrow> jsvalue" where
  "lookupProp fs k = (case map_of fs k of None \<Rightarrow> JUndefined | Some v \<Rightarrow> v)"

text \<open>
  Property read \<open>v.k\<close>, for the property names the clients read (\<open>status\<close>,
  \<open>data\<close>, \<open>pagination\<close>, \<open>error\<close>, \<open>code\<close>, \<open>message\<close>, \<open>length\<close>;
  none of them is an index or a prototype member).  Reading a property of \<open>null\<close> or
  \<open>undefined\<close> throws a TypeError: the result \<open>None\<close>.
\<close>

fun getProp :: "jsvalue \<Rightarrow> string \<Rightarrow> jsvalue option" where
  "getProp JUndefined k = None"
| "getProp JNull k = None"
| "getProp (JBool b) k = Some JUndefined"
| "getProp (JNum n) k = Some JUndefined"
| "getProp (JStr s) k = Some (if k = ''length'' then JNum (of_nat (length s)) else JUndefined)"
| "getProp (JArr xs) k = Some (if k = ''length'' then JNum (of_nat (length xs)) else JUndefined)"
| "getProp (JObj fs) k = Some (lookupProp fs k)"

text \<open>Truthiness, as \<open>||\<close>, \<open>!\<close> and \<open>if\<close> test it.\<close>

fun truthy :: "jsvalue \<Rightarrow> bool" where
  "truthy JUndefined = False"
| "truthy JNull = False"
| "truthy (JBool b) = b"
| "truthy (JNum n) = (n \<noteq> 0)"
| "truthy (JStr s) = (s \<noteq> [])"
| "truthy (JArr xs) = True"
| "truthy (JObj fs) = True"

text \<open>\<open>xs.join(sep)\<close> on strings.\<close>

fun join :: "string \<Rightarrow> string list \<Rightarrow> string" where
  "join sep [] = []"
| "join sep [x] = x"
| "join sep (x # y # ys) = x @ sep @ join sep (y # ys)"

text \<open>
  The platform operations the client relies on without defining them: the rendering of a
  number (\<open>Number::toString\<close>) and \<open>JSON.stringify\<close>.
\<close>

record js_platform =
  Number_toString :: "number \<Rightarrow> string"
  JSON_stringify :: "jsvalue \<Rightarrow> string"

text \<open>
  String conversion of a value inside a template literal; \<open>None\<close> when the conversion
  throws a TypeError.  An array joins its elements with a comma, \<open>null\<close> and \<open>undefined\<close>
  elements giving the empty string.  An object is converted by its \<open>toString\<close> method:
  the inherited one answers \<open>[object Object]\<close>; an own property \<open>toString\<close> of a decoded
  object hides it and is not callable, the fallback \<open>valueOf\<close> answers no primitive, and
  the conversion throws.
\<close>

fun ToString :: "'z js_platform_scheme \<Rightarrow> jsvalue \<Rightarrow> string option" where
  "ToString P JUndefined = Some ''undefined''"
| "ToString P JNull = Some ''null''"
| "ToString P (JBool b) = Some (if b then ''true'' else ''false'')"
| "ToString P (JNum n) = Some (Number_toString P (Finite n))"
| "ToString P (JStr s) = Some s"
| "ToString P (JArr xs) =
     map_option (join '','')
       (those (map (\<lambda>x. if x = JUndefined \<or> x = JNull then Some [] else ToString P x) xs))"
| "ToString P (JObj fs) =
     (if map_of fs ''toString'' = None then Some ''[object Object]'' else None)"

text \<open>\<open>s.includes(t)\<close>: \<open>t\<close> occurs in \<open>s\<close> as a contiguous run.\<close>

fun includes_js :: "string \<Rightarrow> string \<Rightarrow> bool" where
  "includes_js [] t = (t = [])"
| "includes_js (c # cs) t = (take (length t) (c # cs) = t \<or> includes_js cs t)"

section \<open>The request transport interface\<close>

datatype http_method = GET | POST | PUT | DELETE | PATCH

text \<open>
  Query parameter values are \<open>string | number | boolean | string[]\<close>, path parameter
  values \<open>string | number\<close>.
\<close>

datatype param_value = PString string | PNumber number | PBoolean bool | PArray "string list"

datatype path_value = PathString string | PathNumber number

text \<open>
  One invocation of \<open>IRequestTransport.request\<close>.  An absent argument is \<open>None\<close>; the
  entries of a parameter object are listed in property order.
\<close>

record 's transport_call =
  call_method :: http_method
  call_path :: string
  call_params :: "(string \<times> param_value) list option"
  call_pathParams :: "(string \<times> path_value) list option"
  call_signal :: "'s option"

text \<open>
  A transport resolves with a decoded body or rejects with an error of its own
  (type \<open>'x\<close>).
\<close>

type_synonym ('s, 'x) IRequestTransport = "'s transport_call \<Rightarrow> 'x + jsvalue"

section \<open>The info client\<close>

datatype 'x client_error =
    InvalidInputError string
  | Error string
  | TypeError
  | Rejected 'x

text \<open>
  Every method returns its outcome (\<open>Inl\<close> the thrown error) together with the list of
  transport invocations it made.
\<close>

type_synonym ('s, 'x, 'a) client_result = "('x client_error + 'a) \<times> 's transport_call list"

text \<open>The character class \<open>[A-Z-]\<close> and the test \<open>market.match(/^[A-Z-]+$/)\<close>.\<close>

definition upperOrHyphen :: "char \<Rightarrow> bool" where
  "upperOrHyphen c = ((65 \<le> (of_char c :: nat) \<and> (of_char c :: nat) \<le> 90) \<or> c = CHR ''-'')"

definition matchMarket :: "string \<Rightarrow> bool" where
  "matchMarket market = (market \<noteq> [] \<and> list_all upperOrHyphen market)"

text \<open>The guard \<open>!market || !market.match(/^[A-Z-]+$/)\<close>.\<close>

definition invalidMarket :: "string \<Rightarrow> bool" where
  "invalidMarket market = (market = [] \<or> \<not> matchMarket market)"

text \<open>
  The tail shared, word for word, by \<open>markets\<close>, \<open>marketStats\<close>, \<open>marketOrderBook\<close>,
  \<open>marketTrades\<close>, \<open>candles\<close> and \<open>openInterest\<close>: return \<open>response.data\<close> on
  \<open>"OK"\<close>, throw on \<open>"ERROR"\<close>, throw the stringified payload otherwise.  The message
  of the error thrown on \<open>"ERROR"\<close> is a template literal over \<open>response.error.code\<close> and
  \<open>response.error.message\<close>: reading them throws when \<open>response.error\<close> is \<open>null\<close> or
  \<open>undefined\<close>, and converting them to strings may throw.
\<close>

definition apiError :: "'z js_platform_scheme \<Rightarrow> jsvalue \<Rightarrow> 'x client_error + 'a" where
  "apiError P response =
     (case getProp response ''error'' of
        None \<Rightarrow> Inl TypeError
      | Some err \<Rightarrow>
          (case (Option.bind (getProp err ''code'') (ToString P),
                 Option.bind (getProp err ''message'') (ToString P)) of
             (Some code, Some message) \<Rightarrow>
               Inl (Error (''API Error: '' @ code @ '' - '' @ message))
           | _ \<Rightarrow> Inl TypeError))"

definition unexpectedFormat :: "'z js_platform_scheme \<Rightarrow> jsvalue \<Rightarrow> 'x client_error + 'a" where
  "unexpectedFormat P response =
     Inl (Error (''Unexpected response format: '' @ JSON_stringify P response))"

definition unwrapData :: "'z js_platform_scheme \<Rightarrow> jsvalue \<Rightarrow> 'x client_error + jsvalue" where
  "unwrapData P response =
     (case getProp response ''status'' of
        None \<Rightarrow> Inl TypeError
      | Some status \<Rightarrow>
          if status = JStr ''OK'' then
            (case getProp response ''data'' of None \<Rightarrow> Inl TypeError | Some d \<Rightarrow> Inr d)
          else if status = JStr ''ERROR'' then apiError P response
          else unexpectedFormat P response)"

text \<open>
  \<open>await this.transport.request(...)\<close> followed by the handling of the response; a
  rejection of the transport passes through (\<open>Rejected\<close>).
\<close>

definition awaitRequest ::
  "('s, 'x) IRequestTransport \<Rightarrow> 's transport_call \<Rightarrow> (jsvalue \<Rightarrow> 'x client_error + 'a)
     \<Rightarrow> ('s, 'x, 'a) client_result" where
  "awaitRequest transport call handle =
     (case transport call of
        Inl x \<Rightarrow> (Inl (Rejected x), [call])
      | Inr response \<Rightarrow> (handle response, [call]))"

text \<open>
  \<open>markets\<close> takes \<open>args?.market\<close>, a string (\<open>Inl\<close>) or an array of strings (\<open>Inr\<close>),
  and passes it on when it is truthy: an array always is, a string unless it is empty.
\<close>

definition markets ::
  "'z js_platform_scheme \<Rightarrow> ('s, 'x) IRequestTransport \<Rightarrow> (string + string list) option
     \<Rightarrow> 's option \<Rightarrow> ('s, 'x, jsvalue) client_result" where
  "markets P transport market signal =
     (let params =
        (case market of
           None \<Rightarrow> []
         | Some (Inl m) \<Rightarrow> if m = [] then [] else [(''market'', PString m)]
         | Some (Inr ms) \<Rightarrow> [(''market'', PArray ms)])
      in awaitRequest transport
           \<lparr>call_method = GET, call_path = ''info/markets'', call_params = Some params,
            call_pathParams = None, call_signal = signal\<rparr>
           (unwrapData P))"

definition marketStats ::
  "'z js_platform_scheme \<Rightarrow> ('s, 'x) IRequestTransport \<Rightarrow> string \<Rightarrow> 's option
     \<Rightarrow> ('s, 'x, jsvalue) client_result" where
  "marketStats P transport market signal =
     (if invalidMarket market then (Inl (InvalidInputError ''Invalid market input.''), [])
      else awaitRequest transport
             \<lparr>call_method = GET, call_path = ''info/markets/{market}/stats'',
              call_params = None, call_pathParams = Some [(''market'', PathString market)],
              call_signal = signal\<rparr>
             (unwrapData P))"

definition marketOrderBook ::
  "'z js_platform_scheme \<Rightarrow> ('s, 'x) IRequestTransport \<Rightarrow> string \<Rightarrow> 's option
     \<Rightarrow> ('s, 'x, jsvalue) client_result" where
  "marketOrderBook P transport market signal =
     awaitRequest transport
       \<lparr>call_method = GET, call_path = ''info/markets/{market}/orderbook'',
        call_params = None, call_pathParams = Some [(''market'', PathString market)],
        call_signal = signal\<rparr>
       (unwrapData P)"

definition marketTrades ::
  "'z js_platform_scheme \<Rightarrow> ('s, 'x) IRequestTransport \<Rightarrow> string \<Rightarrow> 's option
     \<Rightarrow> ('s, 'x, jsvalue) client_result" where
  "marketTrades P transport market signal =
     (if invalidMarket market then (Inl (InvalidInputError ''Invalid market input.''), [])
      else awaitRequest transport
             \<lparr>call_method = GET, call_path = ''info/markets/{market}/trades'',
              call_params = None, call_pathParams = Some [(''market'', PathString market)],
              call_signal = signal\<rparr>
             (unwrapData P))"

text \<open>The test \<open>candleType.match(/^(trades|mark-prices|index-prices)$/)\<close>.\<close>

definition matchCandleType :: "string \<Rightarrow> bool" where
  "matchCandleType candleType =
     (candleType = ''trades'' \<or> candleType = ''mark-prices'' \<or> candleType = ''index-prices'')"

text \<open>
  The numeric arguments are JavaScript numbers.  \<open>!limit || limit <= 0\<close> is
  \<open>falsyNumber limit \<or> lessEq limit (Finite 0)\<close>.
\<close>

definition candles ::
  "'z js_platform_scheme \<Rightarrow> ('s, 'x) IRequestTransport \<Rightarrow> string \<Rightarrow> string \<Rightarrow> string
     \<Rightarrow> number \<Rightarrow> number option \<Rightarrow> 's option \<Rightarrow> ('s, 'x, jsvalue) client_result" where
  "candles P transport market candleType interval limit endTime signal =
     (if invalidMarket market then (Inl (InvalidInputError ''Invalid market input.''), [])
      else if interval = [] then (Inl (InvalidInputError ''Interval is required.''), [])
      else if falsyNumber limit \<or> lessEq limit (Finite 0) then
        (Inl (InvalidInputError ''Limit must be a positive number.''), [])
      else if \<not> matchCandleType candleType then
        (Inl (InvalidInputError ''Invalid candleType.''), [])
      else
        let params =
          [(''interval'', PString interval), (''limit'', PNumber limit)]
          @ (case endTime of None \<Rightarrow> [] | Some e \<Rightarrow> [(''endTime'', PNumber e)])
        in awaitRequest transport
             \<lparr>call_method = GET, call_path = ''info/candles/{market}/{candleType}'',
              call_params = Some params,
              call_pathParams =
                Some [(''market'', PathString market), (''candleType'', PathString candleType)],
              call_signal = signal\<rparr>
             (unwrapData P))"

text \<open>
  \<open>funding\<close> returns \<open>{data, pagination}\<close>; the pagination is
  \<open>response.pagination || {cursor: 0, count: response.data.length}\<close>.
\<close>

record funding_result =
  data :: jsvalue
  pagination :: jsvalue

definition unwrapFunding ::
  "'z js_platform_scheme \<Rightarrow> jsvalue \<Rightarrow> 'x client_error + funding_result" where
  "unwrapFunding P response =
     (case getProp response ''status'' of
        None \<Rightarrow> Inl TypeError
      | Some status \<Rightarrow>
          if status = JStr ''OK'' then
            (case (getProp response ''data'', getProp response ''pagination'') of
               (Some d, Some p) \<Rightarrow>
                 if truthy p then Inr \<lparr>data = d, pagination = p\<rparr>
                 else
                   (case getProp d ''length'' of
                      None \<Rightarrow> Inl TypeError
                    | Some n \<Rightarrow>
                        Inr \<lparr>data = d,
                             pagination = JObj [(''cursor'', JNum 0), (''count'', n)]\<rparr>)
             | _ \<Rightarrow> Inl TypeError)
          else if status = JStr ''ERROR'' then apiError P response
          else unexpectedFormat P response)"

text \<open>
  The guards of \<open>funding\<close>: \<open>!startTime || startTime <= 0\<close>, the same for \<open>endTime\<close>,
  \<open>startTime >= endTime\<close>, and \<open>limit !== undefined && (limit <= 0 || limit > 10000)\<close>.
\<close>

definition funding ::
  "'z js_platform_scheme \<Rightarrow> ('s, 'x) IRequestTransport \<Rightarrow> string \<Rightarrow> number \<Rightarrow> number
     \<Rightarrow> number option \<Rightarrow> number option \<Rightarrow> 's option
     \<Rightarrow> ('s, 'x, funding_result) client_result" where
  "funding P transport market startTime endTime cursor limit signal =
     (if invalidMarket market then (Inl (InvalidInputError ''Invalid market input.''), [])
      else if falsyNumber startTime \<or> lessEq startTime (Finite 0) then
        (Inl (InvalidInputError ''Start time must be a positive number.''), [])
      else if falsyNumber endTime \<or> lessEq endTime (Finite 0) then
        (Inl (InvalidInputError ''End time must be a positive number.''), [])
      else if lessEq endTime startTime then
        (Inl (InvalidInputError ''Start time must be before end time.''), [])
      else if (case limit of
                 None \<Rightarrow> False
               | Some l \<Rightarrow> lessEq l (Finite 0) \<or> less (Finite 10000) l) then
        (Inl (InvalidInputError ''Limit must be between 1 and 10000.''), [])
      else
        let params =
          [(''startTime'', PNumber startTime), (''endTime'', PNumber endTime)]
          @ (case cursor of None \<Rightarrow> [] | Some c \<Rightarrow> [(''cursor'', PNumber c)])
          @ (case limit of None \<Rightarrow> [] | Some l \<Rightarrow> [(''limit'', PNumber l)])
        in awaitRequest transport
             \<lparr>call_method = GET, call_path = ''info/{market}/funding'',
              call_params = Some params,
              call_pathParams = Some [(''market'', PathString market)],
              call_signal = signal\<rparr>
             (unwrapFunding P))"

text \<open>The test \<open>interval.match(/^(P1H|P1D)$/)\<close>.\<close>

definition matchInterval :: "string \<Rightarrow> bool" where
  "matchInterval interval = (interval = ''P1H'' \<or> interval = ''P1D'')"

definition openInterest ::
  "'z js_platform_scheme \<Rightarrow> ('s, 'x) IRequestTransport \<Rightarrow> string \<Rightarrow> string \<Rightarrow> number
     \<Rightarrow> number \<Rightarrow> number option \<Rightarrow> 's option \<Rightarrow> ('s, 'x, jsvalue) client_result" where
  "openInterest P transport market interval startTime endTime limit signal =
     (if invalidMarket market then (Inl (InvalidInputError ''Invalid market input.''), [])
      else if interval = [] \<or> \<not> matchInterval interval then
        (Inl (InvalidInputError ''Interval must be P1H or P1D.''), [])
      else if falsyNumber startTime \<or> lessEq startTime (Finite 0) then
        (Inl (InvalidInputError ''Start time must be a positive number.''), [])
      else if falsyNumber endTime \<or> lessEq endTime (Finite 0) then
        (Inl (InvalidInputError ''End time must be a positive number.''), [])
      else if lessEq endTime startTime then
        (Inl (InvalidInputError ''Start time must be before end time.''), [])
      else if (case limit of
                 None \<Rightarrow> False
               | Some l \<Rightarrow> lessEq l (Finite 0) \<or> less (Finite 300) l) then
        (Inl (InvalidInputError ''Limit must be between 1 and 300.''), [])
      else
        let params =
          [(''interval'', PString interval), (''startTime'', PNumber startTime),
           (''endTime'', PNumber endTime)]
          @ (case limit of None \<Rightarrow> [] | Some l \<Rightarrow> [(''limit'', PNumber l)])
        in awaitRequest transport
             \<lparr>call_method = GET, call_path = ''info/{market}/open-interests'',
              call_params = Some params,
              call_pathParams = Some [(''market'', PathString market)],
              call_signal = signal\<rparr>
             (unwrapData P))"

text \<open>A call raised a client input error: it threw an \<open>InvalidInputError\<close>.\<close>

definition isInvalidInput :: "'x client_error + 'a \<Rightarrow> bool" where
  "isInvalidInput r = (case r of Inl (InvalidInputError m) \<Rightarrow> True | _ \<Rightarrow> False)"

section \<open>The HTTP transport\<close>

subsection \<open>String forms\<close>

text \<open>
  The decimal numeral of a natural number: the string form of the status code of a
  response.
\<close>

function showNat :: "nat \<Rightarrow> string" where
  "showNat n = (if n < 10 then [char_of (48 + n)] else showNat (n div 10) @ [char_of (48 + n mod 10)])"
  by pat_completeness auto
termination
  by (relation "measure id") auto

declare showNat.simps [simp del]

text \<open>
  \<open>String(value)\<close> for a parameter value: a string is itself, a number is rendered by the
  platform, a boolean is \<open>true\<close> or \<open>false\<close>, an array joins its elements with a comma.
\<close>

fun String_param :: "'z js_platform_scheme \<Rightarrow> param_value \<Rightarrow> string" where
  "String_param P (PString s) = s"
| "String_param P (PNumber n) = Number_toString P n"
| "String_param P (PBoolean b) = (if b then ''true'' else ''false'')"
| "String_param P (PArray vs) = join '','' vs"

fun String_path :: "'z js_platform_scheme \<Rightarrow> path_value \<Rightarrow> string" where
  "String_path P (PathString s) = s"
| "String_path P (PathNumber n) = Number_toString P n"

subsection \<open>Path parameters\<close>

text \<open>\<open>s.indexOf(t)\<close>: the position of the first occurrence of \<open>t\<close> in \<open>s\<close>.\<close>

fun indexOf :: "string \<Rightarrow> string \<Rightarrow> nat option" where
  "indexOf [] t = (if t = [] then Some 0 else None)"
| "indexOf (c # cs) t =
     (if take (length t) (c # cs) = t then Some 0 else map_option Suc (indexOf cs t))"

text \<open>
  The replacement text of \<open>String.prototype.replace\<close> with a string pattern: in the
  replacement template \<open>$$\<close> stands for a dollar sign, \<open>$&\<close> for the matched text,
  a dollar sign followed by a grave accent for the text before the match and a dollar
  sign followed by an apostrophe for the text after it; there are no
  capture groups, so every other character, a lone \<open>$\<close> included, stands for itself.
\<close>

fun getSubstitution :: "string \<Rightarrow> string \<Rightarrow> string \<Rightarrow> string \<Rightarrow> string" where
  "getSubstitution matched preceding following [] = []"
| "getSubstitution matched preceding following [c] = [c]"
| "getSubstitution matched preceding following (c # d # rest) =
     (if c = CHR ''$'' \<and> d = CHR ''$'' then
        CHR ''$'' # getSubstitution matched preceding following rest
      else if c = CHR ''$'' \<and> d = CHR ''&'' then
        matched @ getSubstitution matched preceding following rest
      else if c = CHR ''$'' \<and> d = CHR 0x60 then
        preceding @ getSubstitution matched preceding following rest
      else if c = CHR ''$'' \<and> d = CHR 0x27 then
        following @ getSubstitution matched preceding following rest
      else c # getSubstitution matched preceding following (d # rest))"

text \<open>
  \<open>s.replace(searchString, replaceValue)\<close> with two strings: only the first occurrence
  of \<open>searchString\<close> is replaced.
\<close>

definition replace_js :: "string \<Rightarrow> string \<Rightarrow> string \<Rightarrow> string" where
  "replace_js s searchString replaceValue =
     (case indexOf s searchString of
        None \<Rightarrow> s
      | Some pos \<Rightarrow>
          (let preceding = take pos s;
               following = drop (pos + length searchString) s
           in preceding @ getSubstitution searchString preceding following replaceValue
              @ following))"

text \<open>The placeholder of a key: the key between braces.\<close>

definition placeholder :: "string \<Rightarrow> string" where
  "placeholder key = ''{'' @ key @ ''}''"

text \<open>The loop over \<open>Object.entries(pathParams)\<close>.\<close>

fun applyPathParams ::
  "'z js_platform_scheme \<Rightarrow> string \<Rightarrow> (string \<times> path_value) list \<Rightarrow> string" where
  "applyPathParams P processedPath [] = processedPath"
| "applyPathParams P processedPath ((key, v) # rest) =
     applyPathParams P (replace_js processedPath (placeholder key) (String_path P v)) rest"

definition processPath ::
  "'z js_platform_scheme \<Rightarrow> string \<Rightarrow> (string \<times> path_value) list option \<Rightarrow> string" where
  "processPath P path pathParams =
     (case pathParams of None \<Rightarrow> path | Some entries \<Rightarrow> applyPathParams P path entries)"

subsection \<open>Query parameters\<close>

text \<open>
  A URL is kept as the reference and the base given to its constructor together with the
  list of its \<open>URLSearchParams\<close>.  \<open>append\<close> adds a pair at the end; \<open>set\<close> overwrites the
  first pair of that name and removes the other pairs of that name, or appends when
  there is none.
\<close>

record url =
  url_reference :: string
  url_base :: string
  searchParams :: "(string \<times> string) list"

definition searchParams_append :: "string \<Rightarrow> string \<Rightarrow> (string \<times> string) list \<Rightarrow> (string \<times> string) list" where
  "searchParams_append name v params = params @ [(name, v)]"

fun setFirst :: "string \<Rightarrow> string \<Rightarrow> (string \<times> string) list \<Rightarrow> (string \<times> string) list" where
  "setFirst name v [] = []"
| "setFirst name v (p # ps) =
     (if fst p = name then (name, v) # filter (\<lambda>q. fst q \<noteq> name) ps
      else p # setFirst name v ps)"

definition searchParams_set :: "string \<Rightarrow> string \<Rightarrow> (string \<times> string) list \<Rightarrow> (string \<times> string) list" where
  "searchParams_set name v params =
     (if list_ex (\<lambda>p. fst p = name) params then setFirst name v params
      else params @ [(name, v)])"

text \<open>The loop over \<open>Object.entries(params)\<close>.\<close>

fun addQueryParams ::
  "'z js_platform_scheme \<Rightarrow> (string \<times> string) list \<Rightarrow> (string \<times> param_value) list
     \<Rightarrow> (string \<times> string) list" where
  "addQueryParams P q [] = q"
| "addQueryParams P q ((key, PArray vs) # rest) =
     addQueryParams P (foldl (\<lambda>q' v. searchParams_append key v q') q vs) rest"
| "addQueryParams P q ((key, v) # rest) =
     addQueryParams P (searchParams_set key (String_param P v) q) rest"

definition withQueryParams ::
  "'z js_platform_scheme \<Rightarrow> url \<Rightarrow> (string \<times> param_value) list option \<Rightarrow> url" where
  "withQueryParams P u params =
     (case params of
        None \<Rightarrow> u
      | Some entries \<Rightarrow> u\<lparr>searchParams := addQueryParams P (searchParams u) entries\<rparr>)"

text \<open>One turn of that loop.\<close>

definition addEntry ::
  "'z js_platform_scheme \<Rightarrow> (string \<times> string) list \<Rightarrow> string \<times> param_value
     \<Rightarrow> (string \<times> string) list" where
  "addEntry P q e =
     (case snd e of
        PArray vs \<Rightarrow> foldl (\<lambda>q' v. searchParams_append (fst e) v q') q vs
      | v \<Rightarrow> searchParams_set (fst e) (String_param P v) q)"

text \<open>
  The serialization rule in the words of the specification: a scalar value becomes one
  pair, an array value one pair per element, in the order of the array.
\<close>

fun queryPairs :: "'z js_platform_scheme \<Rightarrow> string \<times> param_value \<Rightarrow> (string \<times> string) list" where
  "queryPairs P (key, PArray vs) = map (Pair key) vs"
| "queryPairs P (key, v) = [(key, String_param P v)]"

subsection \<open>Requests, responses and the platform\<close>

text \<open>
  The signal of a request is the caller's (an opaque \<open>'s\<close>) or the signal of an
  \<open>AbortController\<close> created by the transport, named by the controller's number.
\<close>

datatype 's signal = CallerSignal 's | ControllerSignal nat

text \<open>
  \<open>fetchOptions\<close> is a \<open>RequestInit\<close> without \<open>body\<close> and \<open>method\<close>: its \<open>signal\<close>
  entry and the rest (an opaque \<open>'o\<close>).
\<close>

record ('s, 'o) fetchOptions =
  fo_signal :: "'s option"
  fo_other :: 'o

text \<open>
  A request is kept as the arguments its constructor was given: the URL, the method, the
  other options and the signal (the signal of a \<open>Request\<close> follows the signal it was
  constructed with).
\<close>

record ('s, 'o) Request =
  req_url :: url
  req_method :: http_method
  req_init :: 'o
  req_signal :: "'s signal option"

text \<open>
  A response: its status code, \<open>headers.get("content-type")\<close>, and what reading the body
  as text and as JSON gives (\<open>Inl\<close> when the read throws).
\<close>

datatype 'e Response =
  Response (status: nat) (contentType: "string option") (text_body: "'e + string")
    (json_body: "'e + jsvalue")

definition ok :: "'e Response \<Rightarrow> bool" where
  "ok response = (200 \<le> status response \<and> status response \<le> 299)"

text \<open>
  What the transport takes from its platform, besides the rendering of numbers: the
  \<open>URL\<close> constructor (it throws on an invalid base, and the reference may already carry
  a query), the error the \<open>Request\<close> constructor throws on arguments it refuses, if
  any, and \<open>fetch\<close>.  Errors thrown by the platform or by a hook are of type \<open>'e\<close>.
\<close>

record ('e, 's, 'o) platform = js_platform +
  URL_new :: "string \<Rightarrow> string \<Rightarrow> 'e + url"
  Request_throws :: "('s, 'o) Request \<Rightarrow> 'e option"
  fetch :: "('s, 'o) Request \<Rightarrow> 'e + 'e Response"

text \<open>\<open>new Request(url, init)\<close>, on the arguments of the request \<open>rq\<close>.\<close>

definition Request_new :: "('e, 's, 'o) platform \<Rightarrow> ('s, 'o) Request \<Rightarrow> 'e + ('s, 'o) Request" where
  "Request_new plat rq = (case Request_throws plat rq of None \<Rightarrow> Inr rq | Some e \<Rightarrow> Inl e)"

datatype 'e transport_error =
    HttpRequestError (err_response: "'e Response") (err_responseBody: "string option") (err_message: string)
  | Propagated 'e

text \<open>The constructor of \<open>HttpRequestError\<close> builds the message.\<close>

definition HttpRequestError_new :: "'e Response \<Rightarrow> string option \<Rightarrow> 'e transport_error" where
  "HttpRequestError_new r body =
     HttpRequestError r body
       (''HTTP request failed: status '' @ showNat (status r)
        @ (case body of
             None \<Rightarrow> []
           | Some b \<Rightarrow> if b = [] then [] else '', body '' @ [CHR 0x22] @ b @ [CHR 0x22]))"

subsection \<open>The transport and its constructor\<close>

record ('e, 's, 'o) HttpTransport =
  isTestnet :: bool
  timeout :: "number option"
  server_mainnet_api :: string
  server_testnet_api :: string
  fetchOptions :: "('s, 'o) fetchOptions"
  onRequest :: "(('s, 'o) Request \<Rightarrow> 'e + ('s, 'o) Request option) option"
  onResponse :: "('e Response \<Rightarrow> 'e + 'e Response option) option"

text \<open>
  The option \<open>timeout?: number | null\<close> has three forms: left out, \<open>null\<close>, a number.
\<close>

datatype timeout_option = TimeoutAbsent | TimeoutNull | TimeoutMs number

record ('e, 's, 'o) HttpTransportOptions =
  opt_isTestnet :: "bool option"
  opt_timeout :: timeout_option
  opt_mainnet_api :: "string option"
  opt_testnet_api :: "string option"
  opt_fetchOptions :: "('s, 'o) fetchOptions option"
  opt_onRequest :: "(('s, 'o) Request \<Rightarrow> 'e + ('s, 'o) Request option) option"
  opt_onResponse :: "('e Response \<Rightarrow> 'e + 'e Response option) option"

text \<open>
  \<open>a ?? b\<close> is \<open>b\<close> when \<open>a\<close> is \<open>undefined\<close> or \<open>null\<close>; so a timeout of \<open>0\<close> is stored
  as it is, and \<open>null\<close> is replaced by the default like a timeout left out.
  \<open>emptyInit\<close> stands for the empty \<open>RequestInit\<close> \<open>{}\<close>.
\<close>

definition HttpTransport_new ::
  "'o \<Rightarrow> ('e, 's, 'o) HttpTransportOptions option \<Rightarrow> ('e, 's, 'o) HttpTransport" where
  "HttpTransport_new emptyInit options =
     \<lparr>isTestnet = (case Option.bind options opt_isTestnet of None \<Rightarrow> False | Some b \<Rightarrow> b),
      timeout =
        (case options of
           None \<Rightarrow> Some (Finite 10000)
         | Some opts \<Rightarrow>
             (case opt_timeout opts of
                TimeoutAbsent \<Rightarrow> Some (Finite 10000)
              | TimeoutNull \<Rightarrow> Some (Finite 10000)
              | TimeoutMs n \<Rightarrow> Some n)),
      server_mainnet_api =
        (case Option.bind options opt_mainnet_api of
           None \<Rightarrow> ''https://app.extended.exchange'' | Some a \<Rightarrow> a),
      server_testnet_api =
        (case Option.bind options opt_testnet_api of
           None \<Rightarrow> ''https://testnet.extended.exchange'' | Some a \<Rightarrow> a),
      fetchOptions =
        (case Option.bind options opt_fetchOptions of
           None \<Rightarrow> \<lparr>fo_signal = None, fo_other = emptyInit\<rparr> | Some f \<Rightarrow> f),
      onRequest = Option.bind options opt_onRequest,
      onResponse = Option.bind options opt_onResponse\<rparr>"

subsection \<open>Timers\<close>

text \<open>
  The part of the runtime a call touches: the timers that are pending (handle, delay,
  and the controller the callback aborts), the handle given out last (handles are
  positive), the number of abort controllers created, and the requests handed to
  \<open>fetch\<close>.
\<close>

record ('s, 'o) runtime =
  lastTimerId :: nat
  pendingTimers :: "(nat \<times> number \<times> nat) list"
  controllers :: nat
  fetched :: "('s, 'o) Request list"

definition newAbortController :: "('s, 'o) runtime \<Rightarrow> nat \<times> ('s, 'o) runtime" where
  "newAbortController st = (controllers st, st\<lparr>controllers := Suc (controllers st)\<rparr>)"

definition setTimeout :: "nat \<Rightarrow> number \<Rightarrow> ('s, 'o) runtime \<Rightarrow> nat \<times> ('s, 'o) runtime" where
  "setTimeout controller delay st =
     (let h = Suc (lastTimerId st)
      in (h, st\<lparr>lastTimerId := h, pendingTimers := (h, delay, controller) # pendingTimers st\<rparr>))"

definition clearTimeout :: "nat \<Rightarrow> ('s, 'o) runtime \<Rightarrow> ('s, 'o) runtime" where
  "clearTimeout h st = st\<lparr>pendingTimers := filter (\<lambda>t. fst t \<noteq> h) (pendingTimers st)\<rparr>"

text \<open>
  The two declarations before \<open>try\<close>: \<open>this.timeout ? new AbortController() : null\<close> and
  \<open>this.timeout ? setTimeout(() => controller?.abort(), this.timeout) : null\<close>.  A
  timeout is truthy when it is a number other than \<open>0\<close> and \<open>NaN\<close>.
\<close>

definition timeoutSet :: "number option \<Rightarrow> bool" where
  "timeoutSet tmo = (case tmo of None \<Rightarrow> False | Some n \<Rightarrow> \<not> falsyNumber n)"

definition armTimeout ::
  "number option \<Rightarrow> ('s, 'o) runtime \<Rightarrow> nat option \<times> nat option \<times> ('s, 'o) runtime" where
  "armTimeout tmo st =
     (case tmo of
        None \<Rightarrow> (None, None, st)
      | Some n \<Rightarrow>
          if falsyNumber n then (None, None, st)
          else
            (let (controller, st1) = newAbortController st;
                 (timeoutId, st2) = setTimeout controller n st1
             in (Some controller, Some timeoutId, st2)))"

text \<open>
  The runtime in which the body of \<open>try\<close> starts when the timeout is \<open>n\<close>, a truthy
  number: a controller has been created and its timer is pending.
\<close>

definition armed :: "number \<Rightarrow> ('s, 'o) runtime \<Rightarrow> ('s, 'o) runtime" where
  "armed n st =
     st\<lparr>controllers := Suc (controllers st), lastTimerId := Suc (lastTimerId st),
        pendingTimers := (Suc (lastTimerId st), n, controllers st) # pendingTimers st\<rparr>"

text \<open>The \<open>finally\<close> block: \<open>if (timeoutId) clearTimeout(timeoutId)\<close>.\<close>

definition finallyClear :: "nat option \<Rightarrow> ('s, 'o) runtime \<Rightarrow> ('s, 'o) runtime" where
  "finallyClear timeoutId st =
     (case timeoutId of
        None \<Rightarrow> st
      | Some h \<Rightarrow> if h \<noteq> 0 then clearTimeout h st else st)"

subsection \<open>The request\<close>

text \<open>The test \<open>contentType?.includes("application/json")\<close>.\<close>

definition jsonContentType :: "string option \<Rightarrow> bool" where
  "jsonContentType ct = (case ct of None \<Rightarrow> False | Some c \<Rightarrow> includes_js c ''application/json'')"

text \<open>The classification of the final response, from \<open>if (!finalResponse.ok)\<close> on.\<close>

definition classify :: "'e Response \<Rightarrow> 'e transport_error + jsvalue" where
  "classify finalResponse =
     (if \<not> ok finalResponse then
        Inl (HttpRequestError_new finalResponse
               (case text_body finalResponse of Inl e \<Rightarrow> None | Inr b \<Rightarrow> Some b))
      else if \<not> jsonContentType (contentType finalResponse) then
        Inl (HttpRequestError_new finalResponse
               (Some (''Expected JSON response, got ''
                      @ (case contentType finalResponse of None \<Rightarrow> ''null'' | Some c \<Rightarrow> c))))
      else
        (case json_body finalResponse of
           Inl e \<Rightarrow> Inl (Propagated e)
         | Inr body \<Rightarrow> Inr body))"

text \<open>The signal of the request: \<open>signal || controller?.signal\<close>.\<close>

definition effectiveSignal :: "'s option \<Rightarrow> nat option \<Rightarrow> 's signal option" where
  "effectiveSignal signal controller =
     (case signal of
        Some s \<Rightarrow> Some (CallerSignal s)
      | None \<Rightarrow> map_option ControllerSignal controller)"

text \<open>
  The arguments of \<open>new Request\<close> inside \<open>try\<close>: \<open>signal\<close> is written after the spread
  of \<open>fetchOptions\<close>, so it replaces a signal given there.
\<close>

definition buildRequest ::
  "('e, 's, 'o) HttpTransport \<Rightarrow> http_method \<Rightarrow> url \<Rightarrow> 's option \<Rightarrow> nat option
     \<Rightarrow> ('s, 'o) Request" where
  "buildRequest t method u signal controller =
     \<lparr>req_url = u, req_method = method, req_init = fo_other (fetchOptions t),
      req_signal = effectiveSignal signal controller\<rparr>"

text \<open>A hook that is not configured, or returns nothing, leaves its argument in place.\<close>

definition runHook :: "('a \<Rightarrow> 'e + 'a option) option \<Rightarrow> 'a \<Rightarrow> 'e + 'a" where
  "runHook hook x =
     (case hook of
        None \<Rightarrow> Inr x
      | Some h \<Rightarrow>
          (case h x of
             Inl e \<Rightarrow> Inl e
           | Inr None \<Rightarrow> Inr x
           | Inr (Some y) \<Rightarrow> Inr y))"

text \<open>
  The body of \<open>try\<close> up to the final response: the request is constructed and passed
  through the \<open>onRequest\<close> hook, the final request goes to \<open>fetch\<close>, the response
  passes through the \<open>onResponse\<close> hook.  An error thrown on the way, by the
  constructor of the request already, ends the body.
\<close>

definition exchange ::
  "('e, 's, 'o) HttpTransport \<Rightarrow> ('e, 's, 'o) platform \<Rightarrow> http_method \<Rightarrow> url \<Rightarrow> 's option
     \<Rightarrow> nat option \<Rightarrow> ('s, 'o) runtime \<Rightarrow> ('e + 'e Response) \<times> ('s, 'o) runtime" where
  "exchange t plat method u signal controller st =
     (case Request_new plat (buildRequest t method u signal controller) of
        Inl e \<Rightarrow> (Inl e, st)
      | Inr constructed \<Rightarrow>
          (case runHook (onRequest t) constructed of
             Inl e \<Rightarrow> (Inl e, st)
           | Inr finalRequest \<Rightarrow>
               (let st' = st\<lparr>fetched := fetched st @ [finalRequest]\<rparr>
                in case fetch plat finalRequest of
                     Inl e \<Rightarrow> (Inl e, st')
                   | Inr response \<Rightarrow> (runHook (onResponse t) response, st'))))"

text \<open>The body of \<open>try\<close>.\<close>

definition tryRequest ::
  "('e, 's, 'o) HttpTransport \<Rightarrow> ('e, 's, 'o) platform \<Rightarrow> http_method \<Rightarrow> url \<Rightarrow> 's option
     \<Rightarrow> nat option \<Rightarrow> ('s, 'o) runtime
     \<Rightarrow> ('e transport_error + jsvalue) \<times> ('s, 'o) runtime" where
  "tryRequest t plat method u signal controller st =
     (case exchange t plat method u signal controller st of
        (Inl e, st') \<Rightarrow> (Inl (Propagated e), st')
      | (Inr finalResponse, st') \<Rightarrow> (classify finalResponse, st'))"

text \<open>The base of the selected network.\<close>

definition baseUrl :: "('e, 's, 'o) HttpTransport \<Rightarrow> string" where
  "baseUrl t = (if isTestnet t then server_testnet_api t else server_mainnet_api t)"

text \<open>
  The URL of a call: the processed path under \<open>/api/v1/\<close>, resolved against the base of
  the selected network, with the query parameters added.
\<close>

definition requestUrl ::
  "('e, 's, 'o) HttpTransport \<Rightarrow> ('e, 's, 'o) platform \<Rightarrow> 's transport_call \<Rightarrow> 'e + url" where
  "requestUrl t plat call =
     (let processedPath = processPath plat (call_path call) (call_pathParams call)
      in case URL_new plat (''/api/v1/'' @ processedPath) (baseUrl t) of
           Inl e \<Rightarrow> Inl e
         | Inr u \<Rightarrow> Inr (withQueryParams plat u (call_params call)))"

text \<open>\<open>HttpTransport.request\<close>.\<close>

definition request ::
  "('e, 's, 'o) HttpTransport \<Rightarrow> ('e, 's, 'o) platform \<Rightarrow> 's transport_call \<Rightarrow> ('s, 'o) runtime
     \<Rightarrow> ('e transport_error + jsvalue) \<times> ('s, 'o) runtime" where
  "request t plat call st =
     (case requestUrl t plat call of
        Inl e \<Rightarrow> (Inl (Propagated e), st)
      | Inr u \<Rightarrow>
          (let (controller, timeoutId, st1) = armTimeout (timeout t) st;
               (result, st2) =
                 tryRequest t plat (call_method call) u (call_signal call) controller st1
           in (result, finallyClear timeoutId st2)))"

text \<open>
  The requests a call hands to \<open>fetch\<close> when the constructor is given the arguments
  \<open>built\<close>: the request the \<open>onRequest\<close> hook leaves, or none when the constructor or
  the hook throws.
\<close>

definition handedToFetch ::
  "('e, 's, 'o) HttpTransport \<Rightarrow> ('e, 's, 'o) platform \<Rightarrow> ('s, 'o) Request
     \<Rightarrow> ('s, 'o) Request list" where
  "handedToFetch t plat built =
     (case Request_new plat built of
        Inl e \<Rightarrow> []
      | Inr constructed \<Rightarrow>
          (case runHook (onRequest t) constructed of Inl e \<Rightarrow> [] | Inr final \<Rightarrow> [final]))"


text \<open>The errors of class \<open>TransportError\<close>: those \<open>request\<close> itself throws.\<close>

definition isTransportError :: "'e transport_error + 'a \<Rightarrow> bool" where
  "isTransportError r = (case r of Inl (HttpRequestError resp body msg) \<Rightarrow> True | _ \<Rightarrow> False)"

section \<open>Response schemas\<close>

subsection \<open>The schema combinators\<close>

text \<open>
  The schemas are built from the combinators of the validation library: \<open>z.string()\<close>,
  \<open>z.number()\<close> with its checks, \<open>z.boolean()\<close>, \<open>z.literal\<close>, \<open>z.enum\<close>, \<open>z.union\<close>,
  \<open>z.array\<close>, \<open>z.object\<close>, \<open>.optional()\<close> and \<open>z.discriminatedUnion\<close>.  An object schema
  made by \<open>z.object\<close> is not strict: it reads the keys of its shape and drops every
  other key of the input.  \<open>z.object\<close> stores the shape it is given without looking
  at it, so a schema can be built over a member that is \<open>undefined\<close> at that moment:
  the member \<open>ZUnbound\<close>.
\<close>

datatype number_check = CheckInt | CheckPositive | CheckMin rat | CheckMax rat

fun checkNumber :: "number_check \<Rightarrow> rat \<Rightarrow> bool" where
  "checkNumber CheckInt n = (of_int \<lfloor>n\<rfloor> = n)"
| "checkNumber CheckPositive n = (n > 0)"
| "checkNumber (CheckMin k) n = (n \<ge> k)"
| "checkNumber (CheckMax k) n = (n \<le> k)"

datatype schema =
    ZString
  | ZNumber "number_check list"
  | ZBoolean
  | ZLiteral string
  | ZEnum "string list"
  | ZUnion "schema list"
  | ZArray schema
  | ZObject "(string \<times> schema) list"
  | ZOptional schema
  | ZDiscriminatedUnion string "schema list"
  | ZUnbound

text \<open>
  The value under which an option of a discriminated union is filed: the literal its
  shape has at the discriminator key.
\<close>

fun discriminatorValue :: "string \<Rightarrow> schema \<Rightarrow> jsvalue option" where
  "discriminatorValue d (ZObject shape) =
     (case map_of shape d of Some (ZLiteral l) \<Rightarrow> Some (JStr l) | _ \<Rightarrow> None)"
| "discriminatorValue d S = None"

lemma find_size [termination_simp]:
  "find P xs = Some x \<Longrightarrow> size x < Suc (size_list size xs)"
  by (induction xs) (auto split: if_splits)

text \<open>
  The outcome of parsing a value: it is valid, it is invalid (issues are recorded), or
  the parser throws.
\<close>

datatype outcome = Valid | Invalid | Raised

text \<open>
  An object and an array parse every member before they look at the outcomes, so a
  throw of any member is the throw of the whole.  A union tries its options in order
  and stops at the first valid one.
\<close>

definition mergeOutcomes :: "outcome list \<Rightarrow> outcome" where
  "mergeOutcomes rs =
     (if Raised \<in> set rs then Raised else if Invalid \<in> set rs then Invalid else Valid)"

fun firstValid :: "outcome list \<Rightarrow> outcome" where
  "firstValid [] = Invalid"
| "firstValid (Valid # rs) = Valid"
| "firstValid (Raised # rs) = Raised"
| "firstValid (Invalid # rs) = firstValid rs"

text \<open>
  Parsing.  An object schema tests that the input is an object before it reads its
  shape; the parser of an unbound member is read from \<open>undefined\<close>, which throws a
  TypeError.
\<close>

fun parse :: "schema \<Rightarrow> jsvalue \<Rightarrow> outcome" where
  "parse ZString v = (case v of JStr s \<Rightarrow> Valid | _ \<Rightarrow> Invalid)"
| "parse (ZNumber checks) v =
     (case v of
        JNum n \<Rightarrow> if list_all (\<lambda>c. checkNumber c n) checks then Valid else Invalid
      | _ \<Rightarrow> Invalid)"
| "parse ZBoolean v = (case v of JBool b \<Rightarrow> Valid | _ \<Rightarrow> Invalid)"
| "parse (ZLiteral l) v = (if v = JStr l then Valid else Invalid)"
| "parse (ZEnum vs) v =
     (case v of JStr s \<Rightarrow> if s \<in> set vs then Valid else Invalid | _ \<Rightarrow> Invalid)"
| "parse (ZUnion opts) v = firstValid (map (\<lambda>S. parse S v) opts)"
| "parse (ZArray S) v =
     (case v of JArr xs \<Rightarrow> mergeOutcomes (map (parse S) xs) | _ \<Rightarrow> Invalid)"
| "parse (ZObject shape) v =
     (case v of
        JObj fs \<Rightarrow> mergeOutcomes (map (\<lambda>(k, S). parse S (lookupProp fs k)) shape)
      | _ \<Rightarrow> Invalid)"
| "parse (ZOptional S) v = (if v = JUndefined then Valid else parse S v)"
| "parse (ZDiscriminatedUnion d opts) v =
     (case v of
        JObj fs \<Rightarrow>
          (case find (\<lambda>S. discriminatorValue d S = Some (lookupProp fs d)) opts of
             None \<Rightarrow> Invalid
           | Some S \<Rightarrow> parse S v)
      | _ \<Rightarrow> Invalid)"
| "parse ZUnbound v = Raised"

text \<open>Whether a schema accepts a value.\<close>

definition accepts :: "schema \<Rightarrow> jsvalue \<Rightarrow> bool" where
  "accepts S v = (parse S v = Valid)"

text \<open>
  \<open>safeParse\<close> reports a valid and an invalid input as a value; what the parser throws
  is not an issue of validation and passes through (\<open>Inl\<close>).
\<close>

datatype safeParseResult = SafeParseSuccess | SafeParseError

datatype parse_error = ParserTypeError

definition safeParse :: "schema \<Rightarrow> jsvalue \<Rightarrow> parse_error + safeParseResult" where
  "safeParse S v =
     (case parse S v of
        Valid \<Rightarrow> Inr SafeParseSuccess
      | Invalid \<Rightarrow> Inr SafeParseError
      | Raised \<Rightarrow> Inl ParserTypeError)"

text \<open>A schema all of whose members were bound when it was built.\<close>

fun bound :: "schema \<Rightarrow> bool" where
  "bound ZUnbound = False"
| "bound (ZUnion opts) = list_all bound opts"
| "bound (ZArray S) = bound S"
| "bound (ZObject shape) = list_all (\<lambda>(k, S). bound S) shape"
| "bound (ZOptional S) = bound S"
| "bound (ZDiscriminatedUnion d opts) = list_all bound opts"
| "bound S = True"

text \<open>\<open>.extend\<close> overrides the entries of a shape in place and adds the new ones.\<close>

fun extend :: "schema \<Rightarrow> (string \<times> schema) list \<Rightarrow> schema" where
  "extend (ZObject shape) augmentation =
     ZObject
       (map (\<lambda>(k, S). (k, case map_of augmentation k of None \<Rightarrow> S | Some S' \<Rightarrow> S')) shape
        @ filter (\<lambda>(k, S). map_of shape k = None) augmentation)"
| "extend S augmentation = S"

subsection \<open>The import cycle\<close>

text \<open>
  The module of the market statistics imports \<open>MarketErrorCodeSchema\<close> from the module
  of the markets, and the module of the markets imports \<open>MarketStatsSchema\<close> from the
  module of the market statistics.  The one of the two that is imported first waits for
  the other, so the body of the other runs first and finds the binding it imports
  unbound.  The schemas below are built as the modules build them when such a binding
  reads as \<open>undefined\<close> (imports compiled to property reads); where the binding is in
  its temporal dead zone instead, the module fails to load at that point and builds no
  schema.  No other module is part of the cycle.
\<close>

datatype entry = MarketsFirst | StatsFirst

subsection \<open>Error codes\<close>

definition GeneralErrorCodeSchema :: schema where
  "GeneralErrorCodeSchema =
     ZEnum [''BAD_REQUEST'', ''UNAUTHORIZED'', ''FORBIDDEN'', ''NOT_FOUND'',
            ''UNPROCESSABLE_ENTITY'', ''INTERNAL_SERVER_ERROR'']"

definition MarketAssetAccountErrorCodeSchema :: schema where
  "MarketAssetAccountErrorCodeSchema =
     ZEnum [''AssetNotFound'', ''MarketNotFound'', ''MarketDisabled'', ''MarketGroupNotFound'',
            ''AccountNotFound'', ''NotSupportedInterval'', ''UnhandledError'',
            ''ClientNotFound'', ''ActionNotAllowed'', ''MaintenanceMode'', ''PostOnlyMode'',
            ''ReduceOnlyMode'', ''InvalidPercentage'', ''MarketReduceOnly'']"

definition MarketErrorCodeSchema :: schema where
  "MarketErrorCodeSchema = ZUnion [GeneralErrorCodeSchema, MarketAssetAccountErrorCodeSchema]"

subsection \<open>Market statistics\<close>

definition MarketStatsSchema :: schema where
  "MarketStatsSchema =
     ZObject
       [(''dailyVolume'', ZString), (''dailyVolumeBase'', ZString),
        (''dailyPriceChange'', ZOptional ZString), (''dailyPriceChangePercentage'', ZString),
        (''dailyLow'', ZString), (''dailyHigh'', ZString), (''lastPrice'', ZString),
        (''askPrice'', ZString), (''bidPrice'', ZString), (''markPrice'', ZString),
        (''indexPrice'', ZString), (''fundingRate'', ZString),
        (''nextFundingRate'', ZNumber [CheckInt, CheckPositive]),
        (''openInterest'', ZString), (''openInterestBase'', ZString)]"

definition DeleverageLevel :: schema where
  "DeleverageLevel =
     ZObject [(''level'', ZNumber [CheckInt, CheckMin 1, CheckMax 4]),
              (''rankingLowerBound'', ZString)]"

definition DeleverageLevelsSchema :: schema where
  "DeleverageLevelsSchema =
     ZObject [(''shortPositions'', ZArray DeleverageLevel),
              (''longPositions'', ZArray DeleverageLevel)]"

definition MarketStatsWithDeleverageSchema :: schema where
  "MarketStatsWithDeleverageSchema =
     extend MarketStatsSchema
       [(''dailyPriceChange'', ZString), (''deleverageLevels'', DeleverageLevelsSchema)]"

definition GetMarketStatsSuccessSchema :: schema where
  "GetMarketStatsSuccessSchema =
     ZObject [(''status'', ZLiteral ''OK''), (''data'', MarketStatsWithDeleverageSchema)]"

text \<open>\<open>MarketErrorCodeSchema\<close> as the module of the market statistics reads it.\<close>

definition importedMarketErrorCodeSchema :: "entry \<Rightarrow> schema" where
  "importedMarketErrorCodeSchema first =
     (if first = MarketsFirst then ZUnbound else MarketErrorCodeSchema)"

definition GetMarketStatsErrorSchema :: "entry \<Rightarrow> schema" where
  "GetMarketStatsErrorSchema first =
     ZObject [(''status'', ZLiteral ''ERROR''),
              (''error'', ZObject [(''code'', importedMarketErrorCodeSchema first),
                                   (''message'', ZString)])]"

definition GetMarketStatsResponseSchema :: "entry \<Rightarrow> schema" where
  "GetMarketStatsResponseSchema first =
     ZDiscriminatedUnion ''status''
       [GetMarketStatsSuccessSchema, GetMarketStatsErrorSchema first]"

subsection \<open>Open interest\<close>

definition OpenInterestSchema :: schema where
  "OpenInterestSchema = ZObject [(''i'', ZString), (''I'', ZString), (''t'', ZNumber [CheckInt])]"

definition GetOpenInterestSuccessSchema :: schema where
  "GetOpenInterestSuccessSchema =
     ZObject [(''status'', ZLiteral ''OK''), (''data'', ZArray OpenInterestSchema)]"

definition GetOpenInterestErrorSchema :: schema where
  "GetOpenInterestErrorSchema =
     ZObject [(''status'', ZLiteral ''ERROR''),
              (''error'', ZObject [(''code'', GeneralErrorCodeSchema), (''message'', ZString)])]"

definition GetOpenInterestResponseSchema :: schema where
  "GetOpenInterestResponseSchema =
     ZDiscriminatedUnion ''status'' [GetOpenInterestSuccessSchema, GetOpenInterestErrorSchema]"

subsection \<open>Funding history\<close>

definition FundingRateSchema :: schema where
  "FundingRateSchema = ZObject [(''m'', ZString), (''T'', ZNumber [CheckInt]), (''f'', ZString)]"

definition PaginationSchema :: schema where
  "PaginationSchema = ZObject [(''cursor'', ZNumber [CheckInt]), (''count'', ZNumber [CheckInt])]"

definition GetFundingHistorySuccessSchema :: schema where
  "GetFundingHistorySuccessSchema =
     ZObject [(''status'', ZLiteral ''OK''), (''data'', ZArray FundingRateSchema),
              (''pagination'', ZOptional PaginationSchema)]"

definition GetFundingHistoryErrorSchema :: schema where
  "GetFundingHistoryErrorSchema =
     ZObject [(''status'', ZLiteral ''ERROR''),
              (''error'', ZObject [(''code'', GeneralErrorCodeSchema), (''message'', ZString)])]"

definition GetFundingResponseSchema :: schema where
  "GetFundingResponseSchema =
     ZDiscriminatedUnion ''status'' [GetFundingHistorySuccessSchema, GetFundingHistoryErrorSchema]"

subsection \<open>Candles\<close>

definition CandleSchema :: schema where
  "CandleSchema =
     ZObject [(''o'', ZString), (''c'', ZString), (''h'', ZString), (''l'', ZString),
              (''v'', ZOptional ZString), (''T'', ZNumber [CheckInt])]"

definition GetCandlesHistorySuccessSchema :: schema where
  "GetCandlesHistorySuccessSchema =
     ZObject [(''status'', ZLiteral ''OK''), (''data'', ZArray CandleSchema)]"

definition GetCandlesHistoryErrorSchema :: schema where
  "GetCandlesHistoryErrorSchema =
     ZObject [(''status'', ZLiteral ''ERROR''),
              (''error'', ZObject [(''code'', GeneralErrorCodeSchema), (''message'', ZString)])]"

definition GetCandlesHistoryResponseSchema :: schema where
  "GetCandlesHistoryResponseSchema =
     ZDiscriminatedUnion ''status'' [GetCandlesHistorySuccessSchema, GetCandlesHistoryErrorSchema]"

subsection \<open>Order book\<close>

definition OrderBookEntrySchema :: schema where
  "OrderBookEntrySchema = ZObject [(''qty'', ZString), (''price'', ZString)]"

definition MarketOrderBookSchema :: schema where
  "MarketOrderBookSchema =
     ZObject [(''market'', ZString), (''bid'', ZArray OrderBookEntrySchema),
              (''ask'', ZArray OrderBookEntrySchema)]"

definition GetMarketOrderBookSuccessSchema :: schema where
  "GetMarketOrderBookSuccessSchema =
     ZObject [(''status'', ZLiteral ''OK''), (''data'', MarketOrderBookSchema)]"

definition GetMarketOrderBookErrorSchema :: schema where
  "GetMarketOrderBookErrorSchema =
     ZObject [(''status'', ZLiteral ''ERROR''),
              (''error'', ZObject [(''code'', MarketErrorCodeSchema), (''message'', ZString)])]"

definition GetMarketOrderBookResponseSchema :: schema where
  "GetMarketOrderBookResponseSchema =
     ZDiscriminatedUnion ''status''
       [GetMarketOrderBookSuccessSchema, GetMarketOrderBookErrorSchema]"

subsection \<open>Trades\<close>

definition TradeSideSchema :: schema where
  "TradeSideSchema = ZEnum [''BUY'', ''SELL'']"

definition TradeTypeSchema :: schema where
  "TradeTypeSchema = ZEnum [''TRADE'', ''LIQUIDATION'', ''DELEVERAGE'']"

definition MarketTradeSchema :: schema where
  "MarketTradeSchema =
     ZObject [(''i'', ZNumber [CheckInt]), (''m'', ZString), (''S'', TradeSideSchema),
              (''tT'', TradeTypeSchema), (''T'', ZNumber [CheckInt, CheckPositive]),
              (''p'', ZString), (''q'', ZString)]"

definition GetMarketTradesSuccessSchema :: schema where
  "GetMarketTradesSuccessSchema =
     ZObject [(''status'', ZLiteral ''OK''), (''data'', ZArray MarketTradeSchema)]"

definition GetMarketTradesErrorSchema :: schema where
  "GetMarketTradesErrorSchema =
     ZObject [(''status'', ZLiteral ''ERROR''),
              (''error'', ZObject [(''code'', MarketErrorCodeSchema), (''message'', ZString)])]"

definition GetMarketTradesResponseSchema :: schema where
  "GetMarketTradesResponseSchema =
     ZDiscriminatedUnion ''status'' [GetMarketTradesSuccessSchema, GetMarketTradesErrorSchema]"

subsection \<open>Markets\<close>

definition MarketStatusSchema :: schema where
  "MarketStatusSchema =
     ZEnum [''ACTIVE'', ''REDUCE_ONLY'', ''DELISTED'', ''PRELISTED'', ''DISABLED'']"

definition TradingConfigSchema :: schema where
  "TradingConfigSchema =
     ZObject
       [(''minOrderSize'', ZString), (''minOrderSizeChange'', ZString),
        (''minPriceChange'', ZString), (''maxMarketOrderValue'', ZString),
        (''maxLimitOrderValue'', ZString), (''maxPositionValue'', ZString),
        (''maxLeverage'', ZString), (''maxNumOrders'', ZString),
        (''limitPriceCap'', ZString), (''limitPriceFloor'', ZString)]"

definition L2ConfigSchema :: schema where
  "L2ConfigSchema =
     ZObject
       [(''type'', ZLiteral ''STARKX''), (''collateralId'', ZString),
        (''collateralResolution'', ZNumber [CheckInt, CheckPositive]),
        (''syntheticId'', ZString),
        (''syntheticResolution'', ZNumber [CheckInt, CheckPositive])]"

text \<open>\<open>MarketStatsSchema\<close> as the module of the markets reads it.\<close>

definition importedMarketStatsSchema :: "entry \<Rightarrow> schema" where
  "importedMarketStatsSchema first =
     (if first = StatsFirst then ZUnbound else MarketStatsSchema)"

definition ExtendedMarketDataSchema :: "entry \<Rightarrow> schema" where
  "ExtendedMarketDataSchema first =
     ZObject
       [(''name'', ZString), (''assetName'', ZString),
        (''assetPrecision'', ZNumber [CheckInt, CheckMin 0]),
        (''collateralAssetName'', ZString),
        (''collateralAssetPrecision'', ZNumber [CheckInt, CheckMin 0]),
        (''active'', ZBoolean), (''status'', MarketStatusSchema),
        (''marketStats'', importedMarketStatsSchema first),
        (''tradingConfig'', TradingConfigSchema),
        (''l2Config'', L2ConfigSchema), (''visibleOnUi'', ZBoolean),
        (''createdAt'', ZNumber [CheckInt, CheckPositive])]"

definition GetExtendedMarketsSuccessSchema :: "entry \<Rightarrow> schema" where
  "GetExtendedMarketsSuccessSchema first =
     ZObject [(''status'', ZLiteral ''OK''), (''data'', ZArray (ExtendedMarketDataSchema first))]"

definition GetExtendedMarketsErrorSchema :: schema where
  "GetExtendedMarketsErrorSchema =
     ZObject [(''status'', ZLiteral ''ERROR''),
              (''error'', ZObject [(''code'', MarketErrorCodeSchema), (''message'', ZString)])]"

definition GetExtendedMarketsResponseSchema :: "entry \<Rightarrow> schema" where
  "GetExtendedMarketsResponseSchema first =
     ZDiscriminatedUnion ''status''
       [GetExtendedMarketsSuccessSchema first, GetExtendedMarketsErrorSchema]"

subsection \<open>The envelope\<close>

text \<open>
  The envelope in the words of the specification: an object whose status is \<open>"OK"\<close> and
  whose data (and further fields of the success shape, if any) have the endpoint's shape,
  or whose status is \<open>"ERROR"\<close> and whose error is an object with a code of the
  endpoint's codes and a message string.  Other fields are not looked at.
\<close>

definition matchesEnvelope ::
  "schema \<Rightarrow> (string \<times> schema) list \<Rightarrow> schema \<Rightarrow> jsvalue \<Rightarrow> bool" where
  "matchesEnvelope dataShape extra codes v =
     (case v of
        JObj fs \<Rightarrow>
          (lookupProp fs ''status'' = JStr ''OK''
           \<and> accepts dataShape (lookupProp fs ''data'')
           \<and> list_all (\<lambda>(k, S). accepts S (lookupProp fs k)) extra)
          \<or> (lookupProp fs ''status'' = JStr ''ERROR''
              \<and> (case lookupProp fs ''error'' of
                    JObj e \<Rightarrow>
                      accepts codes (lookupProp e ''code'')
                      \<and> (case lookupProp e ''message'' of JStr m \<Rightarrow> True | _ \<Rightarrow> False)
                  | _ \<Rightarrow> False))
      | _ \<Rightarrow> False)"

text \<open>
  The response schema of each endpoint, with the shape of its data, the further fields
  of its success shape and its error codes, as the modules build them when \<open>first\<close> is
  the module of the cycle that is imported first.
\<close>

definition endpointSchemas ::
  "entry \<Rightarrow> (schema \<times> schema \<times> (string \<times> schema) list \<times> schema) list" where
  "endpointSchemas first =
     [(GetExtendedMarketsResponseSchema first, ZArray (ExtendedMarketDataSchema first), [],
       MarketErrorCodeSchema),
      (GetMarketStatsResponseSchema first, MarketStatsWithDeleverageSchema, [],
       importedMarketErrorCodeSchema first),
      (GetMarketOrderBookResponseSchema, MarketOrderBookSchema, [], MarketErrorCodeSchema),
      (GetMarketTradesResponseSchema, ZArray MarketTradeSchema, [], MarketErrorCodeSchema),
      (GetCandlesHistoryResponseSchema, ZArray CandleSchema, [], GeneralErrorCodeSchema),
      (GetFundingResponseSchema, ZArray FundingRateSchema,
       [(''pagination'', ZOptional PaginationSchema)], GeneralErrorCodeSchema),
      (GetOpenInterestResponseSchema, ZArray OpenInterestSchema, [], GeneralErrorCodeSchema)]"

text \<open>The form all seven response schemas have.\<close>

definition envelopeSchema :: "schema \<Rightarrow> (string \<times> schema) list \<Rightarrow> schema \<Rightarrow> schema" where
  "envelopeSchema dataShape extra codes =
     ZDiscriminatedUnion ''status''
       [ZObject ([(''status'', ZLiteral ''OK''), (''data'', dataShape)] @ extra),
        ZObject [(''status'', ZLiteral ''ERROR''),
                 (''error'', ZObject [(''code'', codes), (''message'', ZString)])]]"

section \<open>Example inputs\<close>

text \<open>
  Concrete platforms and transports, for evaluating the definitions.  The example
  platform renders \<open>NaN\<close>, the infinities and the integers up to \<open>2\<^sup>5\<^sup>3\<close> in magnitude as
  every platform does, and stringifies the empty object; the examples put nothing else
  to it.
\<close>

definition showInt :: "int \<Rightarrow> string" where
  "showInt i = (if i < 0 then CHR ''-'' # showNat (nat (- i)) else showNat (nat i))"

definition exampleNumberToString :: "number \<Rightarrow> string" where
  "exampleNumberToString n =
     (case n of
        NaN \<Rightarrow> ''NaN''
      | Infinity \<Rightarrow> ''Infinity''
      | MinusInfinity \<Rightarrow> ''-Infinity''
      | Finite r \<Rightarrow>
          if of_int \<lfloor>r\<rfloor> = r \<and> \<bar>r\<bar> \<le> 9007199254740992 then showInt \<lfloor>r\<rfloor> else [])"

definition exampleStringify :: "jsvalue \<Rightarrow> string" where
  "exampleStringify v = (if v = JObj [] then ''{}'' else ''null'')"

definition examplePlatform :: js_platform where
  "examplePlatform =
     \<lparr>Number_toString = exampleNumberToString, JSON_stringify = exampleStringify\<rparr>"

definition resolving :: "jsvalue \<Rightarrow> (unit, unit) IRequestTransport" where
  "resolving body call = Inr body"

definition fundingCall :: "unit transport_call" where
  "fundingCall =
     \<lparr>call_method = GET, call_path = ''info/{market}/funding'',
      call_params =
        Some [(''startTime'', PNumber (Finite 1000)), (''endTime'', PNumber (Finite 2000))],
      call_pathParams = Some [(''market'', PathString ''BTC-USD'')], call_signal = None\<rparr>"

definition fundingRate :: "int \<Rightarrow> jsvalue" where
  "fundingRate T =
     JObj [(''m'', JStr ''BTC-USD''), (''T'', JNum (of_int T)), (''f'', JStr ''0.0001'')]"

definition pagedResponse :: jsvalue where
  "pagedResponse =
     JObj [(''status'', JStr ''OK''), (''data'', JArr [fundingRate 1500]),
           (''pagination'', JObj [(''cursor'', JNum 7), (''count'', JNum 1)])]"

definition unpagedResponse :: jsvalue where
  "unpagedResponse =
     JObj [(''status'', JStr ''OK''), (''data'', JArr [fundingRate 1500, fundingRate 1600])]"

definition errorResponse :: jsvalue where
  "errorResponse =
     JObj [(''status'', JStr ''ERROR''),
           (''error'', JObj [(''code'', JStr ''NOT_FOUND''), (''message'', JStr ''no market'')])]"

text \<open>An error payload whose code is an object with a property \<open>toString\<close> of its own.\<close>

definition unprintableError :: jsvalue where
  "unprintableError =
     JObj [(''status'', JStr ''ERROR''),
           (''error'', JObj [(''code'', JObj [(''toString'', JNull)]),
                             (''message'', JStr ''no market'')])]"

definition exampleURL :: url where
  "exampleURL =
     \<lparr>url_reference = ''/api/v1/info/markets'', url_base = ''https://app.extended.exchange'',
      searchParams = []\<rparr>"

definition exampleQuery :: "(string \<times> param_value) list" where
  "exampleQuery =
     [(''market'', PArray [''BTC-USD'', ''ETH-USD'']), (''limit'', PNumber (Finite 10)),
      (''active'', PBoolean True), (''interval'', PString ''P1D'')]"

definition marketsCall :: "unit transport_call" where
  "marketsCall =
     \<lparr>call_method = GET, call_path = ''info/markets'', call_params = Some exampleQuery,
      call_pathParams = None, call_signal = None\<rparr>"

definition exampleTransport :: "(unit, unit, unit) HttpTransport" where
  "exampleTransport = HttpTransport_new () None"

definition exampleURL_new :: "string \<Rightarrow> string \<Rightarrow> unit + url" where
  "exampleURL_new reference base =
     Inr \<lparr>url_reference = reference, url_base = base, searchParams = []\<rparr>"

definition respondingWith :: "unit Response \<Rightarrow> (unit, unit, unit) platform" where
  "respondingWith r =
     \<lparr>Number_toString = exampleNumberToString, JSON_stringify = exampleStringify,
      URL_new = exampleURL_new, Request_throws = (\<lambda>rq. None), fetch = (\<lambda>rq. Inr r)\<rparr>"

definition failingFetch :: "(unit, unit, unit) platform" where
  "failingFetch =
     \<lparr>Number_toString = exampleNumberToString, JSON_stringify = exampleStringify,
      URL_new = exampleURL_new, Request_throws = (\<lambda>rq. None), fetch = (\<lambda>rq. Inl ())\<rparr>"

text \<open>A platform whose \<open>Request\<close> constructor refuses every request.\<close>

definition refusingRequest :: "unit Response \<Rightarrow> (unit, unit, unit) platform" where
  "refusingRequest r =
     \<lparr>Number_toString = exampleNumberToString, JSON_stringify = exampleStringify,
      URL_new = exampleURL_new, Request_throws = (\<lambda>rq. Some ()), fetch = (\<lambda>rq. Inr r)\<rparr>"

definition freshRuntime :: "(unit, unit) runtime" where
  "freshRuntime = \<lparr>lastTimerId = 0, pendingTimers = [], controllers = 0, fetched = []\<rparr>"

definition statsCall :: "unit option \<Rightarrow> unit transport_call" where
  "statsCall signal =
     \<lparr>call_method = GET, call_path = ''info/markets/{market}/stats'', call_params = None,
      call_pathParams = Some [(''market'', PathString ''BTC-USD'')], call_signal = signal\<rparr>"

definition statsURL :: url where
  "statsURL =
     \<lparr>url_reference = ''/api/v1/info/markets/BTC-USD/stats'',
      url_base = ''https://app.extended.exchange'', searchParams = []\<rparr>"

definition candlesCall :: "unit transport_call" where
  "candlesCall =
     \<lparr>call_method = GET, call_path = ''info/candles/{market}/{candleType}'',
      call_params = Some [(''interval'', PString ''1m''), (''limit'', PNumber (Finite 10))],
      call_pathParams =
        Some [(''market'', PathString ''BTC-USD''), (''candleType'', PathString ''trades'')],
      call_signal = None\<rparr>"

definition candlesURL :: url where
  "candlesURL =
     \<lparr>url_reference = ''/api/v1/info/candles/BTC-USD/trades'',
      url_base = ''https://app.extended.exchange'', searchParams = []\<rparr>"

text \<open>A call whose template names the placeholder of its one path parameter twice.\<close>

definition twiceCall :: "unit transport_call" where
  "twiceCall =
     \<lparr>call_method = GET, call_path = ''a/{m}/b/{m}'', call_params = None,
      call_pathParams = Some [(''m'', PathString ''X'')], call_signal = None\<rparr>"

text \<open>A platform whose \<open>URL\<close> constructor throws.\<close>

definition refusingURL :: "(unit, unit, unit) platform" where
  "refusingURL =
     \<lparr>Number_toString = exampleNumberToString, JSON_stringify = exampleStringify,
      URL_new = (\<lambda>reference base. Inl ()), Request_throws = (\<lambda>rq. None),
      fetch = (\<lambda>rq. Inl ())\<rparr>"

text \<open>
  Hooks for \<open>onRequest\<close>: one that returns nothing, one that returns a request without
  the signal of the request it is given, one that throws.
\<close>

definition passingHook :: "(unit, unit) Request \<Rightarrow> unit + (unit, unit) Request option" where
  "passingHook rq = Inr None"

definition strippingHook :: "(unit, unit) Request \<Rightarrow> unit + (unit, unit) Request option" where
  "strippingHook rq = Inr (Some (rq\<lparr>req_signal := None\<rparr>))"

definition throwingHook :: "(unit, unit) Request \<Rightarrow> unit + (unit, unit) Request option" where
  "throwingHook rq = Inl ()"

definition notFound :: "unit Response" where
  "notFound = Response 404 (Some ''text/plain'') (Inr ''no such market'') (Inl ())"


definition jsonReply :: "unit Response" where
  "jsonReply =
     Response 200 (Some ''application/json; charset=utf-8'') (Inr ''{}'') (Inr (JObj []))"

definition noOptions :: "(unit, unit, unit) HttpTransportOptions" where
  "noOptions =
     \<lparr>opt_isTestnet = None, opt_timeout = TimeoutAbsent, opt_mainnet_api = None,
      opt_testnet_api = None, opt_fetchOptions = None, opt_onRequest = None,
      opt_onResponse = None\<rparr>"

definition candle :: jsvalue where
  "candle =
     JObj [(''o'', JStr ''100.5''), (''c'', JStr ''101''), (''h'', JStr ''102''),
           (''l'', JStr ''99''), (''v'', JStr ''12.5''), (''T'', JNum 1700000000000)]"

definition candlesOK :: "(string \<times> jsvalue) list" where
  "candlesOK = [(''status'', JStr ''OK''), (''data'', JArr [candle])]"

definition errorEnvelope :: "string \<Rightarrow> (string \<times> jsvalue) list" where
  "errorEnvelope code =
     [(''status'', JStr ''ERROR''),
      (''error'', JObj [(''code'', JStr code), (''message'', JStr ''no such market'')])]"

section \<open>Properties of the info client\<close>

lemma awaitRequest_calls_once: "snd (awaitRequest t call handle) = [call]"
  by (simp add: awaitRequest_def split: sum.splits)

lemma awaitRequest_resolved:
  "t call = Inr body \<Longrightarrow> fst (awaitRequest t call handle) = handle body"
  by (simp add: awaitRequest_def)

text \<open>
  The test of the market symbol accepts the non-empty strings over the capital letters
  and the hyphen.
\<close>

lemma upper_case_letters:
  "map char_of [65 ..< 91 :: nat] = ''ABCDEFGHIJKLMNOPQRSTUVWXYZ''"
  by code_simp

lemma upperOrHyphen_alphabet:
  "upperOrHyphen c \<longleftrightarrow> c \<in> set ''ABCDEFGHIJKLMNOPQRSTUVWXYZ-''"
proof
  assume "upperOrHyphen c"
  then consider "c = CHR ''-''" | "65 \<le> (of_char c :: nat) \<and> (of_char c :: nat) \<le> 90"
    unfolding upperOrHyphen_def by blast
  then show "c \<in> set ''ABCDEFGHIJKLMNOPQRSTUVWXYZ-''"
  proof cases
    case 1
    then show ?thesis by simp
  next
    case 2
    then have "65 \<le> (of_char c :: nat)" and "(of_char c :: nat) < 91"
      by linarith+
    then have "(of_char c :: nat) \<in> set [65 ..< 91]"
      by (simp only: set_upt atLeastLessThan_iff simp_thms)
    then have "char_of (of_char c :: nat) \<in> char_of ` set [65 ..< 91 :: nat]"
      by (rule imageI)
    then have "c \<in> set (map char_of [65 ..< 91 :: nat])"
      by (simp only: set_map char_of_char)
    then have "c \<in> set ''ABCDEFGHIJKLMNOPQRSTUVWXYZ''"
      by (simp only: upper_case_letters)
    then have "c \<in> set (''ABCDEFGHIJKLMNOPQRSTUVWXYZ'' @ ''-'')"
      by (simp only: set_append Un_iff simp_thms)
    then show ?thesis by simp
  qed
next
  assume "c \<in> set ''ABCDEFGHIJKLMNOPQRSTUVWXYZ-''"
  moreover have "list_all upperOrHyphen ''ABCDEFGHIJKLMNOPQRSTUVWXYZ-''"
    by code_simp
  ultimately show "upperOrHyphen c"
    unfolding list_all_iff by blast
qed

lemma matchMarket_alphabet:
  "matchMarket market \<longleftrightarrow>
     market \<noteq> [] \<and> set market \<subseteq> set ''ABCDEFGHIJKLMNOPQRSTUVWXYZ-''"
  unfolding matchMarket_def list_all_iff upperOrHyphen_alphabet by blast

subsection \<open>The guards on the numbers\<close>

text \<open>
  The comparisons on finite numbers are those of the rationals, and \<open>NaN\<close> compares
  false with everything.
\<close>

lemma lessEq_Finite [simp]: "lessEq (Finite x) (Finite y) \<longleftrightarrow> x \<le> y"
  by simp

lemma less_Finite [simp]: "less (Finite x) (Finite y) \<longleftrightarrow> x < y"
  by (auto simp: less_def)

lemma lessEq_NaN [simp]: "\<not> lessEq NaN b" "\<not> lessEq a NaN"
  by (cases a; simp)+

lemma less_NaN [simp]: "\<not> less NaN b" "\<not> less a NaN"
  by (simp_all add: less_def)

text \<open>
  What the guards of \<open>funding\<close> and \<open>openInterest\<close> do reject, before any transport
  call: a start time that is not before the end time, a limit that is at most \<open>0\<close> or
  above the maximum, and, for \<open>openInterest\<close>, an interval other than \<open>P1H\<close> and \<open>P1D\<close>.
\<close>

lemma funding_openInterest_guards:
  "(lessEq endTime startTime \<longrightarrow>
      isInvalidInput (fst (funding P t market startTime endTime cursor limit s))
      \<and> snd (funding P t market startTime endTime cursor limit s) = [])
   \<and> (lessEq l (Finite 0) \<or> less (Finite 10000) l \<longrightarrow>
      isInvalidInput (fst (funding P t market startTime endTime cursor (Some l) s))
      \<and> snd (funding P t market startTime endTime cursor (Some l) s) = [])
   \<and> (lessEq endTime startTime \<longrightarrow>
      isInvalidInput (fst (openInterest P t market interval startTime endTime limit s))
      \<and> snd (openInterest P t market interval startTime endTime limit s) = [])
   \<and> (lessEq l' (Finite 0) \<or> less (Finite 300) l' \<longrightarrow>
      isInvalidInput (fst (openInterest P t market interval startTime endTime (Some l') s))
      \<and> snd (openInterest P t market interval startTime endTime (Some l') s) = [])
   \<and> (interval \<notin> {''P1H'', ''P1D''} \<longrightarrow>
      isInvalidInput (fst (openInterest P t market interval startTime endTime limit s))
      \<and> snd (openInterest P t market interval startTime endTime limit s) = [])"
  by (simp add: funding_def openInterest_def isInvalidInput_def matchInterval_def)

text \<open>
  The limits that pass the test \<open>limit <= 0 || limit > max\<close>: \<open>NaN\<close>, and the finite
  numbers above \<open>0\<close> and up to the maximum, those below \<open>1\<close> included.  On the
  integers the test is the test of the range from \<open>1\<close> to the maximum.
\<close>

lemma limit_guard_passes:
  "\<not> (lessEq l (Finite 0) \<or> less (Finite m) l)
     \<longleftrightarrow> l = NaN \<or> (\<exists>r. l = Finite r \<and> 0 < r \<and> r \<le> m)"
  by (cases l) (auto simp: less_def)

lemma limit_guard_integer:
  "lessEq (Finite (of_int i)) (Finite 0) \<or> less (Finite (of_int m)) (Finite (of_int i))
     \<longleftrightarrow> i \<notin> {1..m}"
  by auto

text \<open>
  C4.  The limits \<open>0.5\<close> and \<open>NaN\<close> are outside the range from \<open>1\<close> to \<open>10000\<close> and
  outside the range from \<open>1\<close> to \<open>300\<close>, yet on a valid market and valid times
  \<open>funding\<close> and \<open>openInterest\<close> throw no \<open>InvalidInputError\<close> on them: they call the
  transport, with the limit among the query parameters, and return what the response
  holds.
\<close>

theorem limit_outside_range_reaches_transport:
  "\<not> lessEq (Finite 1) (Finite (1 / 2)) \<and> \<not> lessEq (Finite 1) NaN
   \<and> funding examplePlatform (resolving unpagedResponse) ''BTC-USD'' (Finite 1000) (Finite 2000)
         None (Some (Finite (1 / 2))) None
       = (Inr \<lparr>data = JArr [fundingRate 1500, fundingRate 1600],
               pagination = JObj [(''cursor'', JNum 0), (''count'', JNum 2)]\<rparr>,
          [\<lparr>call_method = GET, call_path = ''info/{market}/funding'',
            call_params =
              Some [(''startTime'', PNumber (Finite 1000)), (''endTime'', PNumber (Finite 2000)),
                    (''limit'', PNumber (Finite (1 / 2)))],
            call_pathParams = Some [(''market'', PathString ''BTC-USD'')], call_signal = None\<rparr>])
   \<and> snd (funding examplePlatform (resolving unpagedResponse) ''BTC-USD'' (Finite 1000)
             (Finite 2000) None (Some NaN) None)
       = [\<lparr>call_method = GET, call_path = ''info/{market}/funding'',
           call_params =
             Some [(''startTime'', PNumber (Finite 1000)), (''endTime'', PNumber (Finite 2000)),
                   (''limit'', PNumber NaN)],
           call_pathParams = Some [(''market'', PathString ''BTC-USD'')], call_signal = None\<rparr>]
   \<and> openInterest examplePlatform (resolving (JObj [(''status'', JStr ''OK''), (''data'', JArr [])]))
         ''BTC-USD'' ''P1D'' (Finite 1000) (Finite 2000) (Some (Finite (1 / 2))) None
       = (Inr (JArr []),
          [\<lparr>call_method = GET, call_path = ''info/{market}/open-interests'',
            call_params =
              Some [(''interval'', PString ''P1D''), (''startTime'', PNumber (Finite 1000)),
                    (''endTime'', PNumber (Finite 2000)), (''limit'', PNumber (Finite (1 / 2)))],
            call_pathParams = Some [(''market'', PathString ''BTC-USD'')], call_signal = None\<rparr>])
   \<and> snd (openInterest examplePlatform
             (resolving (JObj [(''status'', JStr ''OK''), (''data'', JArr [])]))
             ''BTC-USD'' ''P1D'' (Finite 1000) (Finite 2000) (Some NaN) None)
       = [\<lparr>call_method = GET, call_path = ''info/{market}/open-interests'',
           call_params =
             Some [(''interval'', PString ''P1D''), (''startTime'', PNumber (Finite 1000)),
                   (''endTime'', PNumber (Finite 2000)), (''limit'', PNumber NaN)],
           call_pathParams = Some [(''market'', PathString ''BTC-USD'')], call_signal = None\<rparr>]"
  by (simp add: funding_def openInterest_def invalidMarket_def matchMarket_def upperOrHyphen_def
      matchInterval_def falsyNumber_def awaitRequest_def resolving_def unwrapFunding_def
      unwrapData_def unpagedResponse_def lookupProp_def)

text \<open>
  C1, as amended.  \<open>marketStats\<close>, \<open>marketTrades\<close>, \<open>candles\<close>, \<open>funding\<close> and
  \<open>openInterest\<close> throw an \<open>InvalidInputError\<close> and make no transport call when the
  market symbol is empty or does not match \<open>^[A-Z-]+$\<close>.  \<open>marketOrderBook\<close> has no such
  guard: whatever the symbol, it invokes the transport once, with the symbol as the
  path parameter.
\<close>

theorem invalid_market_rejected_before_transport:
  "(market = [] \<or> \<not> matchMarket market \<longrightarrow>
      marketStats P t market s = (Inl (InvalidInputError ''Invalid market input.''), [])
      \<and> marketTrades P t market s = (Inl (InvalidInputError ''Invalid market input.''), [])
      \<and> candles P t market candleType interval lmt endTime s
          = (Inl (InvalidInputError ''Invalid market input.''), [])
      \<and> funding P t market startTime endTime' cursor limit s
          = (Inl (InvalidInputError ''Invalid market input.''), [])
      \<and> openInterest P t market interval' startTime endTime' limit s
          = (Inl (InvalidInputError ''Invalid market input.''), []))
   \<and> snd (marketOrderBook P t market s)
       = [\<lparr>call_method = GET, call_path = ''info/markets/{market}/orderbook'',
           call_params = None, call_pathParams = Some [(''market'', PathString market)],
           call_signal = s\<rparr>]"
  by (simp add: marketStats_def marketTrades_def candles_def funding_def openInterest_def
      marketOrderBook_def invalidMarket_def awaitRequest_calls_once)

theorem invalid_market_rejected_before_transport_witness:
  "\<not> matchMarket ''btc-usd''
   \<and> marketStats examplePlatform (resolving JNull) ''btc-usd'' None
       = (Inl (InvalidInputError ''Invalid market input.''), [])
   \<and> marketTrades examplePlatform (resolving JNull) ''BTC-123'' None
       = (Inl (InvalidInputError ''Invalid market input.''), [])
   \<and> candles examplePlatform (resolving JNull) ''btc-usd'' ''trades'' ''1m'' (Finite 10) None None
       = (Inl (InvalidInputError ''Invalid market input.''), [])
   \<and> funding examplePlatform (resolving JNull) ''btc-usd'' (Finite 1000) (Finite 2000) None None
         None
       = (Inl (InvalidInputError ''Invalid market input.''), [])
   \<and> openInterest examplePlatform (resolving JNull) '''' ''P1D'' (Finite 1000) (Finite 2000) None
         None
       = (Inl (InvalidInputError ''Invalid market input.''), [])
   \<and> length (snd (marketStats examplePlatform (resolving JNull) ''BTC-USD'' None)) = 1"
  using
    invalid_market_rejected_before_transport
      [where market = "''btc-usd''" and P = examplePlatform and t = "resolving JNull"
         and s = None and candleType = "''trades''" and interval = "''1m''"
         and lmt = "Finite 10" and endTime = None and startTime = "Finite 1000"
         and endTime' = "Finite 2000" and cursor = None and limit = None
         and interval' = "''P1D''"]
    invalid_market_rejected_before_transport
      [where market = "''BTC-123''" and P = examplePlatform and t = "resolving JNull"
         and s = None]
    invalid_market_rejected_before_transport
      [where market = "''''" and P = examplePlatform and t = "resolving JNull"
         and s = None and startTime = "Finite 1000" and endTime' = "Finite 2000"
         and limit = None and interval' = "''P1D''"]
  by (simp add: matchMarket_def upperOrHyphen_def marketStats_def invalidMarket_def
      awaitRequest_calls_once)

text \<open>
  The claim as stated fails for \<open>marketOrderBook\<close>: on the malformed symbol \<open>btc-usd\<close>
  it calls the transport and returns what the response holds as \<open>data\<close>.
\<close>

theorem marketOrderBook_unchecked_counterexample:
  "invalidMarket ''btc-usd''
   \<and> marketOrderBook examplePlatform (resolving (JObj [(''status'', JStr ''OK'')])) ''btc-usd'' None
       = (Inr JUndefined,
          [\<lparr>call_method = GET, call_path = ''info/markets/{market}/orderbook'',
            call_params = None, call_pathParams = Some [(''market'', PathString ''btc-usd'')],
            call_signal = None\<rparr>])"
  by (simp add: invalidMarket_def matchMarket_def upperOrHyphen_def marketOrderBook_def
      awaitRequest_def resolving_def unwrapData_def lookupProp_def)

subsection \<open>The funding history\<close>

lemma funding_called:
  assumes "snd (funding P t market startTime endTime cursor limit s) = [call]"
    and "t call = Inr response"
  shows "fst (funding P t market startTime endTime cursor limit s) = unwrapFunding P response"
  using assms
  by (simp add: funding_def Let_def awaitRequest_calls_once awaitRequest_resolved
      split: if_splits)

text \<open>The status of a payload is a string only when the payload is an object.\<close>

lemma status_of_object:
  "getProp response ''status'' = Some (JStr x) \<Longrightarrow> \<exists>fs. response = JObj fs"
  by (cases response) simp_all

lemma unwrapFunding_OK_paged:
  assumes "lookupProp fs ''status'' = JStr ''OK''" and "truthy (lookupProp fs ''pagination'')"
  shows "unwrapFunding P (JObj fs)
           = Inr \<lparr>data = lookupProp fs ''data'', pagination = lookupProp fs ''pagination''\<rparr>"
  using assms by (simp add: unwrapFunding_def)

lemma unwrapFunding_OK_unpaged:
  assumes "lookupProp fs ''status'' = JStr ''OK''" and "\<not> truthy (lookupProp fs ''pagination'')"
  shows "unwrapFunding P (JObj fs)
           = (case getProp (lookupProp fs ''data'') ''length'' of
                None \<Rightarrow> Inl TypeError
              | Some n \<Rightarrow>
                  Inr \<lparr>data = lookupProp fs ''data'',
                       pagination = JObj [(''cursor'', JNum 0), (''count'', n)]\<rparr>)"
  using assms by (simp add: unwrapFunding_def)

lemma getProp_None_iff: "getProp v k = None \<longleftrightarrow> v = JUndefined \<or> v = JNull"
  by (cases v) simp_all

lemma unwrapFunding_ERROR:
  assumes "lookupProp fs ''status'' = JStr ''ERROR''"
  shows "unwrapFunding P (JObj fs) = apiError P (JObj fs)"
  using assms by (simp add: unwrapFunding_def)

lemma unwrapFunding_other:
  assumes "getProp response ''status'' = Some st" and "st \<noteq> JStr ''OK''"
    and "st \<noteq> JStr ''ERROR''"
  shows "unwrapFunding P response
           = Inl (Error (''Unexpected response format: '' @ JSON_stringify P response))"
  using assms by (simp add: unwrapFunding_def unexpectedFormat_def)

text \<open>
  C5, as amended.  When \<open>funding\<close> has called the transport and the transport has
  resolved with a payload, the outcome is decided by the payload, case by case.  A
  payload with status \<open>"OK"\<close> and a truthy \<open>pagination\<close> gives \<open>{data, pagination}\<close> with
  the pagination of the payload.  A payload with status \<open>"OK"\<close> and a missing or falsy
  \<open>pagination\<close> gives the pagination \<open>{cursor: 0, count: data.length}\<close>, where
  \<open>data.length\<close> is what reading \<open>length\<close> of the payload's \<open>data\<close> gives (the number
  of elements when \<open>data\<close> is an array); the read throws a TypeError when \<open>data\<close> is
  missing or \<open>null\<close>.  A payload with status \<open>"ERROR"\<close> throws an \<open>Error\<close> whose message
  holds the string forms of \<open>error.code\<close> and \<open>error.message\<close>; it throws a TypeError
  instead when \<open>error\<close> is missing or \<open>null\<close> or when one of the two has no string form.
  A payload other than \<open>null\<close> and \<open>undefined\<close> whose status is neither \<open>"OK"\<close> nor
  \<open>"ERROR"\<close> throws an \<open>Error\<close> whose message holds the stringified payload.  The
  payloads \<open>null\<close> and \<open>undefined\<close> throw a TypeError.
\<close>

theorem funding_unwraps_response:
  assumes "snd (funding P t market startTime endTime cursor limit s) = [call]"
    and "t call = Inr response"
  shows
    "(response = JObj fs \<and> lookupProp fs ''status'' = JStr ''OK''
        \<and> truthy (lookupProp fs ''pagination'') \<longrightarrow>
      fst (funding P t market startTime endTime cursor limit s)
        = Inr \<lparr>data = lookupProp fs ''data'', pagination = lookupProp fs ''pagination''\<rparr>)
     \<and> (response = JObj fs \<and> lookupProp fs ''status'' = JStr ''OK''
        \<and> \<not> truthy (lookupProp fs ''pagination'')
        \<and> getProp (lookupProp fs ''data'') ''length'' = Some n \<longrightarrow>
      fst (funding P t market startTime endTime cursor limit s)
        = Inr \<lparr>data = lookupProp fs ''data'',
               pagination = JObj [(''cursor'', JNum 0), (''count'', n)]\<rparr>)
     \<and> (getProp (JArr xs) ''length'' = Some (JNum (of_nat (length xs))))
     \<and> (response = JObj fs \<and> lookupProp fs ''status'' = JStr ''OK''
        \<and> \<not> truthy (lookupProp fs ''pagination'')
        \<and> lookupProp fs ''data'' \<in> {JUndefined, JNull} \<longrightarrow>
      fst (funding P t market startTime endTime cursor limit s) = Inl TypeError)
     \<and> (response = JObj fs \<and> lookupProp fs ''status'' = JStr ''ERROR''
        \<and> getProp (lookupProp fs ''error'') ''code'' = Some c
        \<and> getProp (lookupProp fs ''error'') ''message'' = Some m
        \<and> ToString P c = Some cs \<and> ToString P m = Some ms \<longrightarrow>
      fst (funding P t market startTime endTime cursor limit s)
        = Inl (Error (''API Error: '' @ cs @ '' - '' @ ms)))
     \<and> (response = JObj fs \<and> lookupProp fs ''status'' = JStr ''ERROR''
        \<and> (lookupProp fs ''error'' \<in> {JUndefined, JNull}
            \<or> Option.bind (getProp (lookupProp fs ''error'') ''code'') (ToString P) = None
            \<or> Option.bind (getProp (lookupProp fs ''error'') ''message'') (ToString P) = None)
        \<longrightarrow>
      fst (funding P t market startTime endTime cursor limit s) = Inl TypeError)
     \<and> (getProp response ''status'' = Some st \<and> st \<noteq> JStr ''OK'' \<and> st \<noteq> JStr ''ERROR'' \<longrightarrow>
      fst (funding P t market startTime endTime cursor limit s)
        = Inl (Error (''Unexpected response format: '' @ JSON_stringify P response)))
     \<and> (response \<in> {JUndefined, JNull} \<longrightarrow>
      fst (funding P t market startTime endTime cursor limit s) = Inl TypeError)"
proof -
  have f: "fst (funding P t market startTime endTime cursor limit s) = unwrapFunding P response"
    using assms by (rule funding_called)
  have c1: "response = JObj fs \<and> lookupProp fs ''status'' = JStr ''OK''
        \<and> truthy (lookupProp fs ''pagination'') \<longrightarrow>
      unwrapFunding P response
        = Inr \<lparr>data = lookupProp fs ''data'', pagination = lookupProp fs ''pagination''\<rparr>"
    by (simp add: unwrapFunding_OK_paged)
  have c2: "response = JObj fs \<and> lookupProp fs ''status'' = JStr ''OK''
        \<and> \<not> truthy (lookupProp fs ''pagination'')
        \<and> getProp (lookupProp fs ''data'') ''length'' = Some n \<longrightarrow>
      unwrapFunding P response
        = Inr \<lparr>data = lookupProp fs ''data'',
               pagination = JObj [(''cursor'', JNum 0), (''count'', n)]\<rparr>"
    by (simp add: unwrapFunding_OK_unpaged)
  have c3: "getProp (JArr xs) ''length'' = Some (JNum (of_nat (length xs)))"
    by simp
  have c4: "response = JObj fs \<and> lookupProp fs ''status'' = JStr ''OK''
        \<and> \<not> truthy (lookupProp fs ''pagination'')
        \<and> lookupProp fs ''data'' \<in> {JUndefined, JNull} \<longrightarrow>
      unwrapFunding P response = Inl TypeError"
    by (auto simp: unwrapFunding_OK_unpaged)
  have c5: "response = JObj fs \<and> lookupProp fs ''status'' = JStr ''ERROR''
        \<and> getProp (lookupProp fs ''error'') ''code'' = Some c
        \<and> getProp (lookupProp fs ''error'') ''message'' = Some m
        \<and> ToString P c = Some cs \<and> ToString P m = Some ms \<longrightarrow>
      unwrapFunding P response = Inl (Error (''API Error: '' @ cs @ '' - '' @ ms))"
    by (simp add: unwrapFunding_ERROR apiError_def)
  have c6: "response = JObj fs \<and> lookupProp fs ''status'' = JStr ''ERROR''
        \<and> (lookupProp fs ''error'' \<in> {JUndefined, JNull}
            \<or> Option.bind (getProp (lookupProp fs ''error'') ''code'') (ToString P) = None
            \<or> Option.bind (getProp (lookupProp fs ''error'') ''message'') (ToString P) = None)
        \<longrightarrow>
      unwrapFunding P response = Inl TypeError"
    by (auto simp: unwrapFunding_ERROR apiError_def split: option.splits)
  have c7: "getProp response ''status'' = Some st \<and> st \<noteq> JStr ''OK'' \<and> st \<noteq> JStr ''ERROR'' \<longrightarrow>
      unwrapFunding P response
        = Inl (Error (''Unexpected response format: '' @ JSON_stringify P response))"
    by (simp add: unwrapFunding_other)
  have c8: "response \<in> {JUndefined, JNull} \<longrightarrow> unwrapFunding P response = Inl TypeError"
    by (auto simp: unwrapFunding_def)
  show ?thesis
    unfolding f by (intro conjI c1 c2 c3 c4 c5 c6 c7 c8)
qed

theorem funding_unwraps_response_witness:
  "snd (funding examplePlatform (resolving pagedResponse) ''BTC-USD'' (Finite 1000) (Finite 2000)
          None None None) = [fundingCall]
   \<and> resolving pagedResponse fundingCall = Inr pagedResponse
   \<and> fst (funding examplePlatform (resolving pagedResponse) ''BTC-USD'' (Finite 1000) (Finite 2000)
            None None None)
     = Inr \<lparr>data = JArr [fundingRate 1500],
            pagination = JObj [(''cursor'', JNum 7), (''count'', JNum 1)]\<rparr>
   \<and> fst (funding examplePlatform (resolving unpagedResponse) ''BTC-USD'' (Finite 1000)
            (Finite 2000) None None None)
     = Inr \<lparr>data = JArr [fundingRate 1500, fundingRate 1600],
            pagination = JObj [(''cursor'', JNum 0), (''count'', JNum 2)]\<rparr>
   \<and> fst (funding examplePlatform (resolving (JObj [(''status'', JStr ''OK'')])) ''BTC-USD''
            (Finite 1000) (Finite 2000) None None None)
     = Inl TypeError
   \<and> fst (funding examplePlatform (resolving errorResponse) ''BTC-USD'' (Finite 1000)
            (Finite 2000) None None None)
     = Inl (Error ''API Error: NOT_FOUND - no market'')
   \<and> fst (funding examplePlatform (resolving (JObj [(''status'', JStr ''ERROR'')])) ''BTC-USD''
            (Finite 1000) (Finite 2000) None None None)
     = Inl TypeError
   \<and> fst (funding examplePlatform (resolving unprintableError) ''BTC-USD''
            (Finite 1000) (Finite 2000) None None None)
     = Inl TypeError
   \<and> fst (funding examplePlatform (resolving (JObj [])) ''BTC-USD'' (Finite 1000) (Finite 2000)
            None None None)
     = Inl (Error ''Unexpected response format: {}'')
   \<and> fst (funding examplePlatform (resolving JUndefined) ''BTC-USD'' (Finite 1000) (Finite 2000)
            None None None)
     = Inl TypeError"
proof -
  have called: "snd (funding examplePlatform (resolving r) ''BTC-USD'' (Finite 1000) (Finite 2000)
                       None None None) = [fundingCall]" for r
    by (simp add: funding_def invalidMarket_def matchMarket_def upperOrHyphen_def
        falsyNumber_def awaitRequest_calls_once fundingCall_def)
  have resolved: "resolving r fundingCall = Inr r" for r
    by (simp add: resolving_def)
  note paged = funding_unwraps_response
      [OF called resolved,
       where fs = "[(''status'', JStr ''OK''), (''data'', JArr [fundingRate 1500]),
                    (''pagination'', JObj [(''cursor'', JNum 7), (''count'', JNum 1)])]",
       THEN conjunct1, THEN mp]
  note unpaged = funding_unwraps_response
      [OF called resolved,
       where fs = "[(''status'', JStr ''OK''),
                    (''data'', JArr [fundingRate 1500, fundingRate 1600])]"
         and n = "JNum 2",
       THEN conjunct2, THEN conjunct1, THEN mp]
  note noData = funding_unwraps_response
      [OF called resolved, where fs = "[(''status'', JStr ''OK'')]",
       THEN conjunct2, THEN conjunct2, THEN conjunct2, THEN conjunct1, THEN mp]
  note err = funding_unwraps_response
      [OF called resolved,
       where fs = "[(''status'', JStr ''ERROR''),
                    (''error'', JObj [(''code'', JStr ''NOT_FOUND''),
                                      (''message'', JStr ''no market'')])]"
         and c = "JStr ''NOT_FOUND''" and m = "JStr ''no market''"
         and cs = "''NOT_FOUND''" and ms = "''no market''",
       THEN conjunct2, THEN conjunct2, THEN conjunct2, THEN conjunct2, THEN conjunct1, THEN mp]
  note noError = funding_unwraps_response
      [OF called resolved, where fs = "[(''status'', JStr ''ERROR'')]",
       THEN conjunct2, THEN conjunct2, THEN conjunct2, THEN conjunct2, THEN conjunct2,
       THEN conjunct1, THEN mp]
  note unprintable = funding_unwraps_response
      [OF called resolved,
       where fs = "[(''status'', JStr ''ERROR''),
                    (''error'', JObj [(''code'', JObj [(''toString'', JNull)]),
                                      (''message'', JStr ''no market'')])]",
       THEN conjunct2, THEN conjunct2, THEN conjunct2, THEN conjunct2, THEN conjunct2,
       THEN conjunct1, THEN mp]
  note other = funding_unwraps_response
      [OF called resolved, where st = JUndefined,
       THEN conjunct2, THEN conjunct2, THEN conjunct2, THEN conjunct2, THEN conjunct2,
       THEN conjunct2, THEN conjunct1, THEN mp]
  note nullish = funding_unwraps_response
      [OF called resolved,
       THEN conjunct2, THEN conjunct2, THEN conjunct2, THEN conjunct2, THEN conjunct2,
       THEN conjunct2, THEN conjunct2, THEN mp]
  have r1: "fst (funding examplePlatform (resolving pagedResponse) ''BTC-USD'' (Finite 1000)
                   (Finite 2000) None None None)
     = Inr \<lparr>data = JArr [fundingRate 1500],
            pagination = JObj [(''cursor'', JNum 7), (''count'', JNum 1)]\<rparr>"
    using paged [of pagedResponse] by (simp add: pagedResponse_def lookupProp_def)
  have r2: "fst (funding examplePlatform (resolving unpagedResponse) ''BTC-USD'' (Finite 1000)
                   (Finite 2000) None None None)
     = Inr \<lparr>data = JArr [fundingRate 1500, fundingRate 1600],
            pagination = JObj [(''cursor'', JNum 0), (''count'', JNum 2)]\<rparr>"
    using unpaged [of unpagedResponse] by (simp add: unpagedResponse_def lookupProp_def)
  have r3: "fst (funding examplePlatform (resolving (JObj [(''status'', JStr ''OK'')])) ''BTC-USD''
                   (Finite 1000) (Finite 2000) None None None) = Inl TypeError"
    using noData [of "JObj [(''status'', JStr ''OK'')]"] by (simp add: lookupProp_def)
  have r4: "fst (funding examplePlatform (resolving errorResponse) ''BTC-USD'' (Finite 1000)
                   (Finite 2000) None None None)
     = Inl (Error ''API Error: NOT_FOUND - no market'')"
    using err [of errorResponse] by (simp add: errorResponse_def lookupProp_def)
  have r5: "fst (funding examplePlatform (resolving (JObj [(''status'', JStr ''ERROR'')]))
                   ''BTC-USD'' (Finite 1000) (Finite 2000) None None None) = Inl TypeError"
    using noError [of "JObj [(''status'', JStr ''ERROR'')]"] by (simp add: lookupProp_def)
  have r6: "fst (funding examplePlatform (resolving unprintableError) ''BTC-USD''
                   (Finite 1000) (Finite 2000) None None None) = Inl TypeError"
    using unprintable [of unprintableError] by (simp add: unprintableError_def lookupProp_def)
  have r7: "fst (funding examplePlatform (resolving (JObj [])) ''BTC-USD'' (Finite 1000)
                   (Finite 2000) None None None)
     = Inl (Error ''Unexpected response format: {}'')"
    using other [of "JObj []"]
    by (simp add: lookupProp_def examplePlatform_def exampleStringify_def)
  have r8: "fst (funding examplePlatform (resolving JUndefined) ''BTC-USD'' (Finite 1000)
                   (Finite 2000) None None None) = Inl TypeError"
    using nullish [of JUndefined] by simp
  show ?thesis
    by (intro conjI called resolved r1 r2 r3 r4 r5 r6 r7 r8)
qed

text \<open>
  The claim as stated fails on the payload \<open>null\<close>: it has neither status, yet what is
  thrown is the TypeError of reading \<open>response.status\<close>, not an error holding the payload.
\<close>

theorem funding_null_payload_counterexample:
  "funding examplePlatform (resolving JNull) ''BTC-USD'' (Finite 1000) (Finite 2000) None None None
     = (Inl TypeError, [fundingCall])"
  by (simp add: funding_def invalidMarket_def matchMarket_def upperOrHyphen_def falsyNumber_def
      awaitRequest_def resolving_def fundingCall_def unwrapFunding_def)

section \<open>Properties of the HTTP transport\<close>

subsection \<open>The request handed to fetch\<close>

lemma armTimeout_unset: "\<not> timeoutSet tmo \<Longrightarrow> armTimeout tmo st = (None, None, st)"
  by (simp add: armTimeout_def timeoutSet_def split: option.splits)

lemma armTimeout_set:
  "\<not> falsyNumber n \<Longrightarrow>
   armTimeout (Some n) st = (Some (controllers st), Some (Suc (lastTimerId st)), armed n st)"
  by (simp add: armTimeout_def newAbortController_def setTimeout_def Let_def armed_def)

lemma timeoutSet_iff: "timeoutSet tmo \<longleftrightarrow> (\<exists>n. tmo = Some n \<and> \<not> falsyNumber n)"
  by (cases tmo) (simp_all add: timeoutSet_def)

text \<open>
  What the body of \<open>try\<close> computes does not depend on the timers of the runtime, and it
  hands to \<open>fetch\<close> the request the \<open>onRequest\<close> hook leaves, if the constructor of
  the request and the hook return.
\<close>

lemma exchange_fetched:
  "fst (exchange t plat m u sg c st) = fst (exchange t plat m u sg c st')
   \<and> fetched (snd (exchange t plat m u sg c st))
       = fetched st @ handedToFetch t plat (buildRequest t m u sg c)"
  by (simp add: exchange_def handedToFetch_def Let_def split: sum.splits)

lemma tryRequest_fetched:
  "fst (tryRequest t plat m u sg c st) = fst (tryRequest t plat m u sg c st')
   \<and> fetched (snd (tryRequest t plat m u sg c st))
       = fetched st @ handedToFetch t plat (buildRequest t m u sg c)"
proof -
  obtain x st1 where e: "exchange t plat m u sg c st = (x, st1)"
    by (cases "exchange t plat m u sg c st") auto
  obtain x' st1' where e': "exchange t plat m u sg c st' = (x', st1')"
    by (cases "exchange t plat m u sg c st'") auto
  have xx: "x = x'"
    using exchange_fetched [of t plat m u sg c st st'] e e' by simp
  have f: "fetched st1 = fetched st @ handedToFetch t plat (buildRequest t m u sg c)"
    using exchange_fetched [of t plat m u sg c st st'] e by simp
  have a: "fst (tryRequest t plat m u sg c st) = fst (tryRequest t plat m u sg c st')"
    using e e' xx by (cases x') (simp_all add: tryRequest_def)
  have b: "snd (tryRequest t plat m u sg c st) = st1"
    using e by (cases x) (simp_all add: tryRequest_def)
  show ?thesis using a b f by simp
qed

lemma request_fetched:
  assumes "requestUrl t plat call = Inr u"
  shows "fst (request t plat call st)
           = fst (tryRequest t plat (call_method call) u (call_signal call)
                    (fst (armTimeout (timeout t) st)) st)
         \<and> fetched (snd (request t plat call st))
           = fetched st
             @ handedToFetch t plat
                 (buildRequest t (call_method call) u (call_signal call)
                    (fst (armTimeout (timeout t) st)))"
proof -
  obtain c h st1 where a: "armTimeout (timeout t) st = (c, h, st1)"
    by (cases "armTimeout (timeout t) st") auto
  have fs: "fetched st1 = fetched st"
    using a by (auto simp: armTimeout_def newAbortController_def setTimeout_def Let_def
        split: option.splits if_splits)
  have fc: "fetched (finallyClear h x) = fetched x" for x :: "('b, 'c) runtime"
    by (simp add: finallyClear_def clearTimeout_def split: option.splits)
  obtain res st2 where tr: "tryRequest t plat (call_method call) u (call_signal call) c st1 = (res, st2)"
    by (cases "tryRequest t plat (call_method call) u (call_signal call) c st1") auto
  have rq: "request t plat call st = (res, finallyClear h st2)"
    using assms a tr by (simp add: request_def)
  have "fst (tryRequest t plat (call_method call) u (call_signal call) c st1)
          = fst (tryRequest t plat (call_method call) u (call_signal call) c st)"
    using tryRequest_fetched by blast
  moreover have "fetched st2 = fetched st1
             @ handedToFetch t plat (buildRequest t (call_method call) u (call_signal call) c)"
    using tryRequest_fetched [of t plat "call_method call" u "call_signal call" c st1] tr
    by simp
  ultimately show ?thesis
    using rq a tr fs fc by simp
qed

lemma request_failed_url:
  "requestUrl t plat call = Inl e \<Longrightarrow> request t plat call st = (Inl (Propagated e), st)"
  by (simp add: request_def)

text \<open>
  When the \<open>URL\<close> constructor returns \<open>u\<close> for the processed path, the constructor of the
  request accepts its arguments and no \<open>onRequest\<close> hook is configured, \<open>fetch\<close>
  receives the request built on \<open>u\<close> with the query parameters added.
\<close>

lemma request_fetches_built:
  assumes "URL_new plat (''/api/v1/'' @ processPath plat (call_path call) (call_pathParams call))
             (baseUrl t) = Inr u"
    and "Request_throws plat
           (buildRequest t (call_method call) (withQueryParams plat u (call_params call))
              (call_signal call) (fst (armTimeout (timeout t) st))) = None"
    and "onRequest t = None"
  shows "fetched (snd (request t plat call st))
           = fetched st
             @ [buildRequest t (call_method call) (withQueryParams plat u (call_params call))
                  (call_signal call) (fst (armTimeout (timeout t) st))]"
proof -
  have u: "requestUrl t plat call = Inr (withQueryParams plat u (call_params call))"
    using assms(1) by (simp add: requestUrl_def)
  show ?thesis
    using request_fetched [OF u, of st] assms(2,3)
    by (simp add: handedToFetch_def Request_new_def runHook_def)
qed

lemma request_refused_url:
  assumes "URL_new plat (''/api/v1/'' @ processPath plat (call_path call) (call_pathParams call))
             (baseUrl t) = Inl e"
  shows "request t plat call st = (Inl (Propagated e), st)"
proof -
  have "requestUrl t plat call = Inl e"
    using assms by (simp add: requestUrl_def)
  then show ?thesis by (rule request_failed_url)
qed

subsection \<open>Path parameters\<close>

lemma indexOf_None_iff: "indexOf s t = None \<longleftrightarrow> \<not> includes_js s t"
  by (induction s) auto

lemma take_before_occurrence:
  assumes "pre \<noteq> []"
  shows "take (length t) (pre @ t @ post) = take (length t) (pre @ butlast t)"
proof -
  define n where "n = length t - length pre"
  have n: "n \<le> length t - 1"
    using assms unfolding n_def by (cases pre) auto
  have "take n (butlast t) = take n t"
    using n by (simp add: butlast_conv_take min_def)
  moreover have "take n (t @ post) = take n t"
    using n by simp
  ultimately show ?thesis
    by (simp add: n_def)
qed

lemma indexOf_first_occurrence:
  assumes "t \<noteq> []" and "\<not> includes_js (pre @ butlast t) t"
  shows "indexOf (pre @ t @ post) t = Some (length pre)"
  using assms
proof (induction pre)
  case Nil
  then show ?case by (cases t) auto
next
  case (Cons c cs)
  have "take (length t) ((c # cs) @ t @ post) = take (length t) ((c # cs) @ butlast t)"
    by (rule take_before_occurrence) simp
  moreover have "take (length t) ((c # cs) @ butlast t) \<noteq> t"
    and "\<not> includes_js (cs @ butlast t) t"
    using Cons.prems(2) by auto
  moreover have "indexOf (cs @ t @ post) t = Some (length cs)"
    using Cons.IH Cons.prems(1) \<open>\<not> includes_js (cs @ butlast t) t\<close> by blast
  ultimately show ?case by simp
qed

lemma getSubstitution_plain:
  "CHR ''$'' \<notin> set v \<Longrightarrow> getSubstitution m pre post v = v"
  by (induction m pre post v rule: getSubstitution.induct) auto

lemma replace_js_first_occurrence:
  assumes "t \<noteq> []" and "\<not> includes_js (pre @ butlast t) t"
  shows "replace_js (pre @ t @ post) t v = pre @ getSubstitution t pre post v @ post"
  using indexOf_first_occurrence [OF assms(1,2), of post]
  by (simp add: replace_js_def)

lemma replace_js_absent: "\<not> includes_js s t \<Longrightarrow> replace_js s t v = s"
  using indexOf_None_iff [of s t] by (simp add: replace_js_def)

lemma applyPathParams_absent:
  "list_all (\<lambda>(k, v). \<not> includes_js path (placeholder k)) entries
     \<Longrightarrow> applyPathParams P path entries = path"
proof (induction entries)
  case Nil
  show ?case by simp
next
  case (Cons e entries)
  obtain k v where e: "e = (k, v)" by (cases e)
  from Cons.prems e have "replace_js path (placeholder k) (String_path P v) = path"
    by (simp add: replace_js_absent)
  with Cons e show ?case by simp
qed

lemma applyPathParams_snoc:
  "applyPathParams P path (entries @ [(key, v)])
     = replace_js (applyPathParams P path entries) (placeholder key) (String_path P v)"
  by (induction entries arbitrary: path) auto

text \<open>
  C2, as amended.  \<open>request\<close> hands the reference \<open>/api/v1/\<close> followed by the processed
  path to the \<open>URL\<close> constructor: when the constructor returns a URL for that reference
  (and the request is constructed and not replaced by a hook) the request handed to
  \<open>fetch\<close> is built on that URL, and when it throws for that reference, \<open>request\<close>
  throws the same.  The processed path is the path when there are no entries, and each
  further entry \<open>(key, v)\<close>, in order, is applied to the path processed so far: the
  placeholder of \<open>key\<close> is replaced where it occurs first (no occurrence starts inside
  \<open>pre\<close>) by the string form of \<open>v\<close> read as a replacement pattern, and a string form
  without a dollar sign stands for itself; the text after that occurrence is kept,
  placeholders of \<open>key\<close> in it included; an entry whose placeholder does not occur
  changes nothing.  When the placeholder of no entry occurs in the path, or no path
  parameters are given, the path is unchanged: placeholders without a parameter stay as
  literal text in the reference.  The URL the body of \<open>try\<close> works on is the one the
  constructor returns for that reference, with the query parameters added.
\<close>

theorem path_parameter_replaces_first_occurrence:
  "(URL_new plat (''/api/v1/'' @ processPath plat (call_path call) (call_pathParams call))
        (baseUrl t) = Inr u
      \<and> Request_throws plat
          (buildRequest t (call_method call) (withQueryParams plat u (call_params call))
             (call_signal call) (fst (armTimeout (timeout t) st))) = None
      \<and> onRequest t = None \<longrightarrow>
    fetched (snd (request t plat call st))
      = fetched st
        @ [buildRequest t (call_method call) (withQueryParams plat u (call_params call))
             (call_signal call) (fst (armTimeout (timeout t) st))])
   \<and> (URL_new plat (''/api/v1/'' @ processPath plat (call_path call) (call_pathParams call))
        (baseUrl t) = Inl e \<longrightarrow>
    request t plat call st = (Inl (Propagated e), st))
   \<and> processPath P path (Some []) = path
   \<and> processPath P path (Some (entries @ [(key, v)]))
       = replace_js (processPath P path (Some entries)) (placeholder key) (String_path P v)
   \<and> (\<not> includes_js (pre @ butlast (placeholder key)) (placeholder key) \<longrightarrow>
    replace_js (pre @ placeholder key @ post) (placeholder key) replaceValue
      = pre @ getSubstitution (placeholder key) pre post replaceValue @ post)
   \<and> (CHR ''$'' \<notin> set replaceValue \<longrightarrow>
    getSubstitution matched preceding following replaceValue = replaceValue)
   \<and> (\<not> includes_js path (placeholder key) \<longrightarrow>
    replace_js path (placeholder key) replaceValue = path)
   \<and> (list_all (\<lambda>(k, v). \<not> includes_js path (placeholder k)) entries \<longrightarrow>
    processPath P path (Some entries) = path)
   \<and> processPath P path None = path
   \<and> requestUrl t plat call
       = (case URL_new plat
                 (''/api/v1/'' @ processPath plat (call_path call) (call_pathParams call))
                 (baseUrl t) of
            Inl e \<Rightarrow> Inl e
          | Inr u \<Rightarrow> Inr (withQueryParams plat u (call_params call)))"
proof -
  have ne: "placeholder key \<noteq> []" by (simp add: placeholder_def)
  have c1: "URL_new plat (''/api/v1/'' @ processPath plat (call_path call) (call_pathParams call))
        (baseUrl t) = Inr u
      \<and> Request_throws plat
          (buildRequest t (call_method call) (withQueryParams plat u (call_params call))
             (call_signal call) (fst (armTimeout (timeout t) st))) = None
      \<and> onRequest t = None \<longrightarrow>
    fetched (snd (request t plat call st))
      = fetched st
        @ [buildRequest t (call_method call) (withQueryParams plat u (call_params call))
             (call_signal call) (fst (armTimeout (timeout t) st))]"
    by (intro impI, elim conjE) (rule request_fetches_built)
  have c2: "URL_new plat (''/api/v1/'' @ processPath plat (call_path call) (call_pathParams call))
        (baseUrl t) = Inl e \<longrightarrow>
    request t plat call st = (Inl (Propagated e), st)"
    by (rule impI) (rule request_refused_url)
  have c3: "processPath P path (Some []) = path"
    by (simp add: processPath_def)
  have c4: "processPath P path (Some (entries @ [(key, v)]))
       = replace_js (processPath P path (Some entries)) (placeholder key) (String_path P v)"
    by (simp add: processPath_def applyPathParams_snoc)
  have c5: "\<not> includes_js (pre @ butlast (placeholder key)) (placeholder key) \<longrightarrow>
    replace_js (pre @ placeholder key @ post) (placeholder key) replaceValue
      = pre @ getSubstitution (placeholder key) pre post replaceValue @ post"
    using replace_js_first_occurrence [OF ne] by blast
  have c6: "CHR ''$'' \<notin> set replaceValue \<longrightarrow>
    getSubstitution matched preceding following replaceValue = replaceValue"
    using getSubstitution_plain by blast
  have c7: "\<not> includes_js path (placeholder key) \<longrightarrow>
    replace_js path (placeholder key) replaceValue = path"
    using replace_js_absent by blast
  have c8: "list_all (\<lambda>(k, v). \<not> includes_js path (placeholder k)) entries \<longrightarrow>
    processPath P path (Some entries) = path"
    by (simp add: processPath_def applyPathParams_absent)
  have c9: "processPath P path None = path"
    by (simp add: processPath_def)
  have c10: "requestUrl t plat call
       = (case URL_new plat
                 (''/api/v1/'' @ processPath plat (call_path call) (call_pathParams call))
                 (baseUrl t) of
            Inl e \<Rightarrow> Inl e
          | Inr u \<Rightarrow> Inr (withQueryParams plat u (call_params call)))"
    by (simp add: requestUrl_def)
  show ?thesis
    by (intro conjI c1 c2 c3 c4 c5 c6 c7 c8 c9 c10)
qed

theorem path_parameter_replaces_first_occurrence_witness:
  "URL_new (respondingWith jsonReply)
       (''/api/v1/''
        @ processPath (respondingWith jsonReply) (call_path candlesCall)
            (call_pathParams candlesCall))
       (baseUrl exampleTransport) = Inr candlesURL
   \<and> Request_throws (respondingWith jsonReply)
         (buildRequest exampleTransport (call_method candlesCall)
            (withQueryParams (respondingWith jsonReply) candlesURL (call_params candlesCall))
            (call_signal candlesCall)
            (fst (armTimeout (timeout exampleTransport) freshRuntime))) = None
   \<and> onRequest exampleTransport = None
   \<and> map (url_reference \<circ> req_url)
         (fetched (snd (request exampleTransport (respondingWith jsonReply) candlesCall
                          freshRuntime)))
       = [''/api/v1/info/candles/BTC-USD/trades'']
   \<and> requestUrl exampleTransport (respondingWith jsonReply) candlesCall
       = Inr \<lparr>url_reference = ''/api/v1/info/candles/BTC-USD/trades'',
              url_base = ''https://app.extended.exchange'',
              searchParams = [(''interval'', ''1m''), (''limit'', ''10'')]\<rparr>
   \<and> URL_new refusingURL
         (''/api/v1/'' @ processPath refusingURL (call_path candlesCall)
                           (call_pathParams candlesCall))
         (baseUrl exampleTransport) = Inl ()
   \<and> request exampleTransport refusingURL candlesCall freshRuntime
       = (Inl (Propagated ()), freshRuntime)
   \<and> processPath examplePlatform ''info/{b}''
         (Some ([(''a'', PathNumber (Finite 1))] @ [(''b'', PathNumber (Finite 2))]))
       = ''info/2''
   \<and> \<not> includes_js (''info/markets/'' @ butlast (placeholder ''market'')) (placeholder ''market'')
   \<and> CHR ''$'' \<notin> set ''BTC-USD''
   \<and> replace_js (''info/markets/'' @ placeholder ''market'' @ ''/stats/{market}'')
         (placeholder ''market'') ''BTC-USD''
       = ''info/markets/BTC-USD/stats/{market}''
   \<and> \<not> includes_js ''info/{market}/funding'' (placeholder ''candleType'')
   \<and> replace_js ''info/{market}/funding'' (placeholder ''candleType'') ''trades''
       = ''info/{market}/funding''
   \<and> list_all (\<lambda>(k, v). \<not> includes_js ''info/{market}/funding'' (placeholder k))
         [(''candleType'', PathString ''trades'')]
   \<and> processPath examplePlatform ''info/{market}/funding''
         (Some [(''candleType'', PathString ''trades'')])
       = ''info/{market}/funding''"
proof -
  note inst1 = path_parameter_replaces_first_occurrence
      [where plat = "respondingWith jsonReply" and call = candlesCall and t = exampleTransport
         and u = candlesURL and st = freshRuntime, THEN conjunct1, THEN mp]
  note inst2 = path_parameter_replaces_first_occurrence
      [where plat = refusingURL and call = candlesCall and t = exampleTransport
         and e = "()" and st = freshRuntime, THEN conjunct2, THEN conjunct1, THEN mp]
  note rest = path_parameter_replaces_first_occurrence
      [THEN conjunct2, THEN conjunct2]
  note empty = rest [THEN conjunct1]
  note snoc = rest [THEN conjunct2, THEN conjunct1]
  note first = rest [THEN conjunct2, THEN conjunct2, THEN conjunct1, THEN mp]
  note plain = rest [THEN conjunct2, THEN conjunct2, THEN conjunct2, THEN conjunct1, THEN mp]
  note absent = rest [THEN conjunct2, THEN conjunct2, THEN conjunct2, THEN conjunct2,
      THEN conjunct1, THEN mp]
  note allAbsent = rest [THEN conjunct2, THEN conjunct2, THEN conjunct2, THEN conjunct2,
      THEN conjunct2, THEN conjunct1, THEN mp]
  have h1: "URL_new (respondingWith jsonReply)
       (''/api/v1/''
        @ processPath (respondingWith jsonReply) (call_path candlesCall)
            (call_pathParams candlesCall))
       (baseUrl exampleTransport) = Inr candlesURL"
    by code_simp
  have h2: "Request_throws (respondingWith jsonReply)
         (buildRequest exampleTransport (call_method candlesCall)
            (withQueryParams (respondingWith jsonReply) candlesURL (call_params candlesCall))
            (call_signal candlesCall)
            (fst (armTimeout (timeout exampleTransport) freshRuntime))) = None"
    by (simp add: respondingWith_def)
  have h3: "onRequest exampleTransport = None"
    by (simp add: exampleTransport_def HttpTransport_new_def)
  have f: "fetched (snd (request exampleTransport (respondingWith jsonReply) candlesCall
                          freshRuntime))
       = fetched freshRuntime
         @ [buildRequest exampleTransport (call_method candlesCall)
              (withQueryParams (respondingWith jsonReply) candlesURL (call_params candlesCall))
              (call_signal candlesCall)
              (fst (armTimeout (timeout exampleTransport) freshRuntime))]"
    using h1 h2 h3 by (intro inst1 conjI)
  have r1: "map (url_reference \<circ> req_url)
         (fetched (snd (request exampleTransport (respondingWith jsonReply) candlesCall
                          freshRuntime)))
       = [''/api/v1/info/candles/BTC-USD/trades'']"
    unfolding f
    by (simp add: freshRuntime_def buildRequest_def withQueryParams_def candlesURL_def
        split: option.splits)
  have ru0: "(case URL_new (respondingWith jsonReply)
                 (''/api/v1/'' @ processPath (respondingWith jsonReply) (call_path candlesCall)
                                   (call_pathParams candlesCall))
                 (baseUrl exampleTransport) of
            Inl e \<Rightarrow> Inl e
          | Inr u \<Rightarrow> Inr (withQueryParams (respondingWith jsonReply) u
                          (call_params candlesCall)))
       = (Inr \<lparr>url_reference = ''/api/v1/info/candles/BTC-USD/trades'',
               url_base = ''https://app.extended.exchange'',
               searchParams = [(''interval'', ''1m''), (''limit'', ''10'')]\<rparr> :: unit + url)"
    by code_simp
  have ru: "requestUrl exampleTransport (respondingWith jsonReply) candlesCall
       = Inr \<lparr>url_reference = ''/api/v1/info/candles/BTC-USD/trades'',
              url_base = ''https://app.extended.exchange'',
              searchParams = [(''interval'', ''1m''), (''limit'', ''10'')]\<rparr>"
    using path_parameter_replaces_first_occurrence
      [where plat = "respondingWith jsonReply" and call = candlesCall and t = exampleTransport,
       THEN conjunct2, THEN conjunct2, THEN conjunct2, THEN conjunct2, THEN conjunct2,
       THEN conjunct2, THEN conjunct2, THEN conjunct2, THEN conjunct2]
      ru0
    by (rule trans)
  have h4: "URL_new refusingURL
         (''/api/v1/'' @ processPath refusingURL (call_path candlesCall)
                           (call_pathParams candlesCall))
         (baseUrl exampleTransport) = Inl ()"
    by (simp add: refusingURL_def)
  have r2: "request exampleTransport refusingURL candlesCall freshRuntime
       = (Inl (Propagated ()), freshRuntime)"
    using h4 by (rule inst2)
  have s0: "processPath examplePlatform ''info/{b}'' (Some ([] @ [(''a'', PathNumber (Finite 1))]))
       = replace_js (processPath examplePlatform ''info/{b}'' (Some [])) (placeholder ''a'')
           (String_path examplePlatform (PathNumber (Finite 1)))"
    by (rule snoc)
  have s1: "processPath examplePlatform ''info/{b}''
         (Some ([(''a'', PathNumber (Finite 1))] @ [(''b'', PathNumber (Finite 2))]))
       = replace_js (processPath examplePlatform ''info/{b}'' (Some [(''a'', PathNumber (Finite 1))]))
           (placeholder ''b'') (String_path examplePlatform (PathNumber (Finite 2)))"
    by (rule snoc)
  have s2: "replace_js (replace_js ''info/{b}'' (placeholder ''a'')
                          (String_path examplePlatform (PathNumber (Finite 1))))
              (placeholder ''b'') (String_path examplePlatform (PathNumber (Finite 2)))
            = ''info/2''"
    by code_simp
  have r3: "processPath examplePlatform ''info/{b}''
         (Some ([(''a'', PathNumber (Finite 1))] @ [(''b'', PathNumber (Finite 2))]))
       = ''info/2''"
    using s0 s1 s2 empty [of examplePlatform "''info/{b}''"] by simp
  have h5: "\<not> includes_js (''info/markets/'' @ butlast (placeholder ''market''))
              (placeholder ''market'')"
    by (simp add: placeholder_def)
  have h6: "CHR ''$'' \<notin> set ''BTC-USD''"
    by simp
  have r4: "replace_js (''info/markets/'' @ placeholder ''market'' @ ''/stats/{market}'')
         (placeholder ''market'') ''BTC-USD''
       = ''info/markets/BTC-USD/stats/{market}''"
    using first [OF h5, of "''/stats/{market}''" "''BTC-USD''"]
      plain [OF h6, of "placeholder ''market''" "''info/markets/''" "''/stats/{market}''"]
    by simp
  have h7: "\<not> includes_js ''info/{market}/funding'' (placeholder ''candleType'')"
    by (simp add: placeholder_def)
  have r5: "replace_js ''info/{market}/funding'' (placeholder ''candleType'') ''trades''
       = ''info/{market}/funding''"
    using h7 by (rule absent)
  have h8: "list_all (\<lambda>(k, v). \<not> includes_js ''info/{market}/funding'' (placeholder k))
              [(''candleType'', PathString ''trades'')]"
    by (simp add: placeholder_def)
  have r6: "processPath examplePlatform ''info/{market}/funding''
         (Some [(''candleType'', PathString ''trades'')])
       = ''info/{market}/funding''"
    using h8 by (rule allAbsent)
  show ?thesis
    by (intro conjI h1 h2 h3 r1 ru h4 r2 r3 h5 h6 r4 h7 r5 h8 r6)
qed

text \<open>
  The claim as stated fails on a template that names a placeholder twice: only the first
  occurrence is replaced, and the second is part of the reference of the URL.
\<close>

theorem path_parameter_second_occurrence_counterexample:
  "processPath examplePlatform ''a/{m}/b/{m}'' (Some [(''m'', PathString ''X'')]) = ''a/X/b/{m}''
   \<and> map (url_reference \<circ> req_url)
         (fetched (snd (request exampleTransport (respondingWith jsonReply) twiceCall
                          freshRuntime)))
       = [''/api/v1/a/X/b/{m}'']"
  by code_simp

subsection \<open>Query parameters\<close>

lemma addQueryParams_Cons:
  "addQueryParams P q (e # rest) = addQueryParams P (addEntry P q e) rest"
  by (cases e; cases "snd e") (auto simp: addEntry_def)

lemma foldl_searchParams_append:
  "foldl (\<lambda>q' v. searchParams_append key v q') q vs = q @ map (Pair key) vs"
  by (induction vs arbitrary: q) (auto simp: searchParams_append_def)

lemma filter_setFirst:
  "list_ex (\<lambda>p. fst p = name) ps \<Longrightarrow>
   filter (\<lambda>p. fst p = k) (setFirst name v ps)
     = (if k = name then [(name, v)] else filter (\<lambda>p. fst p = k) ps)"
proof (induction ps)
  case Nil
  then show ?case by simp
next
  case (Cons p ps)
  show ?case
  proof (cases "fst p = name")
    case True
    have "filter (\<lambda>p. fst p = k) (filter (\<lambda>q. fst q \<noteq> name) ps)
            = (if k = name then [] else filter (\<lambda>p. fst p = k) ps)"
      by (induction ps) auto
    with True show ?thesis by auto
  next
    case False
    with Cons show ?thesis by auto
  qed
qed

lemma filter_searchParams_set:
  "filter (\<lambda>p. fst p = k) (searchParams_set name v ps)
     = (if k = name then [(name, v)] else filter (\<lambda>p. fst p = k) ps)"
proof (cases "list_ex (\<lambda>p. fst p = name) ps")
  case True
  then show ?thesis by (simp add: searchParams_set_def filter_setFirst)
next
  case False
  then have "filter (\<lambda>p. fst p = name) ps = []"
    by (induction ps) auto
  with False show ?thesis by (auto simp: searchParams_set_def)
qed

lemma filter_addEntry:
  "filter (\<lambda>p. fst p = k) (addEntry P q e)
     = (if k = fst e
        then (case snd e of
                PArray vs \<Rightarrow> filter (\<lambda>p. fst p = k) q @ map (Pair k) vs
              | v \<Rightarrow> [(k, String_param P v)])
        else filter (\<lambda>p. fst p = k) q)"
  by (cases "snd e")
    (auto simp: addEntry_def filter_searchParams_set foldl_searchParams_append
      filter_empty_conv)

lemma filter_addQueryParams_other:
  "k \<notin> fst ` set entries \<Longrightarrow>
   filter (\<lambda>p. fst p = k) (addQueryParams P q entries) = filter (\<lambda>p. fst p = k) q"
proof (induction entries arbitrary: q)
  case Nil
  show ?case by simp
next
  case (Cons e entries)
  then show ?case by (simp add: addQueryParams_Cons filter_addEntry)
qed

lemma filter_addQueryParams_entry:
  assumes "distinct (map fst entries)" and "(k, v) \<in> set entries"
  shows "filter (\<lambda>p. fst p = k) (addQueryParams P q entries)
           = (case v of
                PArray vs \<Rightarrow> filter (\<lambda>p. fst p = k) q @ map (Pair k) vs
              | _ \<Rightarrow> [(k, String_param P v)])"
  using assms
proof (induction entries arbitrary: q)
  case Nil
  then show ?case by simp
next
  case (Cons e entries)
  show ?case
  proof (cases "e = (k, v)")
    case True
    with Cons.prems have "k \<notin> fst ` set entries" by auto
    then have "filter (\<lambda>p. fst p = k) (addQueryParams P (addEntry P q e) entries)
                 = filter (\<lambda>p. fst p = k) (addEntry P q e)"
      by (rule filter_addQueryParams_other)
    with True show ?thesis
      by (simp add: addQueryParams_Cons filter_addEntry split: param_value.splits)
  next
    case False
    with Cons.prems have in_rest: "(k, v) \<in> set entries" and d: "distinct (map fst entries)"
      and ne: "fst e \<noteq> k" by (auto simp: image_iff)
    have "filter (\<lambda>p. fst p = k) (addQueryParams P (addEntry P q e) entries)
            = (case v of
                 PArray vs \<Rightarrow> filter (\<lambda>p. fst p = k) (addEntry P q e) @ map (Pair k) vs
               | _ \<Rightarrow> [(k, String_param P v)])"
      using Cons.IH [OF d in_rest] .
    moreover have "filter (\<lambda>p. fst p = k) (addEntry P q e) = filter (\<lambda>p. fst p = k) q"
      using ne by (simp add: filter_addEntry)
    ultimately show ?thesis
      by (cases v) (simp_all add: addQueryParams_Cons)
  qed
qed

lemma keys_setFirst: "fst ` set (setFirst name v ps) \<subseteq> insert name (fst ` set ps)"
  by (induction ps) auto

lemma keys_addEntry:
  "fst ` set (addEntry P q e) \<subseteq> insert (fst e) (fst ` set q)"
proof (cases "snd e")
  case (PArray vs)
  then show ?thesis by (auto simp: addEntry_def foldl_searchParams_append)
next
  case (PString x)
  with keys_setFirst show ?thesis by (auto simp: addEntry_def searchParams_set_def)
next
  case (PNumber x)
  with keys_setFirst show ?thesis by (auto simp: addEntry_def searchParams_set_def)
next
  case (PBoolean x)
  with keys_setFirst show ?thesis by (auto simp: addEntry_def searchParams_set_def)
qed

lemma addEntry_fresh:
  "fst e \<notin> fst ` set q \<Longrightarrow> addEntry P q e = q @ queryPairs P e"
  by (cases e; cases "snd e")
    (auto simp: addEntry_def searchParams_set_def foldl_searchParams_append list_ex_iff)

lemma disjoint_after_insert:
  "x \<notin> A \<Longrightarrow> A \<inter> Q = {} \<Longrightarrow> K \<subseteq> insert x Q \<Longrightarrow> A \<inter> K = {}"
  by blast

lemma addQueryParams_fresh:
  "distinct (map fst entries) \<Longrightarrow> fst ` set entries \<inter> fst ` set q = {} \<Longrightarrow>
   addQueryParams P q entries = q @ concat (map (queryPairs P) entries)"
proof (induction entries arbitrary: q)
  case Nil
  show ?case by simp
next
  case (Cons e entries)
  from Cons.prems(2) have fresh: "fst e \<notin> fst ` set q" by simp
  have step: "addEntry P q e = q @ queryPairs P e"
    using fresh by (rule addEntry_fresh)
  have d: "distinct (map fst entries)"
    using Cons.prems(1) by simp
  have x: "fst e \<notin> fst ` set entries"
    using Cons.prems(1) by simp
  have y: "fst ` set entries \<inter> fst ` set q = {}"
    using Cons.prems(2) by simp
  have "fst ` set entries \<inter> fst ` set (addEntry P q e) = {}"
    using x y keys_addEntry by (rule disjoint_after_insert)
  with d have "addQueryParams P (addEntry P q e) entries
               = addEntry P q e @ concat (map (queryPairs P) entries)"
    by (rule Cons.IH)
  then show ?case
    unfolding addQueryParams_Cons step by simp
qed

text \<open>
  C9.  The entries of a query-parameter object have pairwise distinct keys.  When the
  \<open>URL\<close> constructor returns \<open>u\<close> for the processed path, the URL the body of \<open>try\<close>
  works on is \<open>u\<close> with the query parameters added, and (when the request is
  constructed and not replaced by a hook) it is the URL of the request handed to
  \<open>fetch\<close>.  On a URL without a query the search parameters become the pairs of the
  entries, in order: one pair for a scalar value, one pair per element for an array
  value, in the order of the array.  Whatever query the URL has, a scalar entry leaves
  exactly one pair of its key, and an array entry adds its elements, in their order,
  after the pairs the URL has under that key.
\<close>

theorem query_parameters_serialized:
  assumes "distinct (map fst entries)"
  shows
    "(call_params call = Some entries
        \<and> URL_new plat (''/api/v1/'' @ processPath plat (call_path call) (call_pathParams call))
            (baseUrl t) = Inr u
        \<and> Request_throws plat
            (buildRequest t (call_method call) (withQueryParams plat u (Some entries))
               (call_signal call) (fst (armTimeout (timeout t) st))) = None
        \<and> onRequest t = None \<longrightarrow>
        map req_url (fetched (snd (request t plat call st)))
          = map req_url (fetched st) @ [withQueryParams plat u (Some entries)])
     \<and> withQueryParams P u (Some entries)
         = u\<lparr>searchParams := addQueryParams P (searchParams u) entries\<rparr>
     \<and> (searchParams u = [] \<longrightarrow>
        searchParams (withQueryParams P u (Some entries))
          = concat (map (queryPairs P) entries))
     \<and> ((k, v) \<in> set entries \<longrightarrow>
        filter (\<lambda>p. fst p = k) (searchParams (withQueryParams P u (Some entries)))
          = (case v of
               PArray vs \<Rightarrow> filter (\<lambda>p. fst p = k) (searchParams u) @ map (Pair k) vs
             | _ \<Rightarrow> [(k, String_param P v)]))
     \<and> queryPairs P (k, PArray vs) = map (Pair k) vs
     \<and> queryPairs P (k, PString x) = [(k, x)]
     \<and> queryPairs P (k, PNumber n) = [(k, Number_toString P n)]
     \<and> queryPairs P (k, PBoolean b) = [(k, if b then ''true'' else ''false'')]
     \<and> (call_params call = Some entries
        \<and> URL_new plat (''/api/v1/'' @ processPath plat (call_path call) (call_pathParams call))
            (baseUrl t) = Inr u \<longrightarrow>
        requestUrl t plat call = Inr (withQueryParams plat u (Some entries)))"
proof -
  have c1: "call_params call = Some entries
        \<and> URL_new plat (''/api/v1/'' @ processPath plat (call_path call) (call_pathParams call))
            (baseUrl t) = Inr u
        \<and> Request_throws plat
            (buildRequest t (call_method call) (withQueryParams plat u (Some entries))
               (call_signal call) (fst (armTimeout (timeout t) st))) = None
        \<and> onRequest t = None \<longrightarrow>
        map req_url (fetched (snd (request t plat call st)))
          = map req_url (fetched st) @ [withQueryParams plat u (Some entries)]"
  proof (intro impI, elim conjE)
    assume p: "call_params call = Some entries"
      and u: "URL_new plat (''/api/v1/'' @ processPath plat (call_path call) (call_pathParams call))
                (baseUrl t) = Inr u"
      and r: "Request_throws plat
                (buildRequest t (call_method call) (withQueryParams plat u (Some entries))
                   (call_signal call) (fst (armTimeout (timeout t) st))) = None"
      and h: "onRequest t = None"
    have "fetched (snd (request t plat call st))
           = fetched st
             @ [buildRequest t (call_method call) (withQueryParams plat u (call_params call))
                  (call_signal call) (fst (armTimeout (timeout t) st))]"
      using u r h unfolding p [symmetric] by (rule request_fetches_built)
    then show "map req_url (fetched (snd (request t plat call st)))
          = map req_url (fetched st) @ [withQueryParams plat u (Some entries)]"
      by (simp add: buildRequest_def p)
  qed
  have sp: "searchParams (withQueryParams P u (Some entries))
              = addQueryParams P (searchParams u) entries"
    by (simp add: withQueryParams_def)
  have c2: "withQueryParams P u (Some entries)
         = u\<lparr>searchParams := addQueryParams P (searchParams u) entries\<rparr>"
    by (simp add: withQueryParams_def)
  have whole: "addQueryParams P [] entries = [] @ concat (map (queryPairs P) entries)"
    using assms by (rule addQueryParams_fresh) simp
  have c3: "searchParams u = [] \<longrightarrow>
        searchParams (withQueryParams P u (Some entries))
          = concat (map (queryPairs P) entries)"
    unfolding sp using whole by simp
  have each: "(k, v) \<in> set entries \<Longrightarrow>
      filter (\<lambda>p. fst p = k) (addQueryParams P (searchParams u) entries)
        = (case v of
             PArray vs \<Rightarrow> filter (\<lambda>p. fst p = k) (searchParams u) @ map (Pair k) vs
           | _ \<Rightarrow> [(k, String_param P v)])"
    using assms by (rule filter_addQueryParams_entry)
  have c4: "(k, v) \<in> set entries \<longrightarrow>
        filter (\<lambda>p. fst p = k) (searchParams (withQueryParams P u (Some entries)))
          = (case v of
               PArray vs \<Rightarrow> filter (\<lambda>p. fst p = k) (searchParams u) @ map (Pair k) vs
             | _ \<Rightarrow> [(k, String_param P v)])"
    unfolding sp using each by simp
  have c5: "queryPairs P (k, PArray vs) = map (Pair k) vs"
    and c6: "queryPairs P (k, PString x) = [(k, x)]"
    and c7: "queryPairs P (k, PNumber n) = [(k, Number_toString P n)]"
    and c8: "queryPairs P (k, PBoolean b) = [(k, if b then ''true'' else ''false'')]"
    by simp_all
  have c9: "call_params call = Some entries
        \<and> URL_new plat (''/api/v1/'' @ processPath plat (call_path call) (call_pathParams call))
            (baseUrl t) = Inr u \<longrightarrow>
        requestUrl t plat call = Inr (withQueryParams plat u (Some entries))"
    by (simp add: requestUrl_def)
  show ?thesis
    by (intro conjI c1 c2 c3 c4 c5 c6 c7 c8 c9)
qed

theorem query_parameters_serialized_witness:
  "distinct (map fst exampleQuery)
   \<and> call_params marketsCall = Some exampleQuery
   \<and> URL_new (respondingWith jsonReply)
         (''/api/v1/'' @ processPath (respondingWith jsonReply) (call_path marketsCall)
                           (call_pathParams marketsCall))
         (baseUrl exampleTransport) = Inr exampleURL
   \<and> Request_throws (respondingWith jsonReply)
         (buildRequest exampleTransport (call_method marketsCall)
            (withQueryParams (respondingWith jsonReply) exampleURL (Some exampleQuery))
            (call_signal marketsCall)
            (fst (armTimeout (timeout exampleTransport) freshRuntime))) = None
   \<and> onRequest exampleTransport = None
   \<and> map (searchParams \<circ> req_url)
         (fetched (snd (request exampleTransport (respondingWith jsonReply) marketsCall
                          freshRuntime)))
       = [[(''market'', ''BTC-USD''), (''market'', ''ETH-USD''), (''limit'', ''10''),
           (''active'', ''true''), (''interval'', ''P1D'')]]
   \<and> requestUrl exampleTransport (respondingWith jsonReply) marketsCall
       = Inr (withQueryParams (respondingWith jsonReply) exampleURL (Some exampleQuery))
   \<and> searchParams exampleURL = []
   \<and> searchParams (withQueryParams examplePlatform exampleURL (Some exampleQuery))
       = [(''market'', ''BTC-USD''), (''market'', ''ETH-USD''), (''limit'', ''10''),
          (''active'', ''true''), (''interval'', ''P1D'')]
   \<and> (''market'', PArray [''BTC-USD'', ''ETH-USD'']) \<in> set exampleQuery
   \<and> filter (\<lambda>p. fst p = ''market'')
         (searchParams (withQueryParams examplePlatform exampleURL (Some exampleQuery)))
       = [(''market'', ''BTC-USD''), (''market'', ''ETH-USD'')]
   \<and> (''limit'', PNumber (Finite 10)) \<in> set exampleQuery
   \<and> filter (\<lambda>p. fst p = ''limit'')
         (searchParams (withQueryParams examplePlatform exampleURL (Some exampleQuery)))
       = [(''limit'', ''10'')]"
proof -
  have d: "distinct (map fst exampleQuery)"
    by (simp add: exampleQuery_def)
  have p: "call_params marketsCall = Some exampleQuery"
    by (simp add: marketsCall_def)
  have h1: "URL_new (respondingWith jsonReply)
         (''/api/v1/'' @ processPath (respondingWith jsonReply) (call_path marketsCall)
                           (call_pathParams marketsCall))
         (baseUrl exampleTransport) = Inr exampleURL"
    by code_simp
  have h2: "Request_throws (respondingWith jsonReply)
         (buildRequest exampleTransport (call_method marketsCall)
            (withQueryParams (respondingWith jsonReply) exampleURL (Some exampleQuery))
            (call_signal marketsCall)
            (fst (armTimeout (timeout exampleTransport) freshRuntime))) = None"
    by (simp add: respondingWith_def)
  have h3: "onRequest exampleTransport = None"
    by (simp add: exampleTransport_def HttpTransport_new_def)
  have e: "searchParams exampleURL = []"
    by (simp add: exampleURL_def)
  have m: "(''market'', PArray [''BTC-USD'', ''ETH-USD'']) \<in> set exampleQuery"
    by (simp add: exampleQuery_def)
  have l: "(''limit'', PNumber (Finite 10)) \<in> set exampleQuery"
    by (simp add: exampleQuery_def)
  note tied = query_parameters_serialized
      [OF d, where call = marketsCall and plat = "respondingWith jsonReply"
         and t = exampleTransport and u = exampleURL and st = freshRuntime,
       THEN conjunct1, THEN mp]
  note rest = query_parameters_serialized
      [OF d, where P = examplePlatform and u = exampleURL, THEN conjunct2, THEN conjunct2]
  note built = query_parameters_serialized
      [OF d, where call = marketsCall and plat = "respondingWith jsonReply"
         and t = exampleTransport and u = exampleURL,
       THEN conjunct2, THEN conjunct2, THEN conjunct2, THEN conjunct2, THEN conjunct2,
       THEN conjunct2, THEN conjunct2, THEN conjunct2, THEN mp]
  have ru: "requestUrl exampleTransport (respondingWith jsonReply) marketsCall
       = Inr (withQueryParams (respondingWith jsonReply) exampleURL (Some exampleQuery))"
    using p h1 by (intro built conjI)
  note whole = rest [THEN conjunct1, THEN mp]
  note each = rest [THEN conjunct2, THEN conjunct1, THEN mp]
  have f: "map req_url (fetched (snd (request exampleTransport (respondingWith jsonReply)
                                         marketsCall freshRuntime)))
       = map req_url (fetched freshRuntime)
         @ [withQueryParams (respondingWith jsonReply) exampleURL (Some exampleQuery)]"
    using p h1 h2 h3 by (intro tied conjI)
  have v0: "searchParams (withQueryParams (respondingWith jsonReply) exampleURL (Some exampleQuery))
             = [(''market'', ''BTC-USD''), (''market'', ''ETH-USD''), (''limit'', ''10''),
                (''active'', ''true''), (''interval'', ''P1D'')]"
    by code_simp
  have "map (searchParams \<circ> req_url)
          (fetched (snd (request exampleTransport (respondingWith jsonReply) marketsCall
                           freshRuntime)))
        = map searchParams
            (map req_url (fetched (snd (request exampleTransport (respondingWith jsonReply)
                                          marketsCall freshRuntime))))"
    by simp
  then have r1: "map (searchParams \<circ> req_url)
         (fetched (snd (request exampleTransport (respondingWith jsonReply) marketsCall
                          freshRuntime)))
       = [[(''market'', ''BTC-USD''), (''market'', ''ETH-USD''), (''limit'', ''10''),
           (''active'', ''true''), (''interval'', ''P1D'')]]"
    unfolding f by (simp add: v0 freshRuntime_def)
  have c1: "searchParams (withQueryParams examplePlatform exampleURL (Some exampleQuery))
              = concat (map (queryPairs examplePlatform) exampleQuery)"
    using e by (rule whole)
  have v: "concat (map (queryPairs examplePlatform) exampleQuery)
             = [(''market'', ''BTC-USD''), (''market'', ''ETH-USD''), (''limit'', ''10''),
                (''active'', ''true''), (''interval'', ''P1D'')]"
    by code_simp
  have c2: "filter (\<lambda>p. fst p = ''market'')
              (searchParams (withQueryParams examplePlatform exampleURL (Some exampleQuery)))
            = [(''market'', ''BTC-USD''), (''market'', ''ETH-USD'')]"
    using each [OF m] e by simp
  have n10: "Number_toString examplePlatform (Finite 10) = ''10''"
    by code_simp
  have c3: "filter (\<lambda>p. fst p = ''limit'')
              (searchParams (withQueryParams examplePlatform exampleURL (Some exampleQuery)))
            = [(''limit'', ''10'')]"
    using each [OF l] n10 by simp
  have c1v: "searchParams (withQueryParams examplePlatform exampleURL (Some exampleQuery))
       = [(''market'', ''BTC-USD''), (''market'', ''ETH-USD''), (''limit'', ''10''),
          (''active'', ''true''), (''interval'', ''P1D'')]"
    using c1 v by (rule trans)
  show ?thesis
    by (intro conjI d p h1 h2 h3 r1 ru e c1v m c2 l c3)
qed

subsection \<open>Response classification\<close>









subsection \<open>The timeout timer\<close>

lemma exchange_runtime:
  "pendingTimers (snd (exchange t plat m u sg c st)) = pendingTimers st
   \<and> lastTimerId (snd (exchange t plat m u sg c st)) = lastTimerId st
   \<and> controllers (snd (exchange t plat m u sg c st)) = controllers st"
  by (simp add: exchange_def Request_new_def Let_def split: sum.splits option.splits)

lemma tryRequest_runtime:
  "pendingTimers (snd (tryRequest t plat m u sg c st)) = pendingTimers st
   \<and> lastTimerId (snd (tryRequest t plat m u sg c st)) = lastTimerId st
   \<and> controllers (snd (tryRequest t plat m u sg c st)) = controllers st"
proof -
  obtain x st' where e: "exchange t plat m u sg c st = (x, st')"
    by (cases "exchange t plat m u sg c st") auto
  have "snd (tryRequest t plat m u sg c st) = st'"
    using e by (cases x) (simp_all add: tryRequest_def)
  moreover have "snd (exchange t plat m u sg c st) = st'"
    using e by simp
  ultimately show ?thesis
    using exchange_runtime [of t plat m u sg c st] by simp
qed

lemma request_runtime_unset:
  assumes "\<not> timeoutSet (timeout t)" and "requestUrl t plat call = Inr u"
  shows "request t plat call st
           = tryRequest t plat (call_method call) u (call_signal call) None st"
  using assms by (simp add: request_def armTimeout_unset finallyClear_def)

lemma request_runtime_set:
  assumes "timeout t = Some n" and "\<not> falsyNumber n" and "requestUrl t plat call = Inr u"
  shows "request t plat call st
           = (fst (tryRequest t plat (call_method call) u (call_signal call)
                     (Some (controllers st)) (armed n st)),
              clearTimeout (Suc (lastTimerId st))
                (snd (tryRequest t plat (call_method call) u (call_signal call)
                        (Some (controllers st)) (armed n st))))"
  using assms
  by (simp add: request_def armTimeout_set [OF assms(2)] finallyClear_def split_beta)


lemma pending_after_request_set:
  assumes "timeout t = Some n" and "\<not> falsyNumber n" and "requestUrl t plat call = Inr u"
  shows "pendingTimers (snd (request t plat call st))
           = filter (\<lambda>x. fst x \<noteq> Suc (lastTimerId st)) (pendingTimers st)"
proof -
  have "pendingTimers (snd (tryRequest t plat (call_method call) u (call_signal call)
                              (Some (controllers st)) (armed n st)))
          = pendingTimers (armed n st)"
    using tryRequest_runtime by blast
  then show ?thesis
    unfolding request_runtime_set [OF assms]
    by (simp add: clearTimeout_def armed_def)
qed

lemma pending_after_request_unset:
  assumes "\<not> timeoutSet (timeout t) \<or> isl (requestUrl t plat call)"
  shows "pendingTimers (snd (request t plat call st)) = pendingTimers st"
proof (cases "requestUrl t plat call")
  case (Inl e)
  then show ?thesis by (simp add: request_failed_url)
next
  case (Inr u)
  with assms have "\<not> timeoutSet (timeout t)" by simp
  then show ?thesis
    using request_runtime_unset [OF _ Inr] tryRequest_runtime by metis
qed

text \<open>
  C8.  After a call the timers that are pending are those that were pending before it,
  without the timer of the call: with the timeout set and the URL built, the timer is
  created and pending when the body of \<open>try\<close> starts, \<open>clearTimeout\<close> is applied to the
  runtime the body leaves behind whatever its outcome (a returned body, a thrown
  \<open>HttpRequestError\<close>, an error of the constructor of the request, of \<open>fetch\<close> or of
  a hook, cancellation included), and
  the timer is not pending afterwards.  Without a timeout, or when the \<open>URL\<close>
  constructor throws, no timer is created.
\<close>

theorem timeout_timer_cleared:
  "pendingTimers (snd (request t plat call st))
     = (if timeoutSet (timeout t) \<and> \<not> isl (requestUrl t plat call)
        then filter (\<lambda>x. fst x \<noteq> Suc (lastTimerId st)) (pendingTimers st)
        else pendingTimers st)
   \<and> (timeout t = Some n \<and> \<not> falsyNumber n \<and> requestUrl t plat call = Inr u \<longrightarrow>
        armTimeout (timeout t) st
          = (Some (controllers st), Some (Suc (lastTimerId st)), armed n st)
        \<and> (Suc (lastTimerId st), n, controllers st) \<in> set (pendingTimers (armed n st))
        \<and> request t plat call st
          = (fst (tryRequest t plat (call_method call) u (call_signal call)
                    (Some (controllers st)) (armed n st)),
             clearTimeout (Suc (lastTimerId st))
               (snd (tryRequest t plat (call_method call) u (call_signal call)
                       (Some (controllers st)) (armed n st))))
        \<and> Suc (lastTimerId st) \<notin> fst ` set (pendingTimers (snd (request t plat call st))))"
proof -
  have first: "pendingTimers (snd (request t plat call st))
     = (if timeoutSet (timeout t) \<and> \<not> isl (requestUrl t plat call)
        then filter (\<lambda>x. fst x \<noteq> Suc (lastTimerId st)) (pendingTimers st)
        else pendingTimers st)"
  proof (cases "timeoutSet (timeout t) \<and> \<not> isl (requestUrl t plat call)")
    case True
    then obtain m u' where "timeout t = Some m" "\<not> falsyNumber m"
      "requestUrl t plat call = Inr u'"
      by (cases "requestUrl t plat call") (auto simp: timeoutSet_iff)
    then show ?thesis
      using True pending_after_request_set by simp
  next
    case False
    then show ?thesis
      using pending_after_request_unset [of t plat call st] by auto
  qed
  have second: "timeout t = Some n \<Longrightarrow> \<not> falsyNumber n \<Longrightarrow> requestUrl t plat call = Inr u \<Longrightarrow>
      Suc (lastTimerId st) \<notin> fst ` set (pendingTimers (snd (request t plat call st)))"
    by (auto simp: pending_after_request_set)
  show ?thesis
    using first second request_runtime_set [of t n plat call u st] armTimeout_set [of n st]
    by (simp add: armed_def)
qed


theorem timeout_timer_cleared_witness:
  "timeout exampleTransport = Some (Finite 10000)
   \<and> \<not> falsyNumber (Finite 10000)
   \<and> requestUrl exampleTransport (respondingWith jsonReply) (statsCall None) = Inr statsURL
   \<and> (Suc (lastTimerId freshRuntime), Finite 10000, controllers freshRuntime)
       \<in> set (pendingTimers (armed (Finite 10000) freshRuntime))
   \<and> Suc (lastTimerId freshRuntime)
       \<notin> fst ` set (pendingTimers (snd (request exampleTransport (respondingWith jsonReply)
                                         (statsCall None) freshRuntime)))
   \<and> request exampleTransport (respondingWith jsonReply) (statsCall None) freshRuntime
       = (Inr (JObj []),
          \<lparr>lastTimerId = 1, pendingTimers = [], controllers = 1,
           fetched = [buildRequest exampleTransport GET statsURL None (Some 0)]\<rparr>)
   \<and> pendingTimers (snd (request exampleTransport (respondingWith notFound)
                            (statsCall None) freshRuntime)) = []
   \<and> isTransportError (fst (request exampleTransport (respondingWith notFound)
                                 (statsCall None) freshRuntime))
   \<and> request exampleTransport failingFetch (statsCall None) freshRuntime
       = (Inl (Propagated ()),
          \<lparr>lastTimerId = 1, pendingTimers = [], controllers = 1,
           fetched = [buildRequest exampleTransport GET statsURL None (Some 0)]\<rparr>)
   \<and> request exampleTransport (refusingRequest jsonReply) (statsCall None) freshRuntime
       = (Inl (Propagated ()),
          \<lparr>lastTimerId = 1, pendingTimers = [], controllers = 1, fetched = []\<rparr>)"
proof -
  have h1: "timeout exampleTransport = Some (Finite 10000)"
    by (simp add: exampleTransport_def HttpTransport_new_def)
  have h2: "\<not> falsyNumber (Finite 10000)"
    by (simp add: falsyNumber_def)
  have h3: "requestUrl exampleTransport (respondingWith jsonReply) (statsCall None) = Inr statsURL"
    by code_simp
  note inst = timeout_timer_cleared
      [where t = exampleTransport and plat = "respondingWith jsonReply"
         and call = "statsCall None" and st = freshRuntime and n = "Finite 10000"
         and u = statsURL]
  have c1: "(Suc (lastTimerId freshRuntime), Finite 10000, controllers freshRuntime)
              \<in> set (pendingTimers (armed (Finite 10000) freshRuntime))"
    using inst h1 h2 h3 by blast
  have c2: "Suc (lastTimerId freshRuntime)
       \<notin> fst ` set (pendingTimers (snd (request exampleTransport (respondingWith jsonReply)
                                         (statsCall None) freshRuntime)))"
    using inst h1 h2 h3 by blast
  have v1: "request exampleTransport (respondingWith jsonReply) (statsCall None) freshRuntime
       = (Inr (JObj []),
          \<lparr>lastTimerId = 1, pendingTimers = [], controllers = 1,
           fetched = [buildRequest exampleTransport GET statsURL None (Some 0)]\<rparr>)"
    by code_simp
  have v2: "pendingTimers (snd (request exampleTransport (respondingWith notFound)
                            (statsCall None) freshRuntime)) = []"
    by code_simp
  have v3: "isTransportError (fst (request exampleTransport (respondingWith notFound)
                                 (statsCall None) freshRuntime))"
    by code_simp
  have v4: "request exampleTransport failingFetch (statsCall None) freshRuntime
       = (Inl (Propagated ()),
          \<lparr>lastTimerId = 1, pendingTimers = [], controllers = 1,
           fetched = [buildRequest exampleTransport GET statsURL None (Some 0)]\<rparr>)"
    by code_simp
  have v5: "request exampleTransport (refusingRequest jsonReply) (statsCall None) freshRuntime
       = (Inl (Propagated ()),
          \<lparr>lastTimerId = 1, pendingTimers = [], controllers = 1, fetched = []\<rparr>)"
    by code_simp
  show ?thesis
    by (intro conjI h1 h2 h3 c1 c2 v1 v2 v3 v4 v5)
qed
subsection \<open>The signal of the request\<close>

lemma requestUrl_timeout:
  "requestUrl (t\<lparr>timeout := tmo\<rparr>) plat call = requestUrl t plat call"
  by (simp add: requestUrl_def baseUrl_def)

lemma requestUrl_onRequest:
  "requestUrl (t\<lparr>onRequest := hk\<rparr>) plat call = requestUrl t plat call"
  by (simp add: requestUrl_def baseUrl_def)

lemma buildRequest_timeout:
  "buildRequest (t\<lparr>timeout := tmo\<rparr>) m u sg c = buildRequest t m u sg c"
  by (simp add: buildRequest_def)

lemma exchange_timeout:
  "exchange (t\<lparr>timeout := tmo\<rparr>) plat m u sg c st = exchange t plat m u sg c st"
  by (simp add: exchange_def buildRequest_timeout Let_def split: sum.splits)

lemma tryRequest_timeout:
  "tryRequest (t\<lparr>timeout := tmo\<rparr>) plat m u sg c st = tryRequest t plat m u sg c st"
  by (simp add: tryRequest_def exchange_timeout)

lemma handedToFetch_timeout:
  "handedToFetch (t\<lparr>timeout := tmo\<rparr>) plat built = handedToFetch t plat built"
  by (simp add: handedToFetch_def split: sum.splits)

lemma buildRequest_caller:
  "buildRequest t m u (Some s) c = buildRequest t m u (Some s) None"
  by (simp add: buildRequest_def effectiveSignal_def)

lemma tryRequest_caller:
  "tryRequest t plat m u (Some s) c st = tryRequest t plat m u (Some s) None st"
  by (simp add: tryRequest_def exchange_def buildRequest_caller [of t m u s c])

lemma request_ignores_timeout:
  assumes "requestUrl t plat call = Inr u" and "call_signal call = Some s"
  shows "fst (request (t\<lparr>timeout := tmo\<rparr>) plat call st) = fst (request t plat call st)"
    and "fetched (snd (request (t\<lparr>timeout := tmo\<rparr>) plat call st))
           = fetched (snd (request t plat call st))"
proof -
  have u': "requestUrl (t\<lparr>timeout := tmo\<rparr>) plat call = Inr u"
    using assms(1) by (simp add: requestUrl_timeout)
  have b: "buildRequest (t\<lparr>timeout := tmo\<rparr>) (call_method call) u (Some s) c
             = buildRequest t (call_method call) u (Some s) c'" for c c'
    by (simp add: buildRequest_def effectiveSignal_def)
  show "fst (request (t\<lparr>timeout := tmo\<rparr>) plat call st) = fst (request t plat call st)"
    using request_fetched [OF u', of st] request_fetched [OF assms(1), of st] assms(2)
      tryRequest_caller [of t plat "call_method call" u s "fst (armTimeout tmo st)" st]
      tryRequest_caller [of t plat "call_method call" u s "fst (armTimeout (timeout t) st)" st]
    by (simp add: tryRequest_timeout)
  show "fetched (snd (request (t\<lparr>timeout := tmo\<rparr>) plat call st))
           = fetched (snd (request t plat call st))"
    using request_fetched [OF u', of st] request_fetched [OF assms(1), of st] assms(2)
      b [of "fst (armTimeout (timeout (t\<lparr>timeout := tmo\<rparr>)) st)"
           "fst (armTimeout (timeout t) st)"]
    by (simp add: handedToFetch_timeout)
qed

lemma request_signal:
  "req_signal (buildRequest t m u sg (fst (armTimeout (timeout t) st)))
     = (case sg of
          Some s \<Rightarrow> Some (CallerSignal s)
        | None \<Rightarrow> if timeoutSet (timeout t) then Some (ControllerSignal (controllers st))
                  else None)"
proof (cases "timeoutSet (timeout t)")
  case True
  then obtain n where "timeout t = Some n" "\<not> falsyNumber n"
    by (auto simp: timeoutSet_iff)
  then show ?thesis
    using True by (simp add: buildRequest_def effectiveSignal_def armTimeout_set split: option.splits)
next
  case False
  then show ?thesis
    by (simp add: buildRequest_def effectiveSignal_def armTimeout_unset split: option.splits)
qed

lemma request_constructor_throws:
  assumes "requestUrl t plat call = Inr u"
    and "Request_throws plat
           (buildRequest t (call_method call) u (call_signal call)
              (fst (armTimeout (timeout t) st))) = Some e"
  shows "fst (request t plat call st) = Inl (Propagated e)"
    and "fetched (snd (request t plat call st)) = fetched st"
  using request_fetched [OF assms(1), of st] assms(2)
  by (simp_all add: tryRequest_def exchange_def handedToFetch_def Request_new_def)

lemma request_hook_throws:
  assumes "requestUrl t plat call = Inr u"
    and "Request_throws plat
           (buildRequest t (call_method call) u (call_signal call)
              (fst (armTimeout (timeout t) st))) = None"
    and "onRequest t = Some h"
    and "h (buildRequest t (call_method call) u (call_signal call)
              (fst (armTimeout (timeout t) st))) = Inl e"
  shows "fst (request t plat call st) = Inl (Propagated e)"
    and "fetched (snd (request t plat call st)) = fetched st"
  using request_fetched [OF assms(1), of st] assms(2,3,4)
  by (simp_all add: tryRequest_def exchange_def handedToFetch_def Request_new_def runHook_def)

text \<open>
  C7, as amended.  For a call whose URL is built, let the request constructed inside
  \<open>try\<close> be the one built on the caller's signal and the controller of the timeout.
  Its signal is exactly the caller's signal when one is given, the signal of the
  controller created for this call when none is given and the timeout is set, and no
  signal otherwise.  When the constructor accepts the request and the \<open>onRequest\<close> hook
  is absent or returns nothing, that request is the one handed to \<open>fetch\<close>; when the
  hook returns a request, the returned request is handed to \<open>fetch\<close> in its place, with
  whatever signal it carries; when the constructor or the hook throws, the call throws
  the same and hands nothing to \<open>fetch\<close>.  With a caller's signal the result of the
  call and the requests handed to \<open>fetch\<close> are the same for every value of the
  timeout.  With the timeout set, the controller whose signal is used is the one the
  pending timer of the call aborts.
\<close>

theorem effective_signal:
  assumes "requestUrl t plat call = Inr u"
    and "built = buildRequest t (call_method call) u (call_signal call)
                   (fst (armTimeout (timeout t) st))"
  shows
    "req_signal built
       = (case call_signal call of
            Some s \<Rightarrow> Some (CallerSignal s)
          | None \<Rightarrow> if timeoutSet (timeout t) then Some (ControllerSignal (controllers st))
                    else None)
     \<and> (Request_throws plat built = None \<and> onRequest t = None \<longrightarrow>
        fetched (snd (request t plat call st)) = fetched st @ [built])
     \<and> (Request_throws plat built = None \<and> onRequest t = Some h \<and> h built = Inr None \<longrightarrow>
        fetched (snd (request t plat call st)) = fetched st @ [built])
     \<and> (Request_throws plat built = None \<and> onRequest t = Some h
        \<and> h built = Inr (Some replaced) \<longrightarrow>
        fetched (snd (request t plat call st)) = fetched st @ [replaced])
     \<and> (Request_throws plat built = None \<and> onRequest t = Some h \<and> h built = Inl e \<longrightarrow>
        fst (request t plat call st) = Inl (Propagated e)
        \<and> fetched (snd (request t plat call st)) = fetched st)
     \<and> (Request_throws plat built = Some e \<longrightarrow>
        fst (request t plat call st) = Inl (Propagated e)
        \<and> fetched (snd (request t plat call st)) = fetched st)
     \<and> (call_signal call = Some s \<longrightarrow>
        fst (request (t\<lparr>timeout := tmo\<rparr>) plat call st) = fst (request t plat call st)
        \<and> fetched (snd (request (t\<lparr>timeout := tmo\<rparr>) plat call st))
            = fetched (snd (request t plat call st)))
     \<and> (timeout t = Some n \<and> \<not> falsyNumber n \<longrightarrow>
        armTimeout (timeout t) st
          = (Some (controllers st), Some (Suc (lastTimerId st)), armed n st)
        \<and> (Suc (lastTimerId st), n, controllers st) \<in> set (pendingTimers (armed n st)))"
proof -
  note f = request_fetched [OF assms(1), of st, folded assms(2)]
  have c1: "req_signal built
       = (case call_signal call of
            Some s \<Rightarrow> Some (CallerSignal s)
          | None \<Rightarrow> if timeoutSet (timeout t) then Some (ControllerSignal (controllers st))
                    else None)"
    unfolding assms(2) by (rule request_signal)
  have c2: "Request_throws plat built = None \<and> onRequest t = None \<longrightarrow>
        fetched (snd (request t plat call st)) = fetched st @ [built]"
    using f by (simp add: handedToFetch_def Request_new_def runHook_def)
  have c3: "Request_throws plat built = None \<and> onRequest t = Some h \<and> h built = Inr None \<longrightarrow>
        fetched (snd (request t plat call st)) = fetched st @ [built]"
    using f by (simp add: handedToFetch_def Request_new_def runHook_def)
  have c4: "Request_throws plat built = None \<and> onRequest t = Some h
        \<and> h built = Inr (Some replaced) \<longrightarrow>
        fetched (snd (request t plat call st)) = fetched st @ [replaced]"
    using f by (simp add: handedToFetch_def Request_new_def runHook_def)
  have c5: "Request_throws plat built = None \<and> onRequest t = Some h \<and> h built = Inl e \<longrightarrow>
        fst (request t plat call st) = Inl (Propagated e)
        \<and> fetched (snd (request t plat call st)) = fetched st"
    using request_hook_throws [OF assms(1), of st h e] unfolding assms(2) by blast
  have c6: "Request_throws plat built = Some e \<longrightarrow>
        fst (request t plat call st) = Inl (Propagated e)
        \<and> fetched (snd (request t plat call st)) = fetched st"
    using request_constructor_throws [OF assms(1), of st e] unfolding assms(2) by blast
  have c7: "call_signal call = Some s \<longrightarrow>
        fst (request (t\<lparr>timeout := tmo\<rparr>) plat call st) = fst (request t plat call st)
        \<and> fetched (snd (request (t\<lparr>timeout := tmo\<rparr>) plat call st))
            = fetched (snd (request t plat call st))"
    using request_ignores_timeout [OF assms(1)] by blast
  have c8: "timeout t = Some n \<and> \<not> falsyNumber n \<longrightarrow>
        armTimeout (timeout t) st
          = (Some (controllers st), Some (Suc (lastTimerId st)), armed n st)
        \<and> (Suc (lastTimerId st), n, controllers st) \<in> set (pendingTimers (armed n st))"
    by (simp add: armTimeout_set armed_def)
  show ?thesis
    by (intro conjI c1 c2 c3 c4 c5 c6 c7 c8)
qed

theorem effective_signal_witness:
  "requestUrl exampleTransport (respondingWith jsonReply) (statsCall (Some ())) = Inr statsURL
   \<and> Request_throws (respondingWith jsonReply)
         (buildRequest exampleTransport GET statsURL (Some ())
            (fst (armTimeout (timeout exampleTransport) freshRuntime))) = None
   \<and> onRequest exampleTransport = None
   \<and> map req_signal
         (fetched (snd (request exampleTransport (respondingWith jsonReply)
                          (statsCall (Some ())) freshRuntime)))
       = [Some (CallerSignal ())]
   \<and> fst (request (exampleTransport\<lparr>timeout := None\<rparr>) (respondingWith jsonReply)
              (statsCall (Some ())) freshRuntime)
       = fst (request exampleTransport (respondingWith jsonReply)
                (statsCall (Some ())) freshRuntime)
   \<and> timeout exampleTransport = Some (Finite 10000) \<and> \<not> falsyNumber (Finite 10000)
   \<and> armTimeout (timeout exampleTransport) freshRuntime
       = (Some 0, Some 1,
          \<lparr>lastTimerId = 1, pendingTimers = [(1, Finite 10000, 0)], controllers = 1,
           fetched = []\<rparr>)
   \<and> map req_signal
         (fetched (snd (request exampleTransport (respondingWith jsonReply)
                          (statsCall None) freshRuntime)))
       = [Some (ControllerSignal 0)]
   \<and> passingHook (buildRequest exampleTransport GET statsURL (Some ())
                     (fst (armTimeout (timeout exampleTransport) freshRuntime))) = Inr None
   \<and> map req_signal
         (fetched (snd (request (exampleTransport\<lparr>onRequest := Some passingHook\<rparr>)
                          (respondingWith jsonReply) (statsCall (Some ())) freshRuntime)))
       = [Some (CallerSignal ())]
   \<and> strippingHook (buildRequest exampleTransport GET statsURL (Some ())
                       (fst (armTimeout (timeout exampleTransport) freshRuntime)))
       = Inr (Some \<lparr>req_url = statsURL, req_method = GET, req_init = (), req_signal = None\<rparr>)
   \<and> fetched (snd (request (exampleTransport\<lparr>onRequest := Some strippingHook\<rparr>)
                     (respondingWith jsonReply) (statsCall (Some ())) freshRuntime))
       = [\<lparr>req_url = statsURL, req_method = GET, req_init = (), req_signal = None\<rparr>]
   \<and> throwingHook (buildRequest exampleTransport GET statsURL (Some ())
                      (fst (armTimeout (timeout exampleTransport) freshRuntime))) = Inl ()
   \<and> fst (request (exampleTransport\<lparr>onRequest := Some throwingHook\<rparr>)
            (respondingWith jsonReply) (statsCall (Some ())) freshRuntime)
       = Inl (Propagated ())
   \<and> fetched (snd (request (exampleTransport\<lparr>onRequest := Some throwingHook\<rparr>)
                     (respondingWith jsonReply) (statsCall (Some ())) freshRuntime)) = []
   \<and> Request_throws (refusingRequest jsonReply)
         (buildRequest exampleTransport GET statsURL (Some ())
            (fst (armTimeout (timeout exampleTransport) freshRuntime))) = Some ()
   \<and> fst (request exampleTransport (refusingRequest jsonReply) (statsCall (Some ()))
            freshRuntime)
       = Inl (Propagated ())
   \<and> fetched (snd (request exampleTransport (refusingRequest jsonReply) (statsCall (Some ()))
                     freshRuntime)) = []"
proof -
  have ua: "requestUrl exampleTransport (respondingWith jsonReply) (statsCall (Some ()))
              = Inr statsURL"
    by code_simp
  have ub: "requestUrl exampleTransport (respondingWith jsonReply) (statsCall None)
              = Inr statsURL"
    by code_simp
  have uh: "requestUrl (exampleTransport\<lparr>onRequest := hk\<rparr>) (respondingWith jsonReply)
              (statsCall (Some ())) = Inr statsURL" for hk
    unfolding requestUrl_onRequest by (rule ua)
  have u2: "requestUrl exampleTransport (refusingRequest jsonReply) (statsCall (Some ()))
              = Inr statsURL"
    by code_simp
  have m: "call_method (statsCall sg) = GET" "call_signal (statsCall sg) = sg"
    for sg :: "unit option"
    by (simp_all add: statsCall_def)
  have fr: "fetched freshRuntime = []" "controllers freshRuntime = 0"
    "lastTimerId freshRuntime = 0"
    by (simp_all add: freshRuntime_def)
  have nh: "onRequest exampleTransport = None"
    by (simp add: exampleTransport_def HttpTransport_new_def)
  have tm: "timeout exampleTransport = Some (Finite 10000)"
    by (simp add: exampleTransport_def HttpTransport_new_def)
  have nz: "\<not> falsyNumber (Finite 10000)"
    by (simp add: falsyNumber_def)
  have ts: "timeoutSet (timeout exampleTransport)"
    by (simp add: tm timeoutSet_def nz)
  have ok: "Request_throws (respondingWith jsonReply) rq = None" for rq
    by (simp add: respondingWith_def)
  have no: "Request_throws (refusingRequest jsonReply) rq = Some ()" for rq
    by (simp add: refusingRequest_def)
  have bt: "buildRequest (exampleTransport\<lparr>onRequest := hk\<rparr>) GET statsURL sg
              (fst (armTimeout (timeout (exampleTransport\<lparr>onRequest := hk\<rparr>)) freshRuntime))
            = buildRequest exampleTransport GET statsURL sg
                (fst (armTimeout (timeout exampleTransport) freshRuntime))" for hk sg
    by (simp add: buildRequest_def)
  have bv: "buildRequest exampleTransport GET statsURL (Some ())
              (fst (armTimeout (timeout exampleTransport) freshRuntime))
            = \<lparr>req_url = statsURL, req_method = GET, req_init = (),
               req_signal = Some (CallerSignal ())\<rparr>"
    by (simp add: buildRequest_def effectiveSignal_def exampleTransport_def HttpTransport_new_def)

  note plain = effective_signal
      [OF ua refl, where st = freshRuntime, unfolded m]
  note timed = effective_signal
      [OF ub refl, where st = freshRuntime, unfolded m]
  note passing = effective_signal
      [OF uh [of "Some passingHook"] refl, where st = freshRuntime, unfolded m bt]
  note stripping = effective_signal
      [OF uh [of "Some strippingHook"] refl, where st = freshRuntime, unfolded m bt]
  note throwing = effective_signal
      [OF uh [of "Some throwingHook"] refl, where st = freshRuntime, unfolded m bt]
  note refused = effective_signal [OF u2 refl, where st = freshRuntime, unfolded m]

  have a0: "req_signal (buildRequest exampleTransport GET statsURL (Some ())
              (fst (armTimeout (timeout exampleTransport) freshRuntime)))
            = Some (CallerSignal ())"
    using plain [THEN conjunct1] by simp
  have a1: "fetched (snd (request exampleTransport (respondingWith jsonReply)
                            (statsCall (Some ())) freshRuntime))
            = fetched freshRuntime
              @ [buildRequest exampleTransport GET statsURL (Some ())
                   (fst (armTimeout (timeout exampleTransport) freshRuntime))]"
    using plain [THEN conjunct2, THEN conjunct1] ok nh by blast
  have r1: "map req_signal
         (fetched (snd (request exampleTransport (respondingWith jsonReply)
                          (statsCall (Some ())) freshRuntime)))
       = [Some (CallerSignal ())]"
    unfolding a1 using a0 by (simp add: fr)
  have r2: "fst (request (exampleTransport\<lparr>timeout := None\<rparr>) (respondingWith jsonReply)
              (statsCall (Some ())) freshRuntime)
       = fst (request exampleTransport (respondingWith jsonReply)
                (statsCall (Some ())) freshRuntime)"
    using plain [where tmo = None, THEN conjunct2, THEN conjunct2, THEN conjunct2,
        THEN conjunct2, THEN conjunct2, THEN conjunct2, THEN conjunct1]
    by simp
  have b0: "req_signal (buildRequest exampleTransport GET statsURL None
              (fst (armTimeout (timeout exampleTransport) freshRuntime)))
            = Some (ControllerSignal 0)"
    using timed [THEN conjunct1] ts by (simp add: fr)
  have b1: "fetched (snd (request exampleTransport (respondingWith jsonReply)
                            (statsCall None) freshRuntime))
            = fetched freshRuntime
              @ [buildRequest exampleTransport GET statsURL None
                   (fst (armTimeout (timeout exampleTransport) freshRuntime))]"
    using timed [THEN conjunct2, THEN conjunct1] ok nh by blast
  have r3: "map req_signal
         (fetched (snd (request exampleTransport (respondingWith jsonReply)
                          (statsCall None) freshRuntime)))
       = [Some (ControllerSignal 0)]"
    unfolding b1 using b0 by (simp add: fr)
  have r4: "armTimeout (timeout exampleTransport) freshRuntime
       = (Some 0, Some 1,
          \<lparr>lastTimerId = 1, pendingTimers = [(1, Finite 10000, 0)], controllers = 1,
           fetched = []\<rparr>)"
    using timed [where n = "Finite 10000", THEN conjunct2, THEN conjunct2, THEN conjunct2,
        THEN conjunct2, THEN conjunct2, THEN conjunct2, THEN conjunct2] tm nz
    by (simp add: armed_def freshRuntime_def)
  have h1: "passingHook (buildRequest exampleTransport GET statsURL (Some ())
                     (fst (armTimeout (timeout exampleTransport) freshRuntime))) = Inr None"
    by (simp add: passingHook_def)
  have p1: "fetched (snd (request (exampleTransport\<lparr>onRequest := Some passingHook\<rparr>)
                            (respondingWith jsonReply) (statsCall (Some ())) freshRuntime))
            = fetched freshRuntime
              @ [buildRequest exampleTransport GET statsURL (Some ())
                   (fst (armTimeout (timeout exampleTransport) freshRuntime))]"
    using passing [where h = passingHook, THEN conjunct2, THEN conjunct2, THEN conjunct1]
      ok h1
    by simp
  have r5: "map req_signal
         (fetched (snd (request (exampleTransport\<lparr>onRequest := Some passingHook\<rparr>)
                          (respondingWith jsonReply) (statsCall (Some ())) freshRuntime)))
       = [Some (CallerSignal ())]"
    unfolding p1 using a0 by (simp add: fr)
  have h2: "strippingHook (buildRequest exampleTransport GET statsURL (Some ())
                       (fst (armTimeout (timeout exampleTransport) freshRuntime)))
       = Inr (Some \<lparr>req_url = statsURL, req_method = GET, req_init = (), req_signal = None\<rparr>)"
    by (simp add: strippingHook_def bv)
  have r6: "fetched (snd (request (exampleTransport\<lparr>onRequest := Some strippingHook\<rparr>)
                     (respondingWith jsonReply) (statsCall (Some ())) freshRuntime))
       = [\<lparr>req_url = statsURL, req_method = GET, req_init = (), req_signal = None\<rparr>]"
    using stripping [where h = strippingHook
        and replaced = "\<lparr>req_url = statsURL, req_method = GET, req_init = (),
                          req_signal = None\<rparr>",
        THEN conjunct2, THEN conjunct2, THEN conjunct2, THEN conjunct1]
      ok h2
    by (simp add: fr)
  have h3: "throwingHook (buildRequest exampleTransport GET statsURL (Some ())
                      (fst (armTimeout (timeout exampleTransport) freshRuntime))) = Inl ()"
    by (simp add: throwingHook_def)
  have r7: "fst (request (exampleTransport\<lparr>onRequest := Some throwingHook\<rparr>)
            (respondingWith jsonReply) (statsCall (Some ())) freshRuntime)
       = Inl (Propagated ())
     \<and> fetched (snd (request (exampleTransport\<lparr>onRequest := Some throwingHook\<rparr>)
                     (respondingWith jsonReply) (statsCall (Some ())) freshRuntime)) = []"
    using throwing [where h = throwingHook and e = "()",
        THEN conjunct2, THEN conjunct2, THEN conjunct2, THEN conjunct2, THEN conjunct1]
      ok h3
    by (simp add: fr)
  have r8: "fst (request exampleTransport (refusingRequest jsonReply) (statsCall (Some ()))
            freshRuntime)
       = Inl (Propagated ())
     \<and> fetched (snd (request exampleTransport (refusingRequest jsonReply) (statsCall (Some ()))
                     freshRuntime)) = []"
    using refused [where e = "()",
        THEN conjunct2, THEN conjunct2, THEN conjunct2, THEN conjunct2, THEN conjunct2,
        THEN conjunct1]
      no
    by (simp add: fr)
  show ?thesis
    by (intro conjI ua ok nh r1 r2 tm nz r4 r3 h1 r5 h2 r6 h3
        r7 [THEN conjunct1] r7 [THEN conjunct2] no r8 [THEN conjunct1] r8 [THEN conjunct2])
qed

text \<open>
  The claim as stated fails when an \<open>onRequest\<close> hook returns a request of its own: the
  caller gives a signal, and the request handed to \<open>fetch\<close> carries none.
\<close>

theorem replaced_request_signal_counterexample:
  "call_signal (statsCall (Some ())) = Some ()
   \<and> map req_signal
         (fetched (snd (request (exampleTransport\<lparr>onRequest := Some strippingHook\<rparr>)
                          (respondingWith jsonReply) (statsCall (Some ())) freshRuntime)))
       = [None]"
  by code_simp

subsection \<open>A timeout of zero and a timeout of null\<close>

text \<open>
  A timeout option of \<open>0\<close> is stored as \<open>0\<close>, and with the timeout \<open>0\<close> a call creates
  neither a controller nor a timer.
\<close>

lemma timeout_zero_no_timer:
  "timeout (HttpTransport_new init (Some (opts\<lparr>opt_timeout := TimeoutMs (Finite 0)\<rparr>)))
     = Some (Finite 0)
   \<and> armTimeout (Some (Finite 0)) st = (None, None, st)
   \<and> controllers (snd (request (t\<lparr>timeout := Some (Finite 0)\<rparr>) plat call st)) = controllers st
   \<and> lastTimerId (snd (request (t\<lparr>timeout := Some (Finite 0)\<rparr>) plat call st)) = lastTimerId st
   \<and> pendingTimers (snd (request (t\<lparr>timeout := Some (Finite 0)\<rparr>) plat call st))
       = pendingTimers st"
proof -
  have rt: "controllers (snd (request (t\<lparr>timeout := Some (Finite 0)\<rparr>) plat call st))
       = controllers st
   \<and> lastTimerId (snd (request (t\<lparr>timeout := Some (Finite 0)\<rparr>) plat call st)) = lastTimerId st
   \<and> pendingTimers (snd (request (t\<lparr>timeout := Some (Finite 0)\<rparr>) plat call st))
       = pendingTimers st"
  proof (cases "requestUrl (t\<lparr>timeout := Some (Finite 0)\<rparr>) plat call")
    case (Inl e)
    then show ?thesis by (simp add: request_failed_url)
  next
    case (Inr u)
    have "\<not> timeoutSet (timeout (t\<lparr>timeout := Some (Finite 0)\<rparr>))"
      by (simp add: timeoutSet_def falsyNumber_def)
    then show ?thesis
      using request_runtime_unset [OF _ Inr, of st] tryRequest_runtime by metis
  qed
  show ?thesis
    using rt by (simp add: HttpTransport_new_def armTimeout_def falsyNumber_def)
qed

text \<open>
  As an option of the constructor, \<open>null\<close> is replaced by the default like an option
  left out.
\<close>

lemma constructor_null_timeout:
  "timeout (HttpTransport_new init (Some (opts\<lparr>opt_timeout := TimeoutNull\<rparr>)))
     = Some (Finite 10000)
   \<and> timeout (HttpTransport_new init None) = Some (Finite 10000)"
  by (simp add: HttpTransport_new_def)

text \<open>
  C10.  The transport constructed with the timeout \<open>0\<close> stores \<open>0\<close>, and its call
  creates no controller and no timer and hands \<open>fetch\<close> a request without a signal.
  The transport constructed with the timeout \<open>null\<close> does not behave the same: it
  stores \<open>10000\<close>, and its call creates a controller and a timer of \<open>10000\<close>
  milliseconds that is pending during the call, and hands \<open>fetch\<close> a request with the
  signal of that controller.
\<close>

theorem null_timeout_arms_timer:
  "timeout (HttpTransport_new () (Some (noOptions\<lparr>opt_timeout := TimeoutMs (Finite 0)\<rparr>)))
     = Some (Finite 0)
   \<and> armTimeout (Some (Finite 0)) freshRuntime = (None, None, freshRuntime)
   \<and> request (HttpTransport_new () (Some (noOptions\<lparr>opt_timeout := TimeoutMs (Finite 0)\<rparr>)))
         (respondingWith jsonReply) (statsCall None) freshRuntime
       = (Inr (JObj []),
          \<lparr>lastTimerId = 0, pendingTimers = [], controllers = 0,
           fetched = [\<lparr>req_url = statsURL, req_method = GET, req_init = (),
                       req_signal = None\<rparr>]\<rparr>)
   \<and> timeout (HttpTransport_new () (Some (noOptions\<lparr>opt_timeout := TimeoutNull\<rparr>)))
       = Some (Finite 10000)
   \<and> armTimeout (Some (Finite 10000)) freshRuntime
       = (Some 0, Some 1,
          \<lparr>lastTimerId = 1, pendingTimers = [(1, Finite 10000, 0)], controllers = 1,
           fetched = []\<rparr>)
   \<and> request (HttpTransport_new () (Some (noOptions\<lparr>opt_timeout := TimeoutNull\<rparr>)))
         (respondingWith jsonReply) (statsCall None) freshRuntime
       = (Inr (JObj []),
          \<lparr>lastTimerId = 1, pendingTimers = [], controllers = 1,
           fetched = [\<lparr>req_url = statsURL, req_method = GET, req_init = (),
                       req_signal = Some (ControllerSignal 0)\<rparr>]\<rparr>)"
proof -
  have z: "timeout (HttpTransport_new () (Some (noOptions\<lparr>opt_timeout := TimeoutMs (Finite 0)\<rparr>)))
     = Some (Finite 0)"
    by (simp add: HttpTransport_new_def)
  have za: "armTimeout (Some (Finite 0)) freshRuntime = (None, None, freshRuntime)"
    by (simp add: armTimeout_def falsyNumber_def)
  have zr: "request (HttpTransport_new () (Some (noOptions\<lparr>opt_timeout := TimeoutMs (Finite 0)\<rparr>)))
         (respondingWith jsonReply) (statsCall None) freshRuntime
       = (Inr (JObj []),
          \<lparr>lastTimerId = 0, pendingTimers = [], controllers = 0,
           fetched = [\<lparr>req_url = statsURL, req_method = GET, req_init = (),
                       req_signal = None\<rparr>]\<rparr>)"
    by code_simp
  have n: "timeout (HttpTransport_new () (Some (noOptions\<lparr>opt_timeout := TimeoutNull\<rparr>)))
       = Some (Finite 10000)"
    by (simp add: HttpTransport_new_def)
  have na: "armTimeout (Some (Finite 10000)) freshRuntime
       = (Some 0, Some 1,
          \<lparr>lastTimerId = 1, pendingTimers = [(1, Finite 10000, 0)], controllers = 1,
           fetched = []\<rparr>)"
    by code_simp
  have nr: "request (HttpTransport_new () (Some (noOptions\<lparr>opt_timeout := TimeoutNull\<rparr>)))
         (respondingWith jsonReply) (statsCall None) freshRuntime
       = (Inr (JObj []),
          \<lparr>lastTimerId = 1, pendingTimers = [], controllers = 1,
           fetched = [\<lparr>req_url = statsURL, req_method = GET, req_init = (),
                       req_signal = Some (ControllerSignal 0)\<rparr>]\<rparr>)"
    by code_simp
  show ?thesis
    by (intro conjI z za zr n na nr)
qed

section \<open>Properties of the response schemas\<close>

lemma mergeOutcomes_Valid: "mergeOutcomes rs = Valid \<longleftrightarrow> list_all (\<lambda>r. r = Valid) rs"
proof -
  have "r = Valid \<or> r = Invalid \<or> r = Raised" for r
    by (cases r) simp_all
  then show ?thesis
    unfolding mergeOutcomes_def list_all_iff by (auto split: if_splits)
qed

lemma mergeOutcomes_not_Raised: "Raised \<notin> set rs \<Longrightarrow> mergeOutcomes rs \<noteq> Raised"
  by (simp add: mergeOutcomes_def)

lemma firstValid_not_Raised: "Raised \<notin> set rs \<Longrightarrow> firstValid rs \<noteq> Raised"
  by (induction rs rule: firstValid.induct) simp_all

text \<open>A schema whose members are all bound never throws.\<close>

lemma parse_bound: "bound S \<Longrightarrow> parse S v \<noteq> Raised"
proof (induction S v rule: parse.induct)
  case (6 opts v)
  have "parse S v \<noteq> Raised" if "S \<in> set opts" for S
    using 6 that by (simp add: list_all_iff)
  then have "Raised \<notin> set (map (\<lambda>S. parse S v) opts)"
    by (metis (no_types, lifting) imageE list.set_map)
  then show ?case
    by (simp add: firstValid_not_Raised)
next
  case (7 S v)
  show ?case
  proof (cases v)
    case (JArr xs)
    have "parse S x \<noteq> Raised" if "x \<in> set xs" for x
      using 7 JArr that by simp
    then have "Raised \<notin> set (map (parse S) xs)"
      by (metis (no_types, lifting) imageE list.set_map)
    with JArr show ?thesis
      by (simp add: mergeOutcomes_not_Raised)
  qed simp_all
next
  case (8 shape v)
  show ?case
  proof (cases v)
    case (JObj fs)
    have "parse S (lookupProp fs k) \<noteq> Raised" if "(k, S) \<in> set shape" for k S
      using 8 JObj that by (fastforce simp: list_all_iff)
    then have "Raised \<notin> set (map (\<lambda>(k, S). parse S (lookupProp fs k)) shape)"
      by (auto simp: image_iff split: prod.splits) metis
    with JObj show ?thesis
      by (simp add: mergeOutcomes_not_Raised)
  qed simp_all
next
  case (10 d opts v)
  show ?case
  proof (cases v)
    case (JObj fs)
    show ?thesis
    proof (cases "find (\<lambda>S. discriminatorValue d S = Some (lookupProp fs d)) opts")
      case None
      with JObj show ?thesis by simp
    next
      case (Some S)
      then have "S \<in> set opts"
        by (auto simp: find_Some_iff)
      with 10 JObj Some show ?thesis
        by (auto simp: list_all_iff)
    qed
  qed simp_all
qed (auto split: jsvalue.splits)

lemma accepts_ZObject:
  "accepts (ZObject shape) v
     \<longleftrightarrow> (case v of
           JObj fs \<Rightarrow> list_all (\<lambda>(k, S). accepts S (lookupProp fs k)) shape
         | _ \<Rightarrow> False)"
  by (cases v)
    (auto simp: accepts_def mergeOutcomes_Valid list_all_iff split: prod.splits)

lemma accepts_simps:
  "accepts ZString v \<longleftrightarrow> (case v of JStr s \<Rightarrow> True | _ \<Rightarrow> False)"
  "accepts (ZLiteral l) v \<longleftrightarrow> v = JStr l"
  "\<not> accepts (ZArray S) JUndefined"
  "\<not> accepts (ZObject shape) JUndefined"
  by (auto simp: accepts_def split: jsvalue.splits)

lemma accepts_envelopeSchema:
  "accepts (envelopeSchema D extra C) v \<longleftrightarrow> matchesEnvelope D extra C v"
proof (cases v)
  case (JObj fs)
  have ok: "discriminatorValue ''status''
              (ZObject ([(''status'', ZLiteral ''OK''), (''data'', D)] @ extra))
            = Some (JStr ''OK'')"
    by simp
  have er: "discriminatorValue ''status''
              (ZObject [(''status'', ZLiteral ''ERROR''),
                        (''error'', ZObject [(''code'', C), (''message'', ZString)])])
            = Some (JStr ''ERROR'')"
    by simp
  have obj: "accepts (ZObject [(''code'', C), (''message'', ZString)]) x
       \<longleftrightarrow> (case x of
              JObj e \<Rightarrow>
                accepts C (lookupProp e ''code'')
                \<and> (case lookupProp e ''message'' of JStr m \<Rightarrow> True | _ \<Rightarrow> False)
            | _ \<Rightarrow> False)" for x
    by (cases x) (simp_all add: accepts_ZObject accepts_simps)
  have du: "accepts (envelopeSchema D extra C) (JObj fs)
       \<longleftrightarrow> (if lookupProp fs ''status'' = JStr ''OK''
            then accepts (ZObject ([(''status'', ZLiteral ''OK''), (''data'', D)] @ extra))
                   (JObj fs)
            else if lookupProp fs ''status'' = JStr ''ERROR''
            then accepts (ZObject [(''status'', ZLiteral ''ERROR''),
                                   (''error'', ZObject [(''code'', C), (''message'', ZString)])])
                   (JObj fs)
            else False)"
    using ok er by (simp add: accepts_def envelopeSchema_def)
  have okObj: "accepts (ZObject ([(''status'', ZLiteral ''OK''), (''data'', D)] @ extra)) (JObj fs)
       \<longleftrightarrow> lookupProp fs ''status'' = JStr ''OK'' \<and> accepts D (lookupProp fs ''data'')
           \<and> list_all (\<lambda>(k, S). accepts S (lookupProp fs k)) extra"
    by (simp add: accepts_ZObject accepts_simps)
  have erObj: "accepts (ZObject [(''status'', ZLiteral ''ERROR''),
                                (''error'', ZObject [(''code'', C), (''message'', ZString)])])
                 (JObj fs)
       \<longleftrightarrow> lookupProp fs ''status'' = JStr ''ERROR''
           \<and> (case lookupProp fs ''error'' of
                 JObj e \<Rightarrow>
                   accepts C (lookupProp e ''code'')
                   \<and> (case lookupProp e ''message'' of JStr m \<Rightarrow> True | _ \<Rightarrow> False)
               | _ \<Rightarrow> False)"
    unfolding accepts_ZObject [where v = "JObj fs"] by (simp add: accepts_simps obj)
  show ?thesis
    unfolding JObj du okObj erObj by (auto simp: matchesEnvelope_def)
next
  case JUndefined
  then show ?thesis by (simp add: accepts_def envelopeSchema_def matchesEnvelope_def)
next
  case JNull
  then show ?thesis by (simp add: accepts_def envelopeSchema_def matchesEnvelope_def)
next
  case (JBool x)
  then show ?thesis by (simp add: accepts_def envelopeSchema_def matchesEnvelope_def)
next
  case (JNum x)
  then show ?thesis by (simp add: accepts_def envelopeSchema_def matchesEnvelope_def)
next
  case (JStr x)
  then show ?thesis by (simp add: accepts_def envelopeSchema_def matchesEnvelope_def)
next
  case (JArr x)
  then show ?thesis by (simp add: accepts_def envelopeSchema_def matchesEnvelope_def)
qed

lemma endpointSchemas_envelopes:
  "list_all (\<lambda>(R, D, extra, C). R = envelopeSchema D extra C) (endpointSchemas first)"
  by (simp add: endpointSchemas_def envelopeSchema_def
      GetExtendedMarketsResponseSchema_def GetExtendedMarketsSuccessSchema_def
      GetExtendedMarketsErrorSchema_def
      GetMarketStatsResponseSchema_def GetMarketStatsSuccessSchema_def
      GetMarketStatsErrorSchema_def
      GetMarketOrderBookResponseSchema_def GetMarketOrderBookSuccessSchema_def
      GetMarketOrderBookErrorSchema_def
      GetMarketTradesResponseSchema_def GetMarketTradesSuccessSchema_def
      GetMarketTradesErrorSchema_def
      GetCandlesHistoryResponseSchema_def GetCandlesHistorySuccessSchema_def
      GetCandlesHistoryErrorSchema_def
      GetFundingResponseSchema_def GetFundingHistorySuccessSchema_def
      GetFundingHistoryErrorSchema_def
      GetOpenInterestResponseSchema_def GetOpenInterestSuccessSchema_def
      GetOpenInterestErrorSchema_def)

lemma lookupProp_append_other:
  "k' \<noteq> k \<Longrightarrow> lookupProp (fs @ [(k, x)]) k' = lookupProp fs k'"
  by (simp add: lookupProp_def map_add_def split: option.splits)

lemma matchesEnvelope_extra_key:
  assumes "k \<noteq> ''status''" and "k \<noteq> ''data''" and "k \<noteq> ''error''"
    and "list_all (\<lambda>(k', S). k' \<noteq> k) extra"
  shows "matchesEnvelope D extra C (JObj (fs @ [(k, x)])) = matchesEnvelope D extra C (JObj fs)"
proof -
  have st: "lookupProp (fs @ [(k, x)]) ''status'' = lookupProp fs ''status''"
    using assms(1) by (simp add: lookupProp_append_other)
  have da: "lookupProp (fs @ [(k, x)]) ''data'' = lookupProp fs ''data''"
    using assms(2) by (simp add: lookupProp_append_other)
  have er: "lookupProp (fs @ [(k, x)]) ''error'' = lookupProp fs ''error''"
    using assms(3) by (simp add: lookupProp_append_other)
  have ex: "list_all (\<lambda>(k', S). accepts S (lookupProp (fs @ [(k, x)]) k')) extra
            = list_all (\<lambda>(k', S). accepts S (lookupProp fs k')) extra"
    using assms(4)
  proof (induction extra)
    case Nil
    show ?case by simp
  next
    case (Cons e extra)
    obtain k' S where e: "e = (k', S)" by (cases e)
    with Cons.prems have "k' \<noteq> k" by simp
    then have "lookupProp (fs @ [(k, x)]) k' = lookupProp fs k'"
      by (rule lookupProp_append_other)
    with Cons e show ?case by simp
  qed
  show ?thesis
    unfolding matchesEnvelope_def by (simp add: st da er ex)
qed

lemma endpointSchemas_shapes:
  "list_all (\<lambda>(R, D, extra, C).
       \<not> accepts D JUndefined
       \<and> list_all (\<lambda>(k', S). k' = ''pagination'') extra) (endpointSchemas first)"
  by (simp add: endpointSchemas_def MarketStatsWithDeleverageSchema_def MarketStatsSchema_def
      MarketOrderBookSchema_def accepts_simps)

lemma matchesEnvelope_missing:
  assumes "\<not> accepts D JUndefined"
  shows "lookupProp fs ''status'' = JStr ''OK'' \<Longrightarrow> lookupProp fs ''data'' = JUndefined
           \<Longrightarrow> \<not> matchesEnvelope D extra C (JObj fs)"
    and "lookupProp fs ''status'' = JStr ''ERROR'' \<Longrightarrow> lookupProp fs ''error'' = JUndefined
           \<Longrightarrow> \<not> matchesEnvelope D extra C (JObj fs)"
  using assms by (simp_all add: matchesEnvelope_def)

text \<open>
  Whichever module of the cycle is imported first, six of the seven response schemas
  have all their members bound: all but the schema of the market statistics when the
  module of the markets is first, all but the schema of the markets when the module of
  the market statistics is first.
\<close>

lemma endpointSchemas_bound:
  "map (\<lambda>(R, D, extra, C). bound R) (endpointSchemas MarketsFirst)
     = [True, False, True, True, True, True, True]"
  "map (\<lambda>(R, D, extra, C). bound R) (endpointSchemas StatsFirst)
     = [False, True, True, True, True, True, True]"
  by code_simp+

text \<open>
  The schema with the unbound member throws as soon as parsing reaches that member: the
  schema of the market statistics on an error envelope with an \<open>error\<close> object, the
  schema of the markets on a success envelope with a market object in its data.  On a
  value that keeps parsing away from the member it reports like the others.
\<close>

lemma unbound_member_raises:
  "safeParse (GetMarketStatsResponseSchema MarketsFirst) (JObj (errorEnvelope ''NOT_FOUND''))
     = Inl ParserTypeError"
  "safeParse (GetMarketStatsResponseSchema MarketsFirst) (JObj [(''status'', JStr ''ERROR'')])
     = Inr SafeParseError"
  "safeParse (GetExtendedMarketsResponseSchema StatsFirst)
     (JObj [(''status'', JStr ''OK''), (''data'', JArr [JObj []])])
     = Inl ParserTypeError"
  "safeParse (GetExtendedMarketsResponseSchema StatsFirst)
     (JObj [(''status'', JStr ''OK''), (''data'', JArr [])])
     = Inr SafeParseSuccess"
  by code_simp+

text \<open>
  C3, as amended.  For every response schema all of whose members are bound and every
  value: \<open>safeParse\<close> does not throw; it reports success exactly when the value is an
  object of one of the two envelope shapes, status \<open>"OK"\<close> with the data shape of the
  endpoint or status \<open>"ERROR"\<close> with a code of the endpoint's codes and a message
  string, and reports a validation failure otherwise.  A missing \<open>data\<close> or \<open>error\<close>
  field makes it report a failure.  A field the shape does not name makes no
  difference: the report with it is the report without it.
\<close>

theorem envelope_validation:
  assumes "(R, D, extra, C) \<in> set (endpointSchemas first)" and "bound R"
  shows
    "safeParse R v
       = Inr (if matchesEnvelope D extra C v then SafeParseSuccess else SafeParseError)
     \<and> (accepts R v \<longleftrightarrow> matchesEnvelope D extra C v)
     \<and> (k \<notin> {''status'', ''data'', ''error'', ''pagination''} \<longrightarrow>
          safeParse R (JObj (fs @ [(k, x)])) = safeParse R (JObj fs))
     \<and> (lookupProp fs ''status'' = JStr ''OK'' \<and> lookupProp fs ''data'' = JUndefined \<longrightarrow>
          safeParse R (JObj fs) = Inr SafeParseError)
     \<and> (lookupProp fs ''status'' = JStr ''ERROR'' \<and> lookupProp fs ''error'' = JUndefined \<longrightarrow>
          safeParse R (JObj fs) = Inr SafeParseError)"
proof -
  have R: "R = envelopeSchema D extra C"
    using endpointSchemas_envelopes assms(1) unfolding list_all_iff by fastforce
  have sh: "\<not> accepts D JUndefined" and pg: "list_all (\<lambda>(k', S). k' = ''pagination'') extra"
    using endpointSchemas_shapes assms(1) unfolding list_all_iff by fastforce+
  have acc: "accepts R w \<longleftrightarrow> matchesEnvelope D extra C w" for w
    unfolding R by (rule accepts_envelopeSchema)
  have nr: "parse R w \<noteq> Raised" for w
    using assms(2) by (rule parse_bound)
  have sp: "safeParse R w
       = Inr (if matchesEnvelope D extra C w then SafeParseSuccess else SafeParseError)" for w
    using nr [of w] acc [of w] by (cases "parse R w") (simp_all add: safeParse_def accepts_def)
  have extraKey: "k \<notin> {''status'', ''data'', ''error'', ''pagination''} \<Longrightarrow>
      matchesEnvelope D extra C (JObj (fs @ [(k, x)])) = matchesEnvelope D extra C (JObj fs)"
  proof -
    assume k: "k \<notin> {''status'', ''data'', ''error'', ''pagination''}"
    then have k1: "k \<noteq> ''status''" and k2: "k \<noteq> ''data''" and k3: "k \<noteq> ''error''"
      and k4: "k \<noteq> ''pagination''"
      by simp_all
    have "list_all (\<lambda>(k', S). k' \<noteq> k) extra"
      using pg k4 unfolding list_all_iff by fastforce
    with k1 k2 k3 show ?thesis
      by (rule matchesEnvelope_extra_key)
  qed
  show ?thesis
    unfolding sp using acc extraKey matchesEnvelope_missing [OF sh, of fs extra C]
    by simp
qed

theorem envelope_validation_witness:
  "(GetCandlesHistoryResponseSchema, ZArray CandleSchema, [], GeneralErrorCodeSchema)
     \<in> set (endpointSchemas MarketsFirst)
   \<and> bound GetCandlesHistoryResponseSchema
   \<and> safeParse GetCandlesHistoryResponseSchema (JObj candlesOK) = Inr SafeParseSuccess
   \<and> ''debug'' \<notin> {''status'', ''data'', ''error'', ''pagination''}
   \<and> safeParse GetCandlesHistoryResponseSchema (JObj (candlesOK @ [(''debug'', JBool True)]))
       = Inr SafeParseSuccess
   \<and> lookupProp [(''status'', JStr ''OK'')] ''data'' = JUndefined
   \<and> safeParse GetCandlesHistoryResponseSchema (JObj [(''status'', JStr ''OK'')])
       = Inr SafeParseError
   \<and> lookupProp [(''status'', JStr ''ERROR'')] ''error'' = JUndefined
   \<and> safeParse GetCandlesHistoryResponseSchema (JObj [(''status'', JStr ''ERROR'')])
       = Inr SafeParseError
   \<and> safeParse GetCandlesHistoryResponseSchema (JObj (errorEnvelope ''NOT_FOUND''))
       = Inr SafeParseSuccess
   \<and> safeParse GetCandlesHistoryResponseSchema (JObj (errorEnvelope ''MarketNotFound''))
       = Inr SafeParseError
   \<and> safeParse GetCandlesHistoryResponseSchema (JArr []) = Inr SafeParseError
   \<and> (GetMarketStatsResponseSchema StatsFirst, MarketStatsWithDeleverageSchema, [],
       importedMarketErrorCodeSchema StatsFirst) \<in> set (endpointSchemas StatsFirst)
   \<and> bound (GetMarketStatsResponseSchema StatsFirst)
   \<and> safeParse (GetMarketStatsResponseSchema StatsFirst) (JObj (errorEnvelope ''MarketNotFound''))
       = Inr SafeParseSuccess"
proof -
  have mem: "(GetCandlesHistoryResponseSchema, ZArray CandleSchema, [], GeneralErrorCodeSchema)
     \<in> set (endpointSchemas MarketsFirst)"
    by (simp add: endpointSchemas_def)
  have bnd: "bound GetCandlesHistoryResponseSchema"
    by code_simp
  have mem2: "(GetMarketStatsResponseSchema StatsFirst, MarketStatsWithDeleverageSchema, [],
       importedMarketErrorCodeSchema StatsFirst) \<in> set (endpointSchemas StatsFirst)"
    by (simp add: endpointSchemas_def)
  have bnd2: "bound (GetMarketStatsResponseSchema StatsFirst)"
    by code_simp
  have k: "''debug'' \<notin> {''status'', ''data'', ''error'', ''pagination''}"
    by simp
  have l1: "lookupProp [(''status'', JStr ''OK'')] ''status'' = JStr ''OK''
            \<and> lookupProp [(''status'', JStr ''OK'')] ''data'' = JUndefined"
    by (simp add: lookupProp_def)
  have l2: "lookupProp [(''status'', JStr ''OK'')] ''data'' = JUndefined"
    by (simp add: lookupProp_def)
  have l3: "lookupProp [(''status'', JStr ''ERROR'')] ''status'' = JStr ''ERROR''
            \<and> lookupProp [(''status'', JStr ''ERROR'')] ''error'' = JUndefined"
    by (simp add: lookupProp_def)
  have l4: "lookupProp [(''status'', JStr ''ERROR'')] ''error'' = JUndefined"
    by (simp add: lookupProp_def)
  have m1: "matchesEnvelope (ZArray CandleSchema) [] GeneralErrorCodeSchema (JObj candlesOK)"
    by code_simp
  have m2: "matchesEnvelope (ZArray CandleSchema) [] GeneralErrorCodeSchema
              (JObj (errorEnvelope ''NOT_FOUND''))"
    by code_simp
  have m3: "\<not> matchesEnvelope (ZArray CandleSchema) [] GeneralErrorCodeSchema
              (JObj (errorEnvelope ''MarketNotFound''))"
    by code_simp
  have m4: "\<not> matchesEnvelope (ZArray CandleSchema) [] GeneralErrorCodeSchema (JArr [])"
    by code_simp
  have m5: "matchesEnvelope MarketStatsWithDeleverageSchema []
              (importedMarketErrorCodeSchema StatsFirst) (JObj (errorEnvelope ''MarketNotFound''))"
    by code_simp
  note ev = envelope_validation [OF mem bnd]
  note parse = ev [THEN conjunct1]
  note extra = ev [THEN conjunct2, THEN conjunct2, THEN conjunct1, THEN mp]
  note noData = ev [THEN conjunct2, THEN conjunct2, THEN conjunct2, THEN conjunct1, THEN mp]
  note noError = ev [THEN conjunct2, THEN conjunct2, THEN conjunct2, THEN conjunct2, THEN mp]
  note parse2 = envelope_validation [OF mem2 bnd2, THEN conjunct1]
  have a1: "safeParse GetCandlesHistoryResponseSchema (JObj candlesOK) = Inr SafeParseSuccess"
    unfolding parse using m1 by (simp only: if_True)
  have a2: "safeParse GetCandlesHistoryResponseSchema (JObj (candlesOK @ [(''debug'', JBool True)]))
              = Inr SafeParseSuccess"
    unfolding extra [OF k] by (rule a1)
  have a3: "safeParse GetCandlesHistoryResponseSchema (JObj [(''status'', JStr ''OK'')])
              = Inr SafeParseError"
    by (rule noData [OF l1])
  have a4: "safeParse GetCandlesHistoryResponseSchema (JObj [(''status'', JStr ''ERROR'')])
              = Inr SafeParseError"
    by (rule noError [OF l3])
  have p1: "safeParse GetCandlesHistoryResponseSchema (JObj (errorEnvelope ''NOT_FOUND''))
              = Inr SafeParseSuccess"
    unfolding parse using m2 by (simp only: if_True)
  have p2: "safeParse GetCandlesHistoryResponseSchema (JObj (errorEnvelope ''MarketNotFound''))
              = Inr SafeParseError"
    unfolding parse using m3 by (simp only: if_False)
  have p3: "safeParse GetCandlesHistoryResponseSchema (JArr []) = Inr SafeParseError"
    unfolding parse using m4 by (simp only: if_False)
  have p4: "safeParse (GetMarketStatsResponseSchema StatsFirst)
              (JObj (errorEnvelope ''MarketNotFound'')) = Inr SafeParseSuccess"
    unfolding parse2 using m5 by (simp only: if_True)
  show ?thesis
    by (intro conjI mem bnd a1 k a2 l2 a3 l4 a4 p1 p2 p3 mem2 bnd2 p4)
qed

text \<open>
  The claim as stated fails on extra fields: a success payload with an unknown field
  at the top and another inside a candle is accepted.
\<close>

theorem extra_field_accepted_counterexample:
  "safeParse GetCandlesHistoryResponseSchema
     (JObj [(''status'', JStr ''OK''),
            (''data'', JArr [JObj [(''o'', JStr ''1''), (''c'', JStr ''2''), (''h'', JStr ''3''),
                                   (''l'', JStr ''0.5''), (''T'', JNum 1700000000000),
                                   (''unknown'', JNull)]]),
            (''serverTime'', JNum 1700000000001)])
   = Inr SafeParseSuccess"
  by code_simp


end
